theory Spec2Isabelle
  imports Complex_Main "HOL-Library.AList"
begin

section \<open>Errors\<close>

text \<open>
  Every validation failure of the two source files goes through
  \<^verbatim>\<open>gs.raise_exception(msg)\<close>; the Python runtime adds its own exceptions
  (\<^verbatim>\<open>KeyError\<close>, \<^verbatim>\<open>AttributeError\<close>, \<^verbatim>\<open>IndexError\<close>, \<^verbatim>\<open>TypeError\<close>,
  \<^verbatim>\<open>AssertionError\<close>, \<^verbatim>\<open>OSError\<close>).
  One constructor stands for one raise site; the message of the site is quoted where the
  constructor is used.
\<close>

datatype error =
    SceneNotBuilt
  | SceneAlreadyBuilt
  | ForwardAfterBackward
  | MultipleBackward
  | EmitterDifferentiable
  | EmitterMaterial
  | UnsupportedMaterialMorph
  | UnsupportedVisMode
  | UnknownMaterial
  | EnvSpacingInvalid
  | EnvsIdxNonParallel
  | EnvsIdxNot1D
  | EnvsIdxOutOfRange
  | NodeNameInvalid
  | NodeNameExists
  | UnsupportedSegLevel
  | PyKeyError
  | PyAttributeError
  | PyIndexError
  | PyTypeError
  | PyAssertionError
  | PyOSError

datatype error_kind =
    ConfigError
  | InvalidStateError
  | RangeError
  | DuplicateNameError
  | IOError
  | UnsupportedFeatureError
  | RuntimeFault

text \<open>
  Modelled from the spec: the error taxonomy of section 7. \<^verbatim>\<open>gs.raise_exception\<close> is not
  part of the two source files and raises one exception class for every message; the
  spec sorts the raise sites into kinds, and \<open>kind_of\<close> records that sorting.
\<close>

fun kind_of :: "error \<Rightarrow> error_kind" where
  "kind_of SceneNotBuilt = InvalidStateError"
| "kind_of SceneAlreadyBuilt = InvalidStateError"
| "kind_of ForwardAfterBackward = InvalidStateError"
| "kind_of MultipleBackward = InvalidStateError"
| "kind_of EmitterDifferentiable = ConfigError"
| "kind_of EmitterMaterial = ConfigError"
| "kind_of UnsupportedMaterialMorph = ConfigError"
| "kind_of UnsupportedVisMode = ConfigError"
| "kind_of UnknownMaterial = ConfigError"
| "kind_of EnvSpacingInvalid = ConfigError"
| "kind_of EnvsIdxNonParallel = ConfigError"
| "kind_of EnvsIdxNot1D = RangeError"
| "kind_of EnvsIdxOutOfRange = RangeError"
| "kind_of NodeNameInvalid = ConfigError"
| "kind_of NodeNameExists = DuplicateNameError"
| "kind_of UnsupportedSegLevel = UnsupportedFeatureError"
| "kind_of PyKeyError = RuntimeFault"
| "kind_of PyAttributeError = RuntimeFault"
| "kind_of PyIndexError = RuntimeFault"
| "kind_of PyTypeError = RuntimeFault"
| "kind_of PyAssertionError = UnsupportedFeatureError"
| "kind_of PyOSError = IOError"

text \<open>Sequencing of fallible steps: the first exception ends the run.\<close>

definition bindE :: "error + 'a \<Rightarrow> ('a \<Rightarrow> error + 'b) \<Rightarrow> error + 'b" where
  "bindE r f = (case r of Inl e \<Rightarrow> Inl e | Inr x \<Rightarrow> f x)"

fun forE :: "('a \<Rightarrow> 's \<Rightarrow> error + 's) \<Rightarrow> 'a list \<Rightarrow> 's \<Rightarrow> error + 's" where
  "forE f [] s = Inr s"
| "forE f (x # xs) s = bindE (f x s) (forE f xs)"

section \<open>Python dictionaries\<close>

text \<open>
  A \<^verbatim>\<open>dict\<close> keeps its keys in insertion order and holds each key once. It is an
  association list here: \<open>map_of\<close> reads a key, \<open>AList.update\<close> overwrites a key in
  place or appends a new one, \<open>AList.delete\<close> removes a key, and \<open>length\<close> is
  \<^verbatim>\<open>len\<close> as long as the keys are distinct.
\<close>

definition setdefault :: "('k \<times> 'v) list \<Rightarrow> 'k \<Rightarrow> 'v \<Rightarrow> 'v \<times> ('k \<times> 'v) list" where
  "setdefault d k v =
     (case map_of d k of
        Some v' \<Rightarrow> (v', d)
      | None \<Rightarrow> (v, d @ [(k, v)]))"

definition lookupE :: "('k \<times> 'v) list \<Rightarrow> 'k \<Rightarrow> error + 'v" where
  "lookupE d k = (case map_of d k of None \<Rightarrow> Inl PyKeyError | Some v \<Rightarrow> Inr v)"

text \<open>\<^verbatim>\<open>d.update(other)\<close>, and a run of assignments \<^verbatim>\<open>d[k] = v\<close>.\<close>

definition dict_update :: "('k \<times> 'v) list \<Rightarrow> ('k \<times> 'v) list \<Rightarrow> ('k \<times> 'v) list" where
  "dict_update d other = fold (\<lambda>(k, v). AList.update k v) other d"

section \<open>The render context (\<^verbatim>\<open>RasterizerContext\<close>)\<close>

type_synonym node = nat
type_synonym uid = nat

text \<open>
  A segmentation key is the entity index, the pair (entity, link) or the triple
  (entity, link, geom); the background key is the integer \<open>-1\<close>.
\<close>

datatype seg_key = KeyEntity int | KeyLink int int | KeyGeom int int int

definition background_key :: seg_key where
  "background_key = KeyEntity (- 1)"

text \<open>The \<^verbatim>\<open>name\<close> attribute of an object handed to the context.\<close>

datatype py_name = NoAttr | PyNone | PyStr string

fun truthy_name :: "py_name \<Rightarrow> bool" where
  "truthy_name NoAttr = False"
| "truthy_name PyNone = False"
| "truthy_name (PyStr s) = (s \<noteq> [])"

record render_obj =
  obj_name :: py_name
  obj_data :: nat

datatype buf_kind = Model | Pos | Normal

type_synonym bufid = "node \<times> buf_kind"

text \<open>
  The numeric payload of a buffer update is kept symbolic: it names the solver array the
  source computes it from. The arrays \<^verbatim>\<open>_geoms_render_T\<close>, \<^verbatim>\<open>_vgeoms_render_T\<close>,
  \<^verbatim>\<open>particles_render\<close> and \<^verbatim>\<open>vverts_render\<close> are render-only fields of the solvers;
  a payload read from them also names the time index they were last recomputed for
  (\<open>None\<close> before the first recomputation). \<open>StateVerts\<close> is what
  \<^verbatim>\<open>fem_solver.get_state_render\<close> returns.
\<close>

datatype payload =
    LinkFrameT nat
  | ToolT uid
  | GeomT bool nat "int option"
  | ParticleT uid "int option"
  | VertsPos uid "int option"
  | VertsNormal uid "int option"
  | StateVerts uid

text \<open>The fields of the options object that the modelled methods read.\<close>

record vis_options =
  opt_segmentation_level :: string
  opt_render_particle_as :: string
  opt_rendered_envs_idx :: "nat list option"

record ctx =
  segmentation_level :: string
  render_particle_as :: string
  rendered_envs_idx :: "nat list option"
  link_frame_shown :: bool
  ctx_t :: "int option"
  buffer :: "(bufid \<times> payload) list"
  link_frame_nodes :: "(uid \<times> node) list"
  rigid_nodes :: "(uid \<times> node) list"
  static_nodes :: "(uid \<times> node) list"
  dynamic_nodes :: "node list"
  external_nodes :: "(string \<times> node) list"
  seg_node_map :: "(node \<times> nat \<times> nat \<times> nat) list"
  seg_idxc_map :: "(nat \<times> seg_key) list"
  seg_key_map :: "(seg_key \<times> nat) list"
  scene_nodes :: "(node \<times> render_obj) list"
  next_node :: node
  scene_bounds :: "nat option"
  node_poses :: "(node \<times> payload) list"
  mesh_poses :: "(node \<times> payload) list"
  reflection :: "payload option"
  visual_states_t :: "int option"

text \<open>
  \<^verbatim>\<open>__init__\<close> and \<^verbatim>\<open>init_meshes\<close>: empty registries, the background entry in both
  segmentation tables. \<^verbatim>\<open>_t\<close> is not assigned before the first \<^verbatim>\<open>reset\<close>. The
  renderer scene graph (\<open>scene_nodes\<close>, \<open>next_node\<close>, \<open>scene_bounds\<close>, \<open>node_poses\<close>,
  \<open>mesh_poses\<close>, \<open>reflection\<close>) is created by \<^verbatim>\<open>build\<close>; it starts empty here.
  \<open>visual_states_t\<close> is the time index the render-only fields of the solvers were last
  recomputed for.
\<close>

definition init_ctx :: "vis_options \<Rightarrow> ctx" where
  "init_ctx options =
     \<lparr> segmentation_level = opt_segmentation_level options,
       render_particle_as = opt_render_particle_as options,
       rendered_envs_idx = opt_rendered_envs_idx options,
       link_frame_shown = False,
       ctx_t = None,
       buffer = [],
       link_frame_nodes = [],
       rigid_nodes = [],
       static_nodes = [],
       dynamic_nodes = [],
       external_nodes = [],
       seg_node_map = [],
       seg_idxc_map = [(0, background_key)],
       seg_key_map = [(background_key, 0)],
       scene_nodes = [],
       next_node = 0,
       scene_bounds = None,
       node_poses = [],
       mesh_poses = [],
       reflection = None,
       visual_states_t = None \<rparr>"

text \<open>\<^verbatim>\<open>reset\<close>: \<^verbatim>\<open>self._t = -1\<close>.\<close>

definition ctx_reset :: "ctx \<Rightarrow> ctx" where
  "ctx_reset c = c\<lparr>ctx_t := Some (- 1)\<rparr>"

text \<open>
  Modelled from the spec: the renderer backend behind \<^verbatim>\<open>self._scene\<close> (pyrender is not
  part of the source files). \<^verbatim>\<open>add\<close> is a node creation request that answers with a
  new node handle, \<^verbatim>\<open>remove_node\<close> a removal request.
\<close>

definition add_node :: "render_obj \<Rightarrow> ctx \<Rightarrow> node \<times> ctx" where
  "add_node obj c =
     (next_node c,
      c\<lparr>scene_nodes := scene_nodes c @ [(next_node c, obj)], next_node := Suc (next_node c)\<rparr>)"

definition remove_node :: "node \<Rightarrow> ctx \<Rightarrow> ctx" where
  "remove_node n c = c\<lparr>scene_nodes := AList.delete n (scene_nodes c)\<rparr>"

subsection \<open>Segmentation table\<close>

text \<open>
  \<^verbatim>\<open>seg_idxc = self.seg_key_map.setdefault(seg_key, len(self.seg_key_map))\<close>,
  \<^verbatim>\<open>self.seg_idxc_map[seg_idxc] = seg_key\<close>.
\<close>

definition seg_key_to_idxc :: "seg_key \<Rightarrow> ctx \<Rightarrow> nat \<times> ctx" where
  "seg_key_to_idxc seg_key c =
     (case setdefault (seg_key_map c) seg_key (length (seg_key_map c)) of
        (seg_idxc, m) \<Rightarrow>
          (seg_idxc,
           c\<lparr>seg_key_map := m,
             seg_idxc_map := AList.update seg_idxc seg_key (seg_idxc_map c)\<rparr>))"

definition seg_idxc_to_idxc_rgb :: "nat \<Rightarrow> nat \<times> nat \<times> nat" where
  "seg_idxc_to_idxc_rgb seg_idxc =
     ((seg_idxc div 65536) mod 256, (seg_idxc div 256) mod 256, seg_idxc mod 256)"

definition seg_idxc_to_key :: "nat \<Rightarrow> ctx \<Rightarrow> error + seg_key" where
  "seg_idxc_to_key seg_idxc c = lookupE (seg_idxc_map c) seg_idxc"

definition create_node_seg :: "seg_key \<Rightarrow> node option \<Rightarrow> ctx \<Rightarrow> ctx" where
  "create_node_seg seg_key seg_node c =
     (case seg_key_to_idxc seg_key c of
        (seg_idxc, c1) \<Rightarrow>
          (case seg_node of
             None \<Rightarrow> c1
           | Some n \<Rightarrow>
               c1\<lparr>seg_node_map := AList.update n (seg_idxc_to_idxc_rgb seg_idxc) (seg_node_map c1)\<rparr>))"

definition remove_node_seg :: "node \<Rightarrow> ctx \<Rightarrow> ctx" where
  "remove_node_seg seg_node c = c\<lparr>seg_node_map := AList.delete seg_node (seg_node_map c)\<rparr>"

text \<open>A run of queries, one after the other, with the ids they return.\<close>

fun seg_keys_to_idxcs :: "seg_key list \<Rightarrow> ctx \<Rightarrow> nat list \<times> ctx" where
  "seg_keys_to_idxcs [] c = ([], c)"
| "seg_keys_to_idxcs (k # ks) c =
     (case seg_key_to_idxc k c of
        (i, c1) \<Rightarrow> (case seg_keys_to_idxcs ks c1 of (ids, c2) \<Rightarrow> (i # ids, c2)))"

subsection \<open>Node registries\<close>

record geom =
  geom_uid :: uid
  geom_idx :: nat
  geom_entity_idx :: int
  geom_link_idx :: int

record entity_ref =
  ent_uid :: uid
  ent_idx :: int

text \<open>
  \<^verbatim>\<open>add_rigid_node\<close>: the \<^verbatim>\<open>"geom"\<close> level stops at \<^verbatim>\<open>assert False\<close>, an unknown
  level at \<^verbatim>\<open>"Unsupported segmentation level"\<close>; both after the node was added and
  registered.
\<close>

definition add_rigid_node :: "geom \<Rightarrow> render_obj \<Rightarrow> ctx \<Rightarrow> error + ctx" where
  "add_rigid_node g obj c =
     (case add_node obj c of
        (rigid_node, c1) \<Rightarrow>
          (let c2 = c1\<lparr>rigid_nodes := AList.update (geom_uid g) rigid_node (rigid_nodes c1)\<rparr> in
           if segmentation_level c2 = ''geom'' then Inl PyAssertionError
           else if segmentation_level c2 = ''link'' then
             Inr (create_node_seg (KeyLink (geom_entity_idx g) (geom_link_idx g)) (Some rigid_node) c2)
           else if segmentation_level c2 = ''entity'' then
             Inr (create_node_seg (KeyEntity (geom_entity_idx g)) (Some rigid_node) c2)
           else Inl UnsupportedSegLevel))"

definition add_static_node :: "entity_ref \<Rightarrow> render_obj \<Rightarrow> ctx \<Rightarrow> ctx" where
  "add_static_node e obj c =
     (case add_node obj c of
        (static_node, c1) \<Rightarrow>
          create_node_seg (KeyEntity (ent_idx e)) (Some static_node)
            (c1\<lparr>static_nodes := AList.update (ent_uid e) static_node (static_nodes c1)\<rparr>))"

text \<open>
  \<^verbatim>\<open>add_dynamic_node(entity, obj)\<close>: both arguments may be \<^verbatim>\<open>None\<close>.
\<close>

definition add_dynamic_node :: "entity_ref option \<Rightarrow> render_obj option \<Rightarrow> ctx \<Rightarrow> ctx" where
  "add_dynamic_node entity obj c =
     (case (case obj of
              Some ob \<Rightarrow>
                (case add_node ob c of
                   (dynamic_node, c1) \<Rightarrow>
                     (Some dynamic_node, c1\<lparr>dynamic_nodes := dynamic_nodes c1 @ [dynamic_node]\<rparr>))
            | None \<Rightarrow> (None, c)) of
        (dynamic_node, c2) \<Rightarrow>
          (case entity of
             Some e \<Rightarrow> create_node_seg (KeyEntity (ent_idx e)) dynamic_node c2
           | None \<Rightarrow> c2))"

text \<open>
  \<^verbatim>\<open>add_external_node\<close>: \<^verbatim>\<open>"Node must have a valid 'name' attribute."\<close> when the
  attribute is missing or falsy, then \<^verbatim>\<open>"A node with the name ... already exists."\<close>
\<close>

definition add_external_node :: "render_obj \<Rightarrow> ctx \<Rightarrow> error + ctx" where
  "add_external_node obj c =
     (if \<not> truthy_name (obj_name obj) then Inl NodeNameInvalid
      else (case obj_name obj of
              PyStr nm \<Rightarrow>
                (if map_of (external_nodes c) nm \<noteq> None then Inl NodeNameExists
                 else (case add_node obj c of
                         (n, c1) \<Rightarrow>
                           Inr (c1\<lparr>external_nodes := AList.update nm n (external_nodes c1)\<rparr>)))
            | _ \<Rightarrow> Inl NodeNameInvalid))"

fun clear_dynamic_nodes_loop :: "node list \<Rightarrow> ctx \<Rightarrow> ctx" where
  "clear_dynamic_nodes_loop [] c = c"
| "clear_dynamic_nodes_loop (dynamic_node # ns) c =
     clear_dynamic_nodes_loop ns (remove_node dynamic_node (remove_node_seg dynamic_node c))"

definition clear_dynamic_nodes :: "ctx \<Rightarrow> ctx" where
  "clear_dynamic_nodes c = (clear_dynamic_nodes_loop (dynamic_nodes c) c)\<lparr>dynamic_nodes := []\<rparr>"

text \<open>
  \<^verbatim>\<open>clear_external_node(node)\<close> reads \<^verbatim>\<open>node.name\<close> without a guard: an object
  with no such attribute raises \<^verbatim>\<open>AttributeError\<close>; \<^verbatim>\<open>None\<close> is never a key.
\<close>

definition clear_external_node :: "render_obj \<Rightarrow> ctx \<Rightarrow> error + ctx" where
  "clear_external_node obj c =
     (case obj_name obj of
        NoAttr \<Rightarrow> Inl PyAttributeError
      | PyNone \<Rightarrow> Inr c
      | PyStr nm \<Rightarrow>
          (case map_of (external_nodes c) nm of
             Some n \<Rightarrow> Inr ((remove_node n c)\<lparr>external_nodes := AList.delete nm (external_nodes c)\<rparr>)
           | None \<Rightarrow> Inr c))"

fun clear_external_nodes_loop :: "node list \<Rightarrow> ctx \<Rightarrow> ctx" where
  "clear_external_nodes_loop [] c = c"
| "clear_external_nodes_loop (n # ns) c = clear_external_nodes_loop ns (remove_node n c)"

definition clear_external_nodes :: "ctx \<Rightarrow> ctx" where
  "clear_external_nodes c =
     (clear_external_nodes_loop (map snd (external_nodes c)) c)\<lparr>external_nodes := []\<rparr>"

text \<open>
  The two segmentation tables agree: the keys are distinct, the ids are \<open>0, 1, 2, ...\<close>
  in insertion order, and \<open>seg_idxc_map\<close> is \<open>seg_key_map\<close> read backwards.
\<close>

definition seg_inv :: "ctx \<Rightarrow> bool" where
  "seg_inv c \<longleftrightarrow>
     distinct (map fst (seg_key_map c)) \<and>
     map snd (seg_key_map c) = [0..<length (seg_key_map c)] \<and>
     seg_idxc_map c = map (\<lambda>(k, i). (i, k)) (seg_key_map c)"

section \<open>Resynchronisation (\<^verbatim>\<open>RasterizerContext.update\<close>)\<close>

text \<open>
  Modelled from the spec: the solver contract of section 6, as far as the update methods
  read it. The solvers are not part of the source files; \<open>world\<close> holds what one
  resync pass reads from them: whether a solver is active, its entities with their
  fixed visualisation mode, the links, and the contacts of the first environment. The
  numbers themselves stay symbolic (\<open>payload\<close>).
\<close>

record link =
  link_uid :: uid
  link_idx :: nat
  visualize_contact :: bool

record rigid_entity =
  re_vis_mode :: string
  re_vgeoms :: "geom list"
  re_geoms :: "geom list"
  re_is_plane :: bool

record soft_entity =
  se_ref :: entity_ref
  se_vis_mode :: string
  se_has_normals :: bool

text \<open>
  A contact touches two links; \<open>force_nonzero\<close> and \<open>normal_nonzero\<close> say whether the
  scaled force and the scaled normal have a positive norm, which is what
  \<^verbatim>\<open>draw_debug_arrow\<close> tests before it creates an arrow.
\<close>

record contact =
  link_a :: nat
  link_b :: nat
  force_nonzero :: bool
  normal_nonzero :: bool

record world =
  rigid_active :: bool
  rigid_links :: "link list"
  rigid_entities :: "rigid_entity list"
  rigid_contacts :: "contact list"
  tool_active :: bool
  tool_entities :: "entity_ref list"
  avatar_active :: bool
  avatar_entities :: "rigid_entity list"
  mpm_active :: bool
  mpm_entities :: "soft_entity list"
  sph_active :: bool
  sph_entities :: "soft_entity list"
  pbd_active :: bool
  pbd_entities :: "soft_entity list"
  fem_active :: bool
  fem_entities :: "soft_entity list"
  bufid_has_mesh :: bool

text \<open>
  Modelled from the spec: \<^verbatim>\<open>self._scene.get_buffer_id(node, kind)\<close> answers with the
  stable buffer slot of a node; the slot is the pair of the node and the kind here.
\<close>

definition get_buffer_id :: "node \<Rightarrow> buf_kind \<Rightarrow> bufid" where
  "get_buffer_id n k = (n, k)"

definition set_buffer :: "bufid \<Rightarrow> payload \<Rightarrow> ctx \<Rightarrow> ctx" where
  "set_buffer b p c = c\<lparr>buffer := AList.update b p (buffer c)\<rparr>"

definition set_node_pose :: "node \<Rightarrow> payload \<Rightarrow> ctx \<Rightarrow> ctx" where
  "set_node_pose n p c = c\<lparr>node_poses := AList.update n p (node_poses c)\<rparr>"

definition set_reflection_mat :: "payload \<Rightarrow> ctx \<Rightarrow> ctx" where
  "set_reflection_mat p c = c\<lparr>reflection := Some p\<rparr>"

text \<open>\<^verbatim>\<open>self.rendered_envs_idx[0]\<close>.\<close>

definition first_rendered_env :: "ctx \<Rightarrow> error + nat" where
  "first_rendered_env c =
     (case rendered_envs_idx c of
        None \<Rightarrow> Inl PyTypeError
      | Some [] \<Rightarrow> Inl PyIndexError
      | Some (i # _) \<Rightarrow> Inr i)"

definition update_link_frame :: "world \<Rightarrow> ctx \<Rightarrow> error + ctx" where
  "update_link_frame w c =
     (if link_frame_shown c then
        if rigid_active w then
          forE (\<lambda>link c1.
                  bindE (lookupE (link_frame_nodes c1) (link_uid link))
                    (\<lambda>n. Inr (set_buffer (get_buffer_id n Model) (LinkFrameT (link_idx link)) c1)))
               (rigid_links w) c
        else Inr c
      else Inr c)"

definition update_tool :: "world \<Rightarrow> ctx \<Rightarrow> error + ctx" where
  "update_tool w c =
     (if tool_active w then
        forE (\<lambda>tool_entity c1.
                bindE (lookupE (static_nodes c1) (ent_uid tool_entity))
                  (\<lambda>n. Inr (set_node_pose n (ToolT (ent_uid tool_entity)) c1)))
             (tool_entities w) c
      else Inr c)"

text \<open>
  \<^verbatim>\<open>update_rigid\<close>: the visual geoms when the mode is \<^verbatim>\<open>"visual"\<close>, the collision
  geoms otherwise; per geom the pose goes to the mesh of the node and to the buffer, and
  a plane also sets the reflection matrix.
\<close>

definition update_rigid_geom :: "rigid_entity \<Rightarrow> geom \<Rightarrow> ctx \<Rightarrow> error + ctx" where
  "update_rigid_geom rigid_entity g c =
     (let geom_T = GeomT (re_vis_mode rigid_entity = ''visual'') (geom_idx g) (visual_states_t c) in
      bindE (lookupE (rigid_nodes c) (geom_uid g))
        (\<lambda>n. let c1 = c\<lparr>mesh_poses := AList.update n geom_T (mesh_poses c)\<rparr>;
                  c2 = set_buffer (get_buffer_id n Model) geom_T c1
              in Inr (if re_is_plane rigid_entity then set_reflection_mat geom_T c2 else c2)))"

definition update_rigid :: "world \<Rightarrow> ctx \<Rightarrow> error + ctx" where
  "update_rigid w c =
     (if rigid_active w then
        forE (\<lambda>rigid_entity.
                forE (update_rigid_geom rigid_entity)
                  (if re_vis_mode rigid_entity = ''visual'' then re_vgeoms rigid_entity
                   else re_geoms rigid_entity))
             (rigid_entities w) c
      else Inr c)"

text \<open>
  \<^verbatim>\<open>draw_debug_arrow(..., persistent=False)\<close>: an arrow of positive length becomes a
  dynamic node that belongs to no entity; a zero vector draws nothing.
\<close>

definition draw_transient_arrow :: "bool \<Rightarrow> ctx \<Rightarrow> ctx" where
  "draw_transient_arrow nonzero c =
     (if nonzero
      then add_dynamic_node None (Some \<lparr>obj_name = PyStr ''debug_arrow'', obj_data = 0\<rparr>) c
      else c)"

definition update_contact_link :: "world \<Rightarrow> contact \<Rightarrow> nat \<Rightarrow> ctx \<Rightarrow> error + ctx" where
  "update_contact_link w ct link_index c =
     (if link_index < length (rigid_links w) then
        if visualize_contact (rigid_links w ! link_index) then
          Inr (draw_transient_arrow (normal_nonzero ct) (draw_transient_arrow (force_nonzero ct) c))
        else Inr c
      else Inl PyIndexError)"

definition update_contact :: "world \<Rightarrow> ctx \<Rightarrow> error + ctx" where
  "update_contact w c =
     (if rigid_active w \<and> list_ex visualize_contact (rigid_links w) then
        forE (\<lambda>ct c1. bindE (update_contact_link w ct (link_a ct) c1)
                         (update_contact_link w ct (link_b ct)))
             (rigid_contacts w) c
      else Inr c)"

text \<open>
  \<^verbatim>\<open>update_avatar\<close> binds \<^verbatim>\<open>node\<close> to the buffer slot id and then writes
  \<^verbatim>\<open>node.mesh._bounds\<close>: whether a slot id has a \<^verbatim>\<open>mesh\<close> attribute is the
  backend's matter (\<open>bufid_has_mesh\<close>); without it the statement raises
  \<^verbatim>\<open>AttributeError\<close>.
\<close>

definition update_avatar_geom :: "world \<Rightarrow> rigid_entity \<Rightarrow> geom \<Rightarrow> ctx \<Rightarrow> error + ctx" where
  "update_avatar_geom w avatar_entity g c =
     (let geom_T = GeomT (re_vis_mode avatar_entity = ''visual'') (geom_idx g) (visual_states_t c) in
      bindE (lookupE (rigid_nodes c) (geom_uid g))
        (\<lambda>n. if bufid_has_mesh w
              then Inr (set_buffer (get_buffer_id n Model) geom_T c)
              else Inl PyAttributeError))"

definition update_avatar :: "world \<Rightarrow> ctx \<Rightarrow> error + ctx" where
  "update_avatar w c =
     (if avatar_active w then
        forE (\<lambda>avatar_entity.
                forE (update_avatar_geom w avatar_entity)
                  (if re_vis_mode avatar_entity = ''visual'' then re_vgeoms avatar_entity
                   else re_geoms avatar_entity))
             (avatar_entities w) c
      else Inr c)"

text \<open>A mesh built from solver data for one entity; it carries no name.\<close>

definition entity_mesh :: "soft_entity \<Rightarrow> render_obj" where
  "entity_mesh e = \<lparr>obj_name = PyNone, obj_data = ent_uid (se_ref e)\<rparr>"

definition update_particles :: "soft_entity \<Rightarrow> ctx \<Rightarrow> error + ctx" where
  "update_particles e c =
     bindE (lookupE (static_nodes c) (ent_uid (se_ref e)))
       (\<lambda>n. Inr (set_buffer (get_buffer_id n Model) (ParticleT (ent_uid (se_ref e)) (visual_states_t c)) c))"

text \<open>
  Vertex positions, and the normals when \<^verbatim>\<open>jit.update_normal\<close> answers with data.
\<close>

definition update_verts :: "soft_entity \<Rightarrow> ctx \<Rightarrow> error + ctx" where
  "update_verts e c =
     bindE (lookupE (static_nodes c) (ent_uid (se_ref e)))
       (\<lambda>n. let c1 = set_buffer (get_buffer_id n Pos)
                         (VertsPos (ent_uid (se_ref e)) (visual_states_t c)) c
             in Inr (if se_has_normals e
                     then set_buffer (get_buffer_id n Normal)
                            (VertsNormal (ent_uid (se_ref e)) (visual_states_t c)) c1
                     else c1))"

definition update_mpm_entity :: "soft_entity \<Rightarrow> ctx \<Rightarrow> error + ctx" where
  "update_mpm_entity e c =
     (if se_vis_mode e = ''recon'' then
        Inr (add_dynamic_node (Some (se_ref e)) (Some (entity_mesh e)) c)
      else if se_vis_mode e = ''particle'' then update_particles e c
      else if se_vis_mode e = ''visual'' then
        Inr (add_dynamic_node (Some (se_ref e)) (Some (entity_mesh e)) c)
      else Inr c)"

definition update_mpm :: "world \<Rightarrow> ctx \<Rightarrow> error + ctx" where
  "update_mpm w c =
     (if mpm_active w then
        bindE (first_rendered_env c) (\<lambda>idx. forE update_mpm_entity (mpm_entities w) c)
      else Inr c)"

definition update_sph_entity :: "soft_entity \<Rightarrow> ctx \<Rightarrow> error + ctx" where
  "update_sph_entity e c =
     (if se_vis_mode e = ''recon'' then
        Inr (add_dynamic_node (Some (se_ref e)) (Some (entity_mesh e)) c)
      else if se_vis_mode e = ''particle'' then update_particles e c
      else Inr c)"

definition update_sph :: "world \<Rightarrow> ctx \<Rightarrow> error + ctx" where
  "update_sph w c =
     (if sph_active w then
        bindE (first_rendered_env c) (\<lambda>idx. forE update_sph_entity (sph_entities w) c)
      else Inr c)"

definition update_pbd_entity :: "soft_entity \<Rightarrow> ctx \<Rightarrow> error + ctx" where
  "update_pbd_entity e c =
     (if se_vis_mode e = ''recon'' then
        Inr (add_dynamic_node (Some (se_ref e)) (Some (entity_mesh e)) c)
      else if se_vis_mode e = ''particle'' then
        (if render_particle_as c = ''sphere'' then update_particles e c
         else if render_particle_as c = ''tet'' then update_verts e c
         else Inr c)
      else if se_vis_mode e = ''visual'' then update_verts e c
      else Inr c)"

definition update_pbd :: "world \<Rightarrow> ctx \<Rightarrow> error + ctx" where
  "update_pbd w c =
     (if pbd_active w then
        bindE (first_rendered_env c) (\<lambda>idx. forE update_pbd_entity (pbd_entities w) c)
      else Inr c)"

definition update_fem_entity :: "soft_entity \<Rightarrow> ctx \<Rightarrow> error + ctx" where
  "update_fem_entity e c =
     (if se_vis_mode e = ''visual'' then
        bindE (lookupE (static_nodes c) (ent_uid (se_ref e)))
          (\<lambda>n. Inr (set_buffer (get_buffer_id n Pos) (StateVerts (ent_uid (se_ref e))) c))
      else Inr c)"

definition update_fem :: "world \<Rightarrow> ctx \<Rightarrow> error + ctx" where
  "update_fem w c =
     (if fem_active w then
        bindE (first_rendered_env c) (\<lambda>idx. forE update_fem_entity (fem_entities w) c)
      else Inr c)"

text \<open>
  Modelled from the spec: \<^verbatim>\<open>self.visualizer.update_visual_states()\<close> is not part of
  the source files; by section 4.2 it recomputes the visualisation-only derived state,
  the render-only fields of the solvers. The context has the time index of the scene in
  \<^verbatim>\<open>_t\<close> when the call is made.
\<close>

definition update_visual_states :: "ctx \<Rightarrow> ctx" where
  "update_visual_states c = c\<lparr>visual_states_t := ctx_t c\<rparr>"

text \<open>
  The body of \<^verbatim>\<open>update\<close> after the early return, statement by statement.
\<close>

definition resync :: "world \<Rightarrow> ctx \<Rightarrow> error + ctx" where
  "resync w c =
     (let c1 = clear_dynamic_nodes c;
          c2 = update_visual_states c1;
          c3 = c2\<lparr>scene_bounds := None\<rparr>;
          c4 = c3\<lparr>buffer := []\<rparr>
      in bindE (update_link_frame w c4) (\<lambda>c5.
         bindE (update_tool w c5) (\<lambda>c6.
         bindE (update_rigid w c6) (\<lambda>c7.
         bindE (update_contact w c7) (\<lambda>c8.
         bindE (update_avatar w c8) (\<lambda>c9.
         bindE (update_mpm w c9) (\<lambda>c10.
         bindE (update_sph w c10) (\<lambda>c11.
         bindE (update_pbd w c11) (\<lambda>c12.
                update_fem w c12)))))))))"

text \<open>
  \<^verbatim>\<open>update\<close>: \<^verbatim>\<open>if self._t >= self.scene._t: return\<close>, then
  \<^verbatim>\<open>self._t = self.scene._t\<close> and the pass. Reading \<^verbatim>\<open>self._t\<close> before any
  \<^verbatim>\<open>reset\<close> raises \<^verbatim>\<open>AttributeError\<close>.
\<close>

definition update :: "world \<Rightarrow> int \<Rightarrow> ctx \<Rightarrow> error + ctx" where
  "update w scene_t c =
     (case ctx_t c of
        None \<Rightarrow> Inl PyAttributeError
      | Some t \<Rightarrow>
          if t \<ge> scene_t then Inr c
          else resync w (c\<lparr>ctx_t := Some scene_t\<rparr>))"


section \<open>The resync pass in the words of the specification\<close>

text \<open>
  What a family update does to the context, one entry at a time: it writes an entry of
  the buffer-update map, sets the pose of a node or of the mesh of a node, sets the
  reflection matrix, or creates a dynamic node (for an entity or for none), which gets the
  next handle of the scene graph, joins the dynamic list and, with an entity, the
  segmentation map.
\<close>

datatype effect =
    Write bufid payload
  | Pose node payload
  | MeshPose node payload
  | Reflect payload
  | Spawn "entity_ref option" render_obj

fun apply_effect :: "effect \<Rightarrow> ctx \<Rightarrow> ctx" where
  "apply_effect (Write k v) c = c\<lparr>buffer := AList.update k v (buffer c)\<rparr>"
| "apply_effect (Pose n p) c = c\<lparr>node_poses := AList.update n p (node_poses c)\<rparr>"
| "apply_effect (MeshPose n p) c = c\<lparr>mesh_poses := AList.update n p (mesh_poses c)\<rparr>"
| "apply_effect (Reflect p) c = c\<lparr>reflection := Some p\<rparr>"
| "apply_effect (Spawn e obj) c =
     (let c1 = c\<lparr>scene_nodes := scene_nodes c @ [(next_node c, obj)],
                  next_node := Suc (next_node c),
                  dynamic_nodes := dynamic_nodes c @ [next_node c]\<rparr>
      in case e of
           None \<Rightarrow> c1
         | Some r \<Rightarrow> create_node_seg (KeyEntity (ent_idx r)) (Some (next_node c)) c1)"

text \<open>The part of the context the family updates read and never change.\<close>

record stable =
  st_link_frame_shown :: bool
  st_link_frame_nodes :: "(uid \<times> node) list"
  st_rigid_nodes :: "(uid \<times> node) list"
  st_static_nodes :: "(uid \<times> node) list"
  st_render_particle_as :: string
  st_visual_states_t :: "int option"

definition stable_of :: "ctx \<Rightarrow> stable" where
  "stable_of c =
     \<lparr> st_link_frame_shown = link_frame_shown c,
       st_link_frame_nodes = link_frame_nodes c,
       st_rigid_nodes = rigid_nodes c,
       st_static_nodes = static_nodes c,
       st_render_particle_as = render_particle_as c,
       st_visual_states_t = visual_states_t c \<rparr>"

text \<open>The entries for a registered node; nothing for a key the registry lacks.\<close>

definition at_node :: "(uid \<times> node) list \<Rightarrow> uid \<Rightarrow> (node \<Rightarrow> effect list) \<Rightarrow> effect list" where
  "at_node reg u f = (case map_of reg u of Some n \<Rightarrow> f n | None \<Rightarrow> [])"

text \<open>
  The families. Link frames: the pose of every link, when link frames are shown. Tool:
  the pose of every tool entity. Rigid and avatar: the render transform of every shown
  geom (the visual geoms in mode \<^verbatim>\<open>"visual"\<close>, the collision geoms otherwise); for a
  rigid geom also on the mesh of the node, and as reflection matrix for a plane. Contact
  arrows: for either link of a contact that is flagged, a force arrow and a normal arrow,
  each only when it has a length. MPM, SPH, PBD and FEM: by the visualisation mode of the
  entity, a reconstructed mesh as a new dynamic node, or entries for the static node.
\<close>

definition link_frame_effects :: "world \<Rightarrow> stable \<Rightarrow> effect list" where
  "link_frame_effects w k =
     (if st_link_frame_shown k \<and> rigid_active w
      then concat (map (\<lambda>l. at_node (st_link_frame_nodes k) (link_uid l)
                              (\<lambda>n. [Write (n, Model) (LinkFrameT (link_idx l))]))
                       (rigid_links w))
      else [])"

definition tool_effects :: "world \<Rightarrow> stable \<Rightarrow> effect list" where
  "tool_effects w k =
     (if tool_active w
      then concat (map (\<lambda>e. at_node (st_static_nodes k) (ent_uid e)
                              (\<lambda>n. [Pose n (ToolT (ent_uid e))]))
                       (tool_entities w))
      else [])"

definition shown_geoms :: "rigid_entity \<Rightarrow> geom list" where
  "shown_geoms e = (if re_vis_mode e = ''visual'' then re_vgeoms e else re_geoms e)"

definition render_T :: "stable \<Rightarrow> rigid_entity \<Rightarrow> geom \<Rightarrow> payload" where
  "render_T k e g = GeomT (re_vis_mode e = ''visual'') (geom_idx g) (st_visual_states_t k)"

definition rigid_effects :: "world \<Rightarrow> stable \<Rightarrow> effect list" where
  "rigid_effects w k =
     (if rigid_active w
      then concat (map (\<lambda>e. concat (map (\<lambda>g. at_node (st_rigid_nodes k) (geom_uid g)
                                  (\<lambda>n. [MeshPose n (render_T k e g), Write (n, Model) (render_T k e g)] @
                                       (if re_is_plane e then [Reflect (render_T k e g)] else [])))
                                (shown_geoms e)))
                       (rigid_entities w))
      else [])"

definition arrow :: render_obj where
  "arrow = \<lparr>obj_name = PyStr ''debug_arrow'', obj_data = 0\<rparr>"

definition link_arrows :: "world \<Rightarrow> contact \<Rightarrow> nat \<Rightarrow> effect list" where
  "link_arrows w ct i =
     (if i < length (rigid_links w) \<and> visualize_contact (rigid_links w ! i)
      then (if force_nonzero ct then [Spawn None arrow] else []) @
           (if normal_nonzero ct then [Spawn None arrow] else [])
      else [])"

definition contact_effects :: "world \<Rightarrow> effect list" where
  "contact_effects w =
     (if rigid_active w \<and> (\<exists>l \<in> set (rigid_links w). visualize_contact l)
      then concat (map (\<lambda>ct. link_arrows w ct (link_a ct) @ link_arrows w ct (link_b ct))
                       (rigid_contacts w))
      else [])"

definition avatar_effects :: "world \<Rightarrow> stable \<Rightarrow> effect list" where
  "avatar_effects w k =
     (if avatar_active w
      then concat (map (\<lambda>e. concat (map (\<lambda>g. at_node (st_rigid_nodes k) (geom_uid g)
                                  (\<lambda>n. [Write (n, Model) (render_T k e g)]))
                                (shown_geoms e)))
                       (avatar_entities w))
      else [])"

definition recon_mesh :: "soft_entity \<Rightarrow> effect list" where
  "recon_mesh e = [Spawn (Some (se_ref e)) \<lparr>obj_name = PyNone, obj_data = ent_uid (se_ref e)\<rparr>]"

definition particle_entry :: "stable \<Rightarrow> soft_entity \<Rightarrow> effect list" where
  "particle_entry k e =
     at_node (st_static_nodes k) (ent_uid (se_ref e))
       (\<lambda>n. [Write (n, Model) (ParticleT (ent_uid (se_ref e)) (st_visual_states_t k))])"

definition verts_entries :: "stable \<Rightarrow> soft_entity \<Rightarrow> effect list" where
  "verts_entries k e =
     at_node (st_static_nodes k) (ent_uid (se_ref e))
       (\<lambda>n. [Write (n, Pos) (VertsPos (ent_uid (se_ref e)) (st_visual_states_t k))] @
            (if se_has_normals e
             then [Write (n, Normal) (VertsNormal (ent_uid (se_ref e)) (st_visual_states_t k))]
             else []))"

definition mpm_effects :: "world \<Rightarrow> stable \<Rightarrow> effect list" where
  "mpm_effects w k =
     (if mpm_active w
      then concat (map (\<lambda>e. if se_vis_mode e = ''recon'' \<or> se_vis_mode e = ''visual''
                            then recon_mesh e
                            else if se_vis_mode e = ''particle'' then particle_entry k e
                            else [])
                       (mpm_entities w))
      else [])"

definition sph_effects :: "world \<Rightarrow> stable \<Rightarrow> effect list" where
  "sph_effects w k =
     (if sph_active w
      then concat (map (\<lambda>e. if se_vis_mode e = ''recon'' then recon_mesh e
                            else if se_vis_mode e = ''particle'' then particle_entry k e
                            else [])
                       (sph_entities w))
      else [])"

definition pbd_effects :: "world \<Rightarrow> stable \<Rightarrow> effect list" where
  "pbd_effects w k =
     (if pbd_active w
      then concat (map (\<lambda>e. if se_vis_mode e = ''recon'' then recon_mesh e
                            else if se_vis_mode e = ''particle''
                            then (if st_render_particle_as k = ''sphere'' then particle_entry k e
                                  else if st_render_particle_as k = ''tet'' then verts_entries k e
                                  else [])
                            else if se_vis_mode e = ''visual'' then verts_entries k e
                            else [])
                       (pbd_entities w))
      else [])"

definition fem_effects :: "world \<Rightarrow> stable \<Rightarrow> effect list" where
  "fem_effects w k =
     (if fem_active w
      then concat (map (\<lambda>e. if se_vis_mode e = ''visual''
                            then at_node (st_static_nodes k) (ent_uid (se_ref e))
                                   (\<lambda>n. [Write (n, Pos) (StateVerts (ent_uid (se_ref e)))])
                            else [])
                       (fem_entities w))
      else [])"

text \<open>
  The fixed order of the families: link frames, tool, rigid, contact arrows, avatar, MPM,
  SPH, PBD, FEM.
\<close>

definition pass_effects :: "world \<Rightarrow> stable \<Rightarrow> effect list" where
  "pass_effects w k =
     link_frame_effects w k @ tool_effects w k @ rigid_effects w k @ contact_effects w @
     avatar_effects w k @ mpm_effects w k @ sph_effects w k @ pbd_effects w k @
     fem_effects w k"

text \<open>
  The context at the start of the family updates of a pass for time index \<open>scene_t\<close>:
  the time index is stored, the dynamic nodes of the frame before are gone from the
  dynamic list, from the scene graph and from the segmentation map, the derived visual
  state is that of \<open>scene_t\<close>, the cached bounds are dropped and the buffer-update map
  is empty.
\<close>

definition pass_start :: "int \<Rightarrow> ctx \<Rightarrow> ctx" where
  "pass_start scene_t c =
     c\<lparr> ctx_t := Some scene_t,
        dynamic_nodes := [],
        scene_nodes := filter (\<lambda>(n, obj). n \<notin> set (dynamic_nodes c)) (scene_nodes c),
        seg_node_map := filter (\<lambda>(n, rgb). n \<notin> set (dynamic_nodes c)) (seg_node_map c),
        visual_states_t := Some scene_t,
        scene_bounds := None,
        buffer := [] \<rparr>"

definition pass_result :: "world \<Rightarrow> int \<Rightarrow> ctx \<Rightarrow> ctx" where
  "pass_result w scene_t c =
     fold apply_effect (pass_effects w (stable_of (pass_start scene_t c))) (pass_start scene_t c)"

text \<open>The entries of the buffer-update map and the new nodes in a run of effects.\<close>

fun writes_of :: "effect list \<Rightarrow> (bufid \<times> payload) list" where
  "writes_of [] = []"
| "writes_of (Write k v # es) = (k, v) # writes_of es"
| "writes_of (_ # es) = writes_of es"

fun poses_of :: "effect list \<Rightarrow> (node \<times> payload) list" where
  "poses_of [] = []"
| "poses_of (Pose n p # es) = (n, p) # poses_of es"
| "poses_of (_ # es) = poses_of es"

fun spawns_of :: "effect list \<Rightarrow> render_obj list" where
  "spawns_of [] = []"
| "spawns_of (Spawn e obj # es) = obj # spawns_of es"
| "spawns_of (_ # es) = spawns_of es"

section \<open>The scene (\<^verbatim>\<open>Scene\<close>)\<close>

subsection \<open>Environment selectors\<close>

text \<open>
  A tensor of indices after \<^verbatim>\<open>torch.as_tensor\<close>: its shape and its entries in row-major
  order; \<^verbatim>\<open>ndim\<close> is the length of the shape. The conversion itself (dtype, device) is
  outside the model.
\<close>

record tensor =
  t_shape :: "nat list"
  t_data :: "int list"

definition tensor1 :: "int list \<Rightarrow> tensor" where
  "tensor1 xs = \<lparr>t_shape = [length xs], t_data = xs\<rparr>"

definition ndim :: "tensor \<Rightarrow> nat" where
  "ndim x = length (t_shape x)"

text \<open>\<^verbatim>\<open>torch.atleast_1d\<close>: a 0-dimensional tensor becomes a tensor of shape \<open>[1]\<close>.\<close>

definition atleast_1d :: "tensor \<Rightarrow> tensor" where
  "atleast_1d x = (if ndim x = 0 then x\<lparr>t_shape := [1]\<rparr> else x)"

text \<open>
  What a caller may pass as \<^verbatim>\<open>envs_idx\<close>: \<^verbatim>\<open>None\<close>, a slice \<^verbatim>\<open>start:stop\<close> of step
  one, an integer, or array-like data.
\<close>

datatype envs_sel =
    SelNone
  | SelSlice "int option" "int option"
  | SelInt int
  | SelArray tensor

text \<open>
  Python's \<^verbatim>\<open>xs[start:stop]\<close>: a negative bound counts from the end, and every bound is
  clipped to the list.
\<close>

definition clip_bound :: "int \<Rightarrow> int \<Rightarrow> int" where
  "clip_bound n i = (if i < 0 then max (i + n) 0 else min i n)"

definition py_slice :: "'a list \<Rightarrow> int option \<Rightarrow> int option \<Rightarrow> 'a list" where
  "py_slice xs start stop =
     (let n = int (length xs);
          lo = (case start of None \<Rightarrow> 0 | Some i \<Rightarrow> clip_bound n i);
          hi = (case stop of None \<Rightarrow> n | Some i \<Rightarrow> clip_bound n i)
      in take (nat (hi - lo)) (drop (nat lo) xs))"

subsection \<open>Batching layout\<close>

datatype spacing_arg = SpacingTuple "real list" | SpacingList "real list" | SpacingOther

datatype para_level = PARA_NEVER | PARA_PARTIAL | PARA_ALL

record batching =
  n_envs :: int
  env_spacing :: spacing_arg
  n_envs_per_row :: int
  batch_B :: nat
  batch_envs_idx :: "int list"
  envs_offset :: "(real \<times> real \<times> real) list"
  para_level :: para_level

text \<open>\<^verbatim>\<open>np.ceil(np.sqrt(B)).astype(int)\<close>, with the square root taken exactly.\<close>

function ceil_sqrt_from :: "nat \<Rightarrow> nat \<Rightarrow> nat" where
  "ceil_sqrt_from r n = (if n \<le> r * r then r else ceil_sqrt_from (Suc r) n)"
  by pat_completeness auto
termination
proof (relation "measure (\<lambda>(r, n). n - r)")
  show "wf (measure (\<lambda>(r, n). n - r))" by simp
next
  fix r n :: nat
  assume a: "\<not> n \<le> r * r"
  have "r \<le> r * r" by (cases r) simp_all
  then have "r < n" using a by linarith
  then show "((Suc r, n), (r, n)) \<in> measure (\<lambda>(r, n). n - r)" by simp
qed

definition ceil_sqrt :: "nat \<Rightarrow> nat" where
  "ceil_sqrt n = ceil_sqrt_from 0 n"

text \<open>
  numpy's integer \<^verbatim>\<open>//\<close> and \<^verbatim>\<open>%\<close> on arrays: floor division, and 0 (with a
  warning) where the divisor is 0.
\<close>

definition np_floordiv :: "int \<Rightarrow> int \<Rightarrow> int" where
  "np_floordiv a b = (if b = 0 then 0 else a div b)"

definition np_mod :: "int \<Rightarrow> int \<Rightarrow> int" where
  "np_mod a b = (if b = 0 then 0 else a mod b)"

text \<open>
  \<^verbatim>\<open>np.max\<close> and \<^verbatim>\<open>np.min\<close> of one column; the column has \<open>B \<ge> 1\<close> entries where
  they are used.
\<close>

definition col_max :: "real list \<Rightarrow> real" where
  "col_max xs = (case xs of [] \<Rightarrow> 0 | x # r \<Rightarrow> fold max r x)"

definition col_min :: "real list \<Rightarrow> real" where
  "col_min xs = (case xs of [] \<Rightarrow> 0 | x # r \<Rightarrow> fold min r x)"

text \<open>
  \<^verbatim>\<open>isinstance(env_spacing, (list, tuple))\<close> and \<^verbatim>\<open>len(env_spacing) == 2\<close>.
\<close>

fun spacing_pair :: "spacing_arg \<Rightarrow> (real \<times> real) option" where
  "spacing_pair (SpacingTuple [x, y]) = Some (x, y)"
| "spacing_pair (SpacingList [x, y]) = Some (x, y)"
| "spacing_pair _ = None"

text \<open>
  The offsets are floating-point numbers. \<^verbatim>\<open>np.arange(B) // n * spacing\<close> is an array
  of doubles (the spacing is a Python float), and \<^verbatim>\<open>np.stack(..., dtype=gs.np_float)\<close>
  stores it in the precision \<^verbatim>\<open>gs.np_float\<close> (single unless configured otherwise); the
  centring works on that array in place. A floating-point number is the real it denotes
  here, and an operation is the exact operation followed by the rounding of the result
  type; the two roundings are parameters, as the precision is configured outside the
  source files. Overflow to infinity is outside the model, and the integers \<open>i // n\<close>
  and \<open>i % n\<close> are taken to convert to doubles exactly (they do below \<open>2 ^ 53\<close>).
\<close>

record floats =
  to_f64 :: "real \<Rightarrow> real"
  to_np_float :: "real \<Rightarrow> real"

text \<open>
  The offsets before centring: environment \<open>i\<close> sits in row \<open>i // n_envs_per_row\<close>
  and column \<open>i % n_envs_per_row\<close> of the grid; \<^verbatim>\<open>offset_z\<close> is \<^verbatim>\<open>np.zeros\<close>.
\<close>

definition grid_offsets ::
  "floats \<Rightarrow> nat \<Rightarrow> int \<Rightarrow> real \<times> real \<Rightarrow> (real \<times> real \<times> real) list" where
  "grid_offsets fl B per_row sp =
     map (\<lambda>i. (to_np_float fl (to_f64 fl (real_of_int (np_floordiv (int i) per_row) * fst sp)),
               to_np_float fl (to_f64 fl (real_of_int (np_mod (int i) per_row) * snd sp)),
               to_np_float fl 0))
         [0..<B]"

text \<open>
  \<^verbatim>\<open>center = (np.max(envs_offset, axis=0) + np.min(envs_offset, axis=0)) / 2.0\<close>,
  \<^verbatim>\<open>envs_offset -= center\<close>: the sum, the half and the difference are rounded to the
  precision of the array.
\<close>

definition center_of :: "floats \<Rightarrow> (real \<times> real \<times> real) list \<Rightarrow> real \<times> real \<times> real" where
  "center_of fl offs =
     (to_np_float fl (to_np_float fl (col_max (map fst offs) + col_min (map fst offs)) / 2),
      to_np_float fl
        (to_np_float fl (col_max (map (fst \<circ> snd) offs) + col_min (map (fst \<circ> snd) offs)) / 2),
      to_np_float fl
        (to_np_float fl (col_max (map (snd \<circ> snd) offs) + col_min (map (snd \<circ> snd) offs)) / 2))"

definition shift_by ::
  "floats \<Rightarrow> real \<times> real \<times> real \<Rightarrow> real \<times> real \<times> real \<Rightarrow> real \<times> real \<times> real" where
  "shift_by fl c p =
     (to_np_float fl (fst p - fst c),
      to_np_float fl (fst (snd p) - fst (snd c)),
      to_np_float fl (snd (snd p) - snd (snd c)))"

text \<open>
  \<^verbatim>\<open>_parallelize\<close>. The check of \<^verbatim>\<open>env_spacing\<close> comes after the batch size and the
  row length are set; the exception leaves no layout behind here, as \<^verbatim>\<open>build\<close> does
  not go on. \<open>cpu\<close> is \<^verbatim>\<open>gs.backend == gs.cpu\<close>.
\<close>

definition parallelize ::
  "floats \<Rightarrow> bool \<Rightarrow> int \<Rightarrow> spacing_arg \<Rightarrow> int option \<Rightarrow> bool \<Rightarrow> error + batching" where
  "parallelize fl cpu n_envs_arg env_spacing_arg n_envs_per_row_arg center_envs_at_origin =
     (let B = nat (max 1 n_envs_arg);
          per_row = (case n_envs_per_row_arg of
                       None \<Rightarrow> int (ceil_sqrt B)
                     | Some r \<Rightarrow> r)
      in case spacing_pair env_spacing_arg of
           None \<Rightarrow> Inl EnvSpacingInvalid
         | Some sp \<Rightarrow>
             (let offs = grid_offsets fl B per_row sp;
                  offs' = (if center_envs_at_origin
                           then map (shift_by fl (center_of fl offs)) offs
                           else offs)
              in Inr \<lparr> n_envs = n_envs_arg,
                       env_spacing = env_spacing_arg,
                       n_envs_per_row = per_row,
                       batch_B = B,
                       batch_envs_idx = map int [0..<B],
                       envs_offset = offs',
                       para_level = (if cpu then PARA_NEVER
                                     else if n_envs_arg = 0 then PARA_PARTIAL
                                     else PARA_ALL) \<rparr>))"

subsection \<open>The layout the offsets are compared with\<close>

text \<open>
  The offset of environment \<open>i\<close> in the words of the specification, the products taken
  in the arithmetic of the arrays; the coordinates of a point by number; the values one
  coordinate takes over the \<open>B\<close> environments; the midpoint of the extremes of a set of
  numbers in the arithmetic of the array; and what it means that this arithmetic is exact
  at a set: the sum of the extremes, its half, and the two extremes less that half are
  numbers of the array precision.
\<close>

definition grid_point :: "floats \<Rightarrow> int \<Rightarrow> real \<times> real \<Rightarrow> nat \<Rightarrow> real \<times> real \<times> real" where
  "grid_point fl per_row sp i =
     (to_np_float fl (to_f64 fl (real_of_int (int i div per_row) * fst sp)),
      to_np_float fl (to_f64 fl (real_of_int (int i mod per_row) * snd sp)),
      to_np_float fl 0)"

definition coord :: "nat \<Rightarrow> real \<times> real \<times> real \<Rightarrow> real" where
  "coord k p = (if k = 0 then fst p else if k = 1 then fst (snd p) else snd (snd p))"

definition grid_column :: "floats \<Rightarrow> int \<Rightarrow> real \<times> real \<Rightarrow> nat \<Rightarrow> nat \<Rightarrow> real set" where
  "grid_column fl per_row sp B k = (\<lambda>i. coord k (grid_point fl per_row sp i)) ` {..<B}"

definition midpoint :: "floats \<Rightarrow> real set \<Rightarrow> real" where
  "midpoint fl X = to_np_float fl (to_np_float fl (Max X + Min X) / 2)"

definition exact_at :: "floats \<Rightarrow> real set \<Rightarrow> bool" where
  "exact_at fl X \<longleftrightarrow>
     to_np_float fl (Max X + Min X) = Max X + Min X \<and>
     to_np_float fl ((Max X + Min X) / 2) = (Max X + Min X) / 2 \<and>
     to_np_float fl (Max X - (Max X + Min X) / 2) = Max X - (Max X + Min X) / 2 \<and>
     to_np_float fl (Min X - (Max X + Min X) / 2) = Min X - (Max X + Min X) / 2"

text \<open>
  \<^verbatim>\<open>torch.as_tensor(envs_idx, dtype=gs.tc_int)\<close>: the entries become integers of the
  type \<^verbatim>\<open>gs.tc_int\<close>, 32 bits wide and signed; an entry of a wider tensor that does not
  fit wraps around.
\<close>

definition to_tc_int :: "int \<Rightarrow> int" where
  "to_tc_int i = (i + 2 ^ 31) mod 2 ^ 32 - 2 ^ 31"

definition fits_tc_int :: "int \<Rightarrow> bool" where
  "fits_tc_int i \<longleftrightarrow> - (2 ^ 31) \<le> i \<and> i < 2 ^ 31"

definition as_tensor :: "tensor \<Rightarrow> tensor" where
  "as_tensor x = x\<lparr>t_data := map to_tc_int (t_data x)\<rparr>"

text \<open>
  \<^verbatim>\<open>_sanitize_envs_idx(envs_idx, unsafe)\<close> on a layout. The messages:
  \<^verbatim>\<open>"`envs_idx` is not supported for non-parallelized scene."\<close>,
  \<^verbatim>\<open>"Expecting a 1D tensor for `envs_idx`."\<close>, \<^verbatim>\<open>"`envs_idx` exceeds valid range."\<close>.
  Array-like data is a tensor of integers.
\<close>

definition sanitize_envs_idx :: "batching \<Rightarrow> envs_sel \<Rightarrow> bool \<Rightarrow> error + tensor" where
  "sanitize_envs_idx b envs_idx unsafe =
     (case envs_idx of
        SelNone \<Rightarrow> Inr (tensor1 (batch_envs_idx b))
      | _ \<Rightarrow>
        if n_envs b = 0 then Inl EnvsIdxNonParallel
        else
          (case envs_idx of
             SelNone \<Rightarrow> Inr (tensor1 (batch_envs_idx b))
           | SelSlice start stop \<Rightarrow> Inr (tensor1 (py_slice (batch_envs_idx b) start stop))
           | SelInt i \<Rightarrow> Inr (tensor1 (py_slice (batch_envs_idx b) (Some i) (Some (i + 1))))
           | SelArray x \<Rightarrow>
               if unsafe then Inr x
               else
                 (let x1 = atleast_1d (as_tensor x) in
                  if ndim x1 \<noteq> 1 then Inl EnvsIdxNot1D
                  else if list_ex (\<lambda>i. i < 0) (t_data x1) \<or>
                          list_ex (\<lambda>i. i \<ge> n_envs b) (t_data x1)
                  then Inl EnvsIdxOutOfRange
                  else Inr x1)))"

subsection \<open>Entities and emitters\<close>

text \<open>
  The morph and material classes that \<^verbatim>\<open>add_entity\<close> and \<^verbatim>\<open>add_emitter\<close> tell
  apart with \<^verbatim>\<open>isinstance\<close>.
\<close>

datatype morph =
    Morph_Box | Morph_Cylinder | Morph_Sphere | Morph_Plane
  | Morph_Terrain | Morph_URDF | Morph_MJCF | Morph_Mesh
  | Morph_Nowhere int
  | Morph_Other

datatype material =
    Rigid | Avatar | Tool | Hybrid
  | PBD_Cloth | PBD_Elastic | PBD_Liquid | PBD_Particle
  | MPM_Elastic | MPM_Liquid | MPM_Sand | MPM_Snow
  | SPH_Liquid
  | SF_Smoke
  | FEM_Elastic
  | Material_Other

record surface =
  smooth :: bool
  double_sided :: "bool option"
  vis_mode :: "string option"

text \<open>
  \<^verbatim>\<open>gs.surfaces.Default(...)\<close> as far as \<^verbatim>\<open>add_entity\<close> reads it: smooth, with
  \<^verbatim>\<open>double_sided\<close> and \<^verbatim>\<open>vis_mode\<close> not set.
\<close>

definition default_surface :: surface where
  "default_surface = \<lparr>smooth = True, double_sided = None, vis_mode = None\<rparr>"

definition is_MPM_Base :: "material \<Rightarrow> bool" where
  "is_MPM_Base m \<longleftrightarrow> m \<in> {MPM_Elastic, MPM_Liquid, MPM_Sand, MPM_Snow}"

definition is_SPH_Base :: "material \<Rightarrow> bool" where
  "is_SPH_Base m \<longleftrightarrow> m = SPH_Liquid"

definition is_PBD_Base :: "material \<Rightarrow> bool" where
  "is_PBD_Base m \<longleftrightarrow> m \<in> {PBD_Cloth, PBD_Elastic, PBD_Liquid, PBD_Particle}"

text \<open>
  The visualisation modes a material allows and the mode it gets when none is set, in
  the order of the \<^verbatim>\<open>if\<close>/\<^verbatim>\<open>elif\<close> chain of \<^verbatim>\<open>add_entity\<close>; \<open>None\<close> is the
  final \<^verbatim>\<open>else: gs.raise_exception()\<close>.
\<close>

definition vis_mode_rule :: "material \<Rightarrow> (string \<times> string list) option" where
  "vis_mode_rule m =
     (if m \<in> {Rigid, Avatar, Tool} then Some (''visual'', [''visual'', ''collision'', ''sdf''])
      else if m \<in> {PBD_Liquid, PBD_Particle, MPM_Liquid, MPM_Sand, MPM_Snow, SPH_Liquid}
        then Some (''particle'', [''particle'', ''recon''])
      else if m = SF_Smoke then Some (''particle'', [''particle''])
      else if is_PBD_Base m \<or> is_MPM_Base m \<or> is_SPH_Base m
        then Some (''visual'', [''visual'', ''particle'', ''recon''])
      else if m = FEM_Elastic then Some (''visual'', [''visual''])
      else if m = Hybrid then Some (''particle'', [''particle'', ''visual''])
      else None)"

record emitter =
  max_particles :: int
  emitter_entity :: "nat option"
  next_particle :: nat

text \<open>
  Modelled from the spec: \<^verbatim>\<open>Emitter.reset\<close> is not part of the source files; the
  comment at its call says it sets \<^verbatim>\<open>_next_particle = 0\<close>, the replay cursor of the
  spec.
\<close>

definition emitter_reset :: "emitter \<Rightarrow> emitter" where
  "emitter_reset e = e\<lparr>next_particle := 0\<rparr>"

subsection \<open>The simulator behind the scene\<close>

text \<open>
  Modelled from the spec: the \<^verbatim>\<open>Simulator\<close> is not part of the source files. Its state
  is a value of type \<open>'sim\<close>, a snapshot (\<^verbatim>\<open>SimState\<close>) a value of type \<open>'st\<close>, and
  the methods the scene calls are the fields of \<open>sim_ops\<close>: \<^verbatim>\<open>build\<close>, \<^verbatim>\<open>step\<close>,
  \<^verbatim>\<open>collect_output_grads\<close>, \<^verbatim>\<open>_step_grad\<close>, \<^verbatim>\<open>get_state\<close>, \<^verbatim>\<open>reset\<close> (which may
  refuse the selector), \<^verbatim>\<open>requires_grad\<close>, \<^verbatim>\<open>_add_entity\<close> (which answers with the
  new entity) and what the render context reads from the solvers.
\<close>

record ('sim, 'st) sim_ops =
  op_build :: "'sim \<Rightarrow> 'sim"
  op_step :: "'sim \<Rightarrow> 'sim"
  op_collect_output_grads :: "'sim \<Rightarrow> 'sim"
  op_step_grad :: "'sim \<Rightarrow> 'sim"
  op_get_state :: "'sim \<Rightarrow> 'st"
  op_reset :: "'st \<Rightarrow> envs_sel \<Rightarrow> 'sim \<Rightarrow> error + 'sim"
  op_requires_grad :: "'sim \<Rightarrow> bool"
  op_add_entity :: "morph \<Rightarrow> material \<Rightarrow> surface \<Rightarrow> bool \<Rightarrow> 'sim \<Rightarrow> nat \<times> 'sim"
  op_world :: "'sim \<Rightarrow> world"
  op_visualizer_build :: "'sim \<Rightarrow> ctx \<Rightarrow> error + ctx"

text \<open>
  Modelled from the spec: a solver, as the checkpoint sees it. \<^verbatim>\<open>dump_ckpt_to_numpy\<close>
  and \<^verbatim>\<open>load_ckpt_from_numpy\<close> of the solvers are not part of the source files; by the
  spec a solver reports its buffers under the keys
  \<^verbatim>\<open>"OwnerClassName.attributeName"\<close> and loading writes back into same-named buffers
  when present.
\<close>

record 'a solver =
  solver_class :: string
  solver_fields :: "(string \<times> 'a) list"

definition ckpt_key :: "string \<Rightarrow> string \<Rightarrow> string" where
  "ckpt_key cls name = cls @ ''.'' @ name"

definition solver_dump_ckpt :: "'a solver \<Rightarrow> (string \<times> 'a) list" where
  "solver_dump_ckpt sv =
     map (\<lambda>(name, field). (ckpt_key (solver_class sv) name, field)) (solver_fields sv)"

definition load_fields :: "string \<Rightarrow> (string \<times> 'a) list \<Rightarrow> (string \<times> 'a) list \<Rightarrow> (string \<times> 'a) list" where
  "load_fields cls arrays flds =
     map (\<lambda>(name, field).
            (name, case map_of arrays (ckpt_key cls name) of
                     Some a \<Rightarrow> a
                   | None \<Rightarrow> field))
         flds"

definition solver_load_ckpt :: "(string \<times> 'a) list \<Rightarrow> 'a solver \<Rightarrow> 'a solver" where
  "solver_load_ckpt arrays sv =
     sv\<lparr>solver_fields := load_fields (solver_class sv) arrays (solver_fields sv)\<rparr>"

subsection \<open>Scene state\<close>

text \<open>
  The attributes of a \<^verbatim>\<open>Scene\<close> the modelled methods touch. \<open>sc_fields\<close> are the
  entries of \<^verbatim>\<open>self.__dict__\<close> that are Taichi fields, \<open>sc_active_solvers\<close> the
  solvers behind the \<^verbatim>\<open>active_solvers\<close> property, \<open>sc_batch\<close> the attributes set by
  \<^verbatim>\<open>_parallelize\<close> (absent before), \<open>sc_visualizer\<close> the render context of the
  visualizer, \<open>sc_cpu\<close> whether \<^verbatim>\<open>gs.backend\<close> is the CPU.
\<close>

record ('sim, 'st, 'a) scene =
  sc_sim :: 'sim
  sc_active_solvers :: "'a solver list"
  sc_fields :: "(string \<times> 'a) list"
  sc_visualizer :: ctx
  sc_emitters :: "emitter list"
  sc_backward_ready :: bool
  sc_forward_ready :: bool
  sc_t :: int
  sc_is_built :: bool
  sc_init_state :: "'st option"
  sc_batch :: "batching option"
  sc_cpu :: bool

text \<open>
  \<^verbatim>\<open>__init__\<close>, after the options were validated: no emitters, both flags false,
  \<^verbatim>\<open>_t = 0\<close>, not built.
\<close>

definition scene_init ::
  "'sim \<Rightarrow> 'a solver list \<Rightarrow> (string \<times> 'a) list \<Rightarrow> vis_options \<Rightarrow> bool \<Rightarrow> ('sim, 'st, 'a) scene" where
  "scene_init sim0 solvers flds options cpu =
     \<lparr> sc_sim = sim0,
       sc_active_solvers = solvers,
       sc_fields = flds,
       sc_visualizer = init_ctx options,
       sc_emitters = [],
       sc_backward_ready = False,
       sc_forward_ready = False,
       sc_t = 0,
       sc_is_built = False,
       sc_init_state = None,
       sc_batch = None,
       sc_cpu = cpu \<rparr>"

text \<open>
  Modelled from the spec: the decorators \<^verbatim>\<open>gs.assert_built\<close> and
  \<^verbatim>\<open>gs.assert_unbuilt\<close> are not part of the source files; by section 4.1 a method
  called in the wrong phase fails with \<open>InvalidStateError\<close> before its body runs.
\<close>

definition assert_built :: "('sim, 'st, 'a) scene \<Rightarrow> error + unit" where
  "assert_built s = (if sc_is_built s then Inr () else Inl SceneNotBuilt)"

definition assert_unbuilt :: "('sim, 'st, 'a) scene \<Rightarrow> error + unit" where
  "assert_unbuilt s = (if sc_is_built s then Inl SceneAlreadyBuilt else Inr ())"

text \<open>
  \<^verbatim>\<open>add_entity\<close>, with the material and the surface already defaulted by the caller.
  The changes it makes to the material and the morph themselves (\<^verbatim>\<open>_sdf_max_res\<close>,
  \<^verbatim>\<open>convexify\<close>) are not modelled. Raises
  \<^verbatim>\<open>"Unsupported material for morph"\<close>, \<^verbatim>\<open>"Unsupported `surface.vis_mode`"\<close> or the
  empty exception of the final \<^verbatim>\<open>else\<close>.
\<close>

definition add_entity ::
  "('sim, 'st) sim_ops \<Rightarrow> morph \<Rightarrow> material \<Rightarrow> surface \<Rightarrow> bool \<Rightarrow> string option \<Rightarrow>
   ('sim, 'st, 'a) scene \<Rightarrow> error + nat \<times> ('sim, 'st, 'a) scene" where
  "add_entity ops mo ma su0 visualize_contact_arg vis_mode_arg s =
     bindE (assert_unbuilt s) (\<lambda>_.
       let su1 = (if mo \<in> {Morph_Box, Morph_Cylinder, Morph_Terrain}
                  then su0\<lparr>smooth := False\<rparr> else su0)
       in if mo \<in> {Morph_URDF, Morph_MJCF, Morph_Terrain} \<and> ma \<notin> {Rigid, Avatar, Hybrid}
          then Inl UnsupportedMaterialMorph
          else
            let su2 = (if double_sided su1 = None
                       then su1\<lparr>double_sided := Some (ma = PBD_Cloth)\<rparr> else su1);
                su3 = (if vis_mode_arg \<noteq> None then su2\<lparr>vis_mode := vis_mode_arg\<rparr> else su2)
            in case vis_mode_rule ma of
                 None \<Rightarrow> Inl UnknownMaterial
               | Some (dflt, allowed) \<Rightarrow>
                   let su4 = (if vis_mode su3 = None then su3\<lparr>vis_mode := Some dflt\<rparr> else su3)
                   in if (case vis_mode su4 of None \<Rightarrow> dflt | Some v \<Rightarrow> v) \<notin> set allowed
                      then Inl UnsupportedVisMode
                      else (case op_add_entity ops mo ma su4 visualize_contact_arg (sc_sim s) of
                              (entity, sim1) \<Rightarrow> Inr (entity, s\<lparr>sc_sim := sim1\<rparr>)))"

text \<open>
  \<^verbatim>\<open>add_emitter\<close>: \<^verbatim>\<open>"Emitter is not supported in differentiable mode."\<close>, then
  \<^verbatim>\<open>"Non-supported material for emitter."\<close>, then the entity and the emitter.
\<close>

definition add_emitter ::
  "('sim, 'st) sim_ops \<Rightarrow> material \<Rightarrow> int \<Rightarrow> surface option \<Rightarrow>
   ('sim, 'st, 'a) scene \<Rightarrow> error + emitter \<times> ('sim, 'st, 'a) scene" where
  "add_emitter ops ma max_particles_arg surface_arg s =
     bindE (assert_unbuilt s) (\<lambda>_.
       if op_requires_grad ops (sc_sim s) then Inl EmitterDifferentiable
       else if \<not> (is_MPM_Base ma \<or> is_SPH_Base ma \<or> ma = PBD_Particle \<or> ma = PBD_Liquid)
       then Inl EmitterMaterial
       else
         let su = (case surface_arg of None \<Rightarrow> default_surface | Some x \<Rightarrow> x)
         in bindE (add_entity ops (Morph_Nowhere max_particles_arg) ma su False None s)
              (\<lambda>(entity, s1).
                 let em = \<lparr>max_particles = max_particles_arg, emitter_entity = Some entity,
                           next_particle = 0\<rparr>
                 in Inr (em, s1\<lparr>sc_emitters := sc_emitters s1 @ [em]\<rparr>)))"

subsection \<open>Reset, step and the backward pass\<close>

text \<open>
  \<^verbatim>\<open>_reset(state, envs_idx)\<close>. In a built scene a given state becomes the initial
  state, and the simulator is reset to the initial state for the selector as given;
  before that the initial state is captured. Then \<^verbatim>\<open>_t = 0\<close>, both flags are set, the
  visualizer and every emitter are reset. \<^verbatim>\<open>_init_state\<close> is not assigned before the
  first \<^verbatim>\<open>_reset\<close>, so reading it then is an \<^verbatim>\<open>AttributeError\<close>.

  Modelled from the spec: \<^verbatim>\<open>Visualizer.reset\<close> is not part of the source files; by the
  comment at its call it sets \<^verbatim>\<open>_t = -1\<close>, which is \<^verbatim>\<open>RasterizerContext.reset\<close>.
\<close>

definition reset_grad :: "('sim, 'st, 'a) scene \<Rightarrow> ('sim, 'st, 'a) scene" where
  "reset_grad s = s\<lparr>sc_backward_ready := True\<rparr>"

definition get_state_impl :: "('sim, 'st) sim_ops \<Rightarrow> ('sim, 'st, 'a) scene \<Rightarrow> 'st" where
  "get_state_impl ops s = op_get_state ops (sc_sim s)"

definition reset_impl ::
  "('sim, 'st) sim_ops \<Rightarrow> 'st option \<Rightarrow> envs_sel \<Rightarrow> ('sim, 'st, 'a) scene \<Rightarrow>
   error + ('sim, 'st, 'a) scene" where
  "reset_impl ops state envs_idx s =
     bindE
       (if sc_is_built s then
          bindE (case state of
                   None \<Rightarrow> (case sc_init_state s of
                               None \<Rightarrow> Inl PyAttributeError
                             | Some st \<Rightarrow> Inr (st, s))
                 | Some st \<Rightarrow> Inr (st, s\<lparr>sc_init_state := Some st\<rparr>))
            (\<lambda>(st, s1). bindE (op_reset ops st envs_idx (sc_sim s1))
                           (\<lambda>sim1. Inr (s1\<lparr>sc_sim := sim1\<rparr>)))
        else Inr (s\<lparr>sc_init_state := Some (get_state_impl ops s)\<rparr>))
       (\<lambda>s2. Inr ((reset_grad (s2\<lparr>sc_t := 0, sc_forward_ready := True\<rparr>))
                     \<lparr>sc_visualizer := ctx_reset (sc_visualizer s2),
                       sc_emitters := map emitter_reset (sc_emitters s2)\<rparr>))"

definition reset ::
  "('sim, 'st) sim_ops \<Rightarrow> 'st option \<Rightarrow> envs_sel \<Rightarrow> ('sim, 'st, 'a) scene \<Rightarrow>
   error + ('sim, 'st, 'a) scene" where
  "reset ops state envs_idx s = bindE (assert_built s) (\<lambda>_. reset_impl ops state envs_idx s)"

definition get_state :: "('sim, 'st) sim_ops \<Rightarrow> ('sim, 'st, 'a) scene \<Rightarrow> error + 'st" where
  "get_state ops s = bindE (assert_built s) (\<lambda>_. Inr (get_state_impl ops s))"

text \<open>
  \<^verbatim>\<open>step\<close>: \<^verbatim>\<open>"Forward simulation not allowed after backward pass. Please reset
  scene state."\<close> The FPS tracker is not modelled.

  Modelled from the spec: \<^verbatim>\<open>Visualizer.update(force=False, ...)\<close> is not part of the
  source files; by section 4.1 it asks the render context to resynchronise, which is
  \<^verbatim>\<open>RasterizerContext.update\<close> at the time index of the scene.
\<close>

definition step ::
  "('sim, 'st) sim_ops \<Rightarrow> bool \<Rightarrow> bool \<Rightarrow> ('sim, 'st, 'a) scene \<Rightarrow> error + ('sim, 'st, 'a) scene" where
  "step ops update_visualizer refresh_visualizer s =
     bindE (assert_built s) (\<lambda>_.
       if \<not> sc_forward_ready s then Inl ForwardAfterBackward
       else
         let s1 = s\<lparr>sc_sim := op_step ops (sc_sim s)\<rparr>;
             s2 = s1\<lparr>sc_t := sc_t s1 + 1\<rparr>
         in if update_visualizer
            then bindE (update (op_world ops (sc_sim s2)) (sc_t s2) (sc_visualizer s2))
                   (\<lambda>c. Inr (s2\<lparr>sc_visualizer := c\<rparr>))
            else Inr s2)"

definition step_grad :: "('sim, 'st) sim_ops \<Rightarrow> ('sim, 'st, 'a) scene \<Rightarrow> ('sim, 'st, 'a) scene" where
  "step_grad ops s =
     s\<lparr>sc_sim := op_step_grad ops (op_collect_output_grads ops (sc_sim s)),
       sc_t := sc_t s - 1\<rparr>"

text \<open>\<^verbatim>\<open>while self._t > 0: self._step_grad()\<close>.\<close>

function backward_loop :: "('sim, 'st) sim_ops \<Rightarrow> ('sim, 'st, 'a) scene \<Rightarrow> ('sim, 'st, 'a) scene" where
  "backward_loop ops s = (if sc_t s > 0 then backward_loop ops (step_grad ops s) else s)"
  by pat_completeness auto
termination
  by (relation "measure (\<lambda>(ops, s). nat (sc_t s))") (simp_all add: step_grad_def)

text \<open>\<^verbatim>\<open>_backward\<close>: \<^verbatim>\<open>"Multiple backward calls not allowed."\<close>\<close>

definition backward :: "('sim, 'st) sim_ops \<Rightarrow> ('sim, 'st, 'a) scene \<Rightarrow> error + ('sim, 'st, 'a) scene" where
  "backward ops s =
     (if \<not> sc_backward_ready s then Inl MultipleBackward
      else Inr ((backward_loop ops s)\<lparr>sc_backward_ready := False, sc_forward_ready := False\<rparr>))"

subsection \<open>Build\<close>

text \<open>
  \<^verbatim>\<open>build\<close>: the layout, the simulator, a first \<^verbatim>\<open>_reset\<close> that captures the initial
  state, \<^verbatim>\<open>_is_built = True\<close>, with \<^verbatim>\<open>compile_kernels\<close> one simulator step and a
  second \<^verbatim>\<open>_reset\<close>, then the visualizer. The FPS tracker and the global scene list
  are not modelled; \<open>fl\<close> is the floating-point arithmetic of the layout.
\<close>

definition build ::
  "floats \<Rightarrow> ('sim, 'st) sim_ops \<Rightarrow> int \<Rightarrow> spacing_arg \<Rightarrow> int option \<Rightarrow> bool \<Rightarrow> bool \<Rightarrow>
   ('sim, 'st, 'a) scene \<Rightarrow> error + ('sim, 'st, 'a) scene" where
  "build fl ops n_envs_arg env_spacing_arg n_envs_per_row_arg center_envs_at_origin compile_kernels s =
     bindE (assert_unbuilt s) (\<lambda>_.
     bindE (parallelize fl (sc_cpu s) n_envs_arg env_spacing_arg n_envs_per_row_arg
              center_envs_at_origin) (\<lambda>b.
     bindE (reset_impl ops None SelNone
              (s\<lparr>sc_batch := Some b, sc_sim := op_build ops (sc_sim s)\<rparr>)) (\<lambda>s1.
     bindE (if compile_kernels
            then reset_impl ops None SelNone
                   (s1\<lparr>sc_is_built := True, sc_sim := op_step ops (sc_sim s1)\<rparr>)
            else Inr (s1\<lparr>sc_is_built := True\<rparr>)) (\<lambda>s2.
     bindE (op_visualizer_build ops (sc_sim s2) (sc_visualizer s2)) (\<lambda>c.
       Inr (s2\<lparr>sc_visualizer := c\<rparr>))))))"

text \<open>\<^verbatim>\<open>_sanitize_envs_idx\<close> as a method: the layout attributes exist from build on.\<close>

definition scene_sanitize_envs_idx ::
  "('sim, 'st, 'a) scene \<Rightarrow> envs_sel \<Rightarrow> bool \<Rightarrow> error + tensor" where
  "scene_sanitize_envs_idx s envs_idx unsafe =
     (case sc_batch s of
        None \<Rightarrow> Inl PyAttributeError
      | Some b \<Rightarrow> sanitize_envs_idx b envs_idx unsafe)"

subsection \<open>Checkpoints\<close>

text \<open>
  The pickled record: a time stamp, the step index and the arrays by name. A file at a
  path is missing, cannot be opened, or holds a record; \<^verbatim>\<open>load_checkpoint\<close> reads the
  step index with \<^verbatim>\<open>state.get\<close>, so a record may lack it.
\<close>

record 'a checkpoint =
  timestamp :: real
  step_index :: "int option"
  arrays :: "(string \<times> 'a) list"

datatype 'a file_at = NoFile | Unopenable | Pickle "'a checkpoint"

text \<open>
  \<^verbatim>\<open>dump_ckpt_to_numpy\<close>: the fields of the scene under
  \<^verbatim>\<open>"Scene." + name\<close>, then \<^verbatim>\<open>arrays.update\<close> with the dump of every active solver.
\<close>

definition dump_ckpt_to_numpy :: "('sim, 'st, 'a) scene \<Rightarrow> (string \<times> 'a) list" where
  "dump_ckpt_to_numpy s =
     fold (\<lambda>sv arrs. dict_update arrs (solver_dump_ckpt sv)) (sc_active_solvers s)
       (dict_update [] (map (\<lambda>(name, field). (ckpt_key ''Scene'' name, field)) (sc_fields s)))"

definition save_checkpoint ::
  "real \<Rightarrow> string \<Rightarrow> ('sim, 'st, 'a) scene \<Rightarrow> (string \<Rightarrow> 'a file_at) \<Rightarrow>
   error + (string \<Rightarrow> 'a file_at)" where
  "save_checkpoint now path s fs =
     (let state = \<lparr>timestamp = now, step_index = Some (sc_t s), arrays = dump_ckpt_to_numpy s\<rparr>
      in if fs path = Unopenable then Inl PyOSError
         else Inr (fs(path := Pickle state)))"

definition load_checkpoint ::
  "string \<Rightarrow> (string \<Rightarrow> 'a file_at) \<Rightarrow> ('sim, 'st, 'a) scene \<Rightarrow> error + ('sim, 'st, 'a) scene" where
  "load_checkpoint path fs s =
     (case fs path of
        NoFile \<Rightarrow> Inl PyOSError
      | Unopenable \<Rightarrow> Inl PyOSError
      | Pickle state \<Rightarrow>
          Inr (s\<lparr>sc_fields := load_fields ''Scene'' (arrays state) (sc_fields s),
                sc_active_solvers := map (solver_load_ckpt (arrays state)) (sc_active_solvers s),
                sc_t := (case step_index state of None \<Rightarrow> sc_t s | Some i \<Rightarrow> i)\<rparr>))"

text \<open>
  The entries one scene writes, owner by owner, before they are merged into one map, and
  their keys.
\<close>

definition ckpt_pairs :: "('sim, 'st, 'a) scene \<Rightarrow> (string \<times> 'a) list" where
  "ckpt_pairs s =
     map (\<lambda>(name, field). (ckpt_key ''Scene'' name, field)) (sc_fields s) @
     concat (map solver_dump_ckpt (sc_active_solvers s))"

definition ckpt_keys :: "('sim, 'st, 'a) scene \<Rightarrow> string list" where
  "ckpt_keys s =
     map (\<lambda>(name, field). ckpt_key ''Scene'' name) (sc_fields s) @
     concat (map (\<lambda>sv. map fst (solver_dump_ckpt sv)) (sc_active_solvers s))"

text \<open>
  Two scenes of one configuration: the same field names, and the same solvers with the
  same field names.
\<close>

definition same_config :: "('sim, 'st, 'a) scene \<Rightarrow> ('sim2, 'st2, 'a) scene \<Rightarrow> bool" where
  "same_config s s' \<longleftrightarrow>
     map fst (sc_fields s) = map fst (sc_fields s') \<and>
     map solver_class (sc_active_solvers s) = map solver_class (sc_active_solvers s') \<and>
     map (\<lambda>sv. map fst (solver_fields sv)) (sc_active_solvers s) =
       map (\<lambda>sv. map fst (solver_fields sv)) (sc_active_solvers s')"

section \<open>Example inputs\<close>

text \<open>Concrete inputs on which the properties below are evaluated.\<close>

definition example_options :: vis_options where
  "example_options =
     \<lparr> opt_segmentation_level = ''entity'',
       opt_render_particle_as = ''sphere'',
       opt_rendered_envs_idx = Some [0] \<rparr>"

definition example_geom :: geom where
  "example_geom = \<lparr>geom_uid = 20, geom_idx = 0, geom_entity_idx = 0, geom_link_idx = 0\<rparr>"

definition example_recon :: soft_entity where
  "example_recon =
     \<lparr>se_ref = \<lparr>ent_uid = 30, ent_idx = 1\<rparr>, se_vis_mode = ''recon'', se_has_normals = False\<rparr>"

definition example_particle :: soft_entity where
  "example_particle =
     \<lparr>se_ref = \<lparr>ent_uid = 31, ent_idx = 2\<rparr>, se_vis_mode = ''particle'', se_has_normals = False\<rparr>"

text \<open>
  A rigid solver with one link, one entity with one visual geom and one contact, and an
  MPM solver with a reconstructed and a particle entity; the other solvers are idle.
\<close>

definition example_world :: world where
  "example_world =
     \<lparr> rigid_active = True,
       rigid_links = [\<lparr>link_uid = 10, link_idx = 0, visualize_contact = True\<rparr>],
       rigid_entities =
         [\<lparr>re_vis_mode = ''visual'', re_vgeoms = [example_geom], re_geoms = [],
           re_is_plane = False\<rparr>],
       rigid_contacts =
         [\<lparr>link_a = 0, link_b = 0, force_nonzero = True, normal_nonzero = False\<rparr>],
       tool_active = False,
       tool_entities = [],
       avatar_active = False,
       avatar_entities = [],
       mpm_active = True,
       mpm_entities = [example_recon, example_particle],
       sph_active = False,
       sph_entities = [],
       pbd_active = False,
       pbd_entities = [],
       fem_active = False,
       fem_entities = [],
       bufid_has_mesh = False \<rparr>"


text \<open>
  The context after the nodes of \<open>example_world\<close> were registered, one dynamic node of
  an earlier frame is still alive, and \<^verbatim>\<open>reset\<close> has run.
\<close>

definition example_ctx :: ctx where
  "example_ctx =
     ctx_reset
       (add_dynamic_node (Some (se_ref example_recon)) (Some (entity_mesh example_recon))
         (add_static_node (se_ref example_particle) (entity_mesh example_particle)
           (case add_rigid_node example_geom \<lparr>obj_name = PyNone, obj_data = 20\<rparr>
                   (init_ctx example_options) of
              Inr c \<Rightarrow> c
            | Inl e \<Rightarrow> init_ctx example_options)))"

text \<open>
  A simulator whose state is a counter: a step counts up, a reverse step counts down, a
  snapshot is the counter, and a reset puts the snapshot back whatever the selector is.
\<close>

definition example_ops :: "bool \<Rightarrow> (nat, nat) sim_ops" where
  "example_ops grad =
     \<lparr> op_build = (\<lambda>x. x),
       op_step = Suc,
       op_collect_output_grads = (\<lambda>x. x),
       op_step_grad = (\<lambda>x. x - 1),
       op_get_state = (\<lambda>x. x),
       op_reset = (\<lambda>st sel x. Inr st),
       op_requires_grad = (\<lambda>x. grad),
       op_add_entity = (\<lambda>mo ma su vc x. (x, Suc x)),
       op_world = (\<lambda>x. example_world),
       op_visualizer_build = (\<lambda>x c. Inr c) \<rparr>"

text \<open>A scene before build, and a built scene two steps into a trajectory.\<close>

definition example_unbuilt :: "(nat, nat, nat) scene" where
  "example_unbuilt =
     scene_init 0
       [\<lparr>solver_class = ''RigidSolver'', solver_fields = [(''pos'', 1), (''vel'', 2)]\<rparr>,
        \<lparr>solver_class = ''MPMSolver'', solver_fields = [(''pos'', 3)]\<rparr>]
       [(''marker'', 7)] example_options False"

definition example_scene :: "(nat, nat, nat) scene" where
  "example_scene =
     example_unbuilt
       \<lparr> sc_sim := 2,
         sc_visualizer := example_ctx,
         sc_emitters := [\<lparr>max_particles = 10, emitter_entity = Some 0, next_particle = 4\<rparr>],
         sc_backward_ready := True,
         sc_forward_ready := True,
         sc_t := 2,
         sc_is_built := True,
         sc_init_state := Some 0 \<rparr>"

text \<open>
  The layouts of a scene built with \<^verbatim>\<open>n_envs=1\<close> and of one built with
  \<^verbatim>\<open>n_envs=2\<close>, spacing \<open>(1, 1)\<close>, one row, not centred.
\<close>

definition example_one_env :: batching where
  "example_one_env =
     \<lparr> n_envs = 1, env_spacing = SpacingTuple [1, 1], n_envs_per_row = 1, batch_B = 1,
       batch_envs_idx = [0], envs_offset = [(0, 0, 0)], para_level = PARA_ALL \<rparr>"

definition example_two_envs :: batching where
  "example_two_envs =
     \<lparr> n_envs = 2, env_spacing = SpacingTuple [1, 1], n_envs_per_row = 2, batch_B = 2,
       batch_envs_idx = [0, 1], envs_offset = [(0, 0, 0), (0, 1, 0)], para_level = PARA_ALL \<rparr>"

text \<open>
  A scene of the configuration of \<open>example_scene\<close> as it is after \<^verbatim>\<open>__init__\<close>, all
  buffers zero; and two checkpoint records made by hand, the second with a key no buffer
  of the scene has and without a step index.
\<close>

definition example_fresh :: "(nat, nat, nat) scene" where
  "example_fresh =
     scene_init 0
       [\<lparr>solver_class = ''RigidSolver'', solver_fields = [(''pos'', 0), (''vel'', 0)]\<rparr>,
        \<lparr>solver_class = ''MPMSolver'', solver_fields = [(''pos'', 0)]\<rparr>]
       [(''marker'', 0)] example_options False"

definition example_record :: "nat checkpoint" where
  "example_record =
     \<lparr>timestamp = 0, step_index = Some 3, arrays = [(''Scene.marker'', 9)]\<rparr>"

definition example_record_other :: "nat checkpoint" where
  "example_record_other =
     \<lparr>timestamp = 1, step_index = None, arrays = [(''Other.x'', 1)]\<rparr>"

text \<open>A file system with no file at any path.\<close>

definition example_fs :: "string \<Rightarrow> nat file_at" where
  "example_fs = (\<lambda>p. NoFile)"

text \<open>
  A toy arithmetic: doubles are exact, and the array precision rounds to the nearest
  multiple of \<open>1/8\<close>.
\<close>

definition round_eighth :: "real \<Rightarrow> real" where
  "round_eighth x = real_of_int \<lfloor>x * 8 + 1 / 2\<rfloor> / 8"

definition example_floats :: floats where
  "example_floats = \<lparr>to_f64 = (\<lambda>x. x), to_np_float = round_eighth\<rparr>"

section \<open>Properties of the segmentation table\<close>

lemma map_of_swap:
  "distinct (map snd m) \<Longrightarrow> map_of m k = Some i \<Longrightarrow> map_of (map (\<lambda>(k, i). (i, k)) m) i = Some k"
  by (induction m) (auto split: if_splits dest!: map_of_SomeD  simp: rev_image_eqI)

lemma seg_existing:
  assumes "seg_inv c" "map_of (seg_key_map c) k = Some i"
  shows "seg_key_to_idxc k c = (i, c)"
proof -
  have d: "distinct (map snd (seg_key_map c))" using assms(1) by (simp add: seg_inv_def)
  have "map_of (seg_idxc_map c) i = Some k"
    using map_of_swap[OF d assms(2)] assms(1) by (simp add: seg_inv_def)
  then have "AList.update i k (seg_idxc_map c) = seg_idxc_map c" by (rule update_triv)
  then show ?thesis using assms(2) by (simp add: seg_key_to_idxc_def setdefault_def)
qed

lemma update_fresh: "k \<notin> fst ` set al \<Longrightarrow> AList.update k v al = al @ [(k, v)]"
  by (induction al) auto

lemma seg_fresh:
  assumes "seg_inv c" "k \<notin> fst ` set (seg_key_map c)"
  shows "seg_key_to_idxc k c =
           (length (seg_key_map c),
            c\<lparr>seg_key_map := seg_key_map c @ [(k, length (seg_key_map c))],
              seg_idxc_map := seg_idxc_map c @ [(length (seg_key_map c), k)]\<rparr>)"
proof -
  have n: "map_of (seg_key_map c) k = None" using assms(2) by (simp add: map_of_eq_None_iff)
  have "map fst (seg_idxc_map c) = map snd (seg_key_map c)"
    using assms(1) by (simp add: seg_inv_def case_prod_unfold comp_def)
  then have "set (map fst (seg_idxc_map c)) = {0..<length (seg_key_map c)}"
    using assms(1) by (simp add: seg_inv_def)
  then have "length (seg_key_map c) \<notin> fst ` set (seg_idxc_map c)"
    by simp
  then have "AList.update (length (seg_key_map c)) k (seg_idxc_map c)
             = seg_idxc_map c @ [(length (seg_key_map c), k)]" by (rule update_fresh)
  then show ?thesis using n by (simp add: seg_key_to_idxc_def setdefault_def)
qed

lemma seg_fresh_inv:
  assumes "seg_inv c" "k \<notin> fst ` set (seg_key_map c)"
  shows "seg_inv (snd (seg_key_to_idxc k c))"
  using assms by (simp add: seg_fresh) (auto simp: seg_inv_def)

lemma seg_run_fresh:
  "seg_inv c \<Longrightarrow> distinct ks \<Longrightarrow> set ks \<inter> fst ` set (seg_key_map c) = {} \<Longrightarrow>
   seg_keys_to_idxcs ks c = (ids, c') \<Longrightarrow>
   ids = [length (seg_key_map c)..<length (seg_key_map c) + length ks] \<and>
   seg_key_map c' = seg_key_map c @ zip ks ids \<and> seg_inv c'"
proof (induction ks arbitrary: c ids c')
  case Nil
  then show ?case by simp
next
  case (Cons k ks)
  let ?n = "length (seg_key_map c)"
  let ?c1 = "c\<lparr>seg_key_map := seg_key_map c @ [(k, ?n)], seg_idxc_map := seg_idxc_map c @ [(?n, k)]\<rparr>"
  have kf: "k \<notin> fst ` set (seg_key_map c)" using Cons.prems(3) by auto
  have s1: "seg_key_to_idxc k c = (?n, ?c1)" using seg_fresh[OF Cons.prems(1) kf] .
  have i1: "seg_inv ?c1" using seg_fresh_inv[OF Cons.prems(1) kf] s1 by simp
  obtain ids2 c2 where r: "seg_keys_to_idxcs ks ?c1 = (ids2, c2)" by fastforce
  have d: "distinct ks" using Cons.prems(2) by simp
  have dj: "set ks \<inter> fst ` set (seg_key_map ?c1) = {}" using Cons.prems(2,3) by auto
  from Cons.IH[OF i1 d dj r]
  have ih: "ids2 = [Suc ?n..<Suc ?n + length ks]" "seg_key_map c2 = seg_key_map ?c1 @ zip ks ids2" "seg_inv c2"
    by simp_all
  have "ids = ?n # ids2" "c' = c2" using Cons.prems(4) s1 r by simp_all
  moreover have "[?n..<?n + length (k # ks)] = ?n # [Suc ?n..<Suc ?n + length ks]"
    by (simp add: upt_conv_Cons del: upt_Suc)
  ultimately show ?case using ih by (simp del: upt_Suc)
qed

lemma init_inv: "seg_inv (init_ctx opts)"
  by (simp add: seg_inv_def init_ctx_def)

lemma seg_step_inv:
  assumes "seg_inv c"
  shows "seg_inv (snd (seg_key_to_idxc k c)) \<and>
         (\<exists>ext. seg_key_map (snd (seg_key_to_idxc k c)) = seg_key_map c @ ext)"
proof (cases "map_of (seg_key_map c) k")
  case None
  then have kf: "k \<notin> fst ` set (seg_key_map c)" by (simp add: map_of_eq_None_iff)
  show ?thesis using seg_fresh_inv[OF assms kf] seg_fresh[OF assms kf] by simp
next
  case (Some i)
  show ?thesis using seg_existing[OF assms Some] assms by simp
qed

lemma seg_run_inv:
  "seg_inv c \<Longrightarrow> seg_inv (snd (seg_keys_to_idxcs qs c)) \<and>
     (\<exists>ext. seg_key_map (snd (seg_keys_to_idxcs qs c)) = seg_key_map c @ ext)"
proof (induction qs arbitrary: c)
  case Nil
  then show ?case by simp
next
  case (Cons q qs)
  obtain i c1 where s: "seg_key_to_idxc q c = (i, c1)" by fastforce
  have i1: "seg_inv c1" and e1: "\<exists>ext. seg_key_map c1 = seg_key_map c @ ext"
    using seg_step_inv[OF Cons.prems, of q] s by simp_all
  obtain js c2 where r: "seg_keys_to_idxcs qs c1 = (js, c2)" by fastforce
  have "seg_inv c2" and "\<exists>ext. seg_key_map c2 = seg_key_map c1 @ ext"
    using Cons.IH[OF i1] r by simp_all
  then show ?case using s r e1 by auto
qed

lemma background_stays:
  "seg_key_to_idxc background_key (snd (seg_keys_to_idxcs qs (init_ctx opts)))
     = (0, snd (seg_keys_to_idxcs qs (init_ctx opts)))"
proof -
  let ?c = "snd (seg_keys_to_idxcs qs (init_ctx opts))"
  have i: "seg_inv ?c" and "\<exists>ext. seg_key_map ?c = seg_key_map (init_ctx opts) @ ext"
    using seg_run_inv[OF init_inv] by blast+
  then obtain ext where "seg_key_map ?c = (background_key, 0) # ext" by (auto simp: init_ctx_def)
  then have "map_of (seg_key_map ?c) background_key = Some 0" by simp
  then show ?thesis by (rule seg_existing[OF i])
qed

text \<open>
  C7. In the table \<^verbatim>\<open>__init__\<close> creates, the background key has id 0. When \<open>N\<close>
  distinct keys, none of them the background key, are looked up one after the other, the
  ids returned are \<open>1, ..., N\<close> in the order of the lookups; after that, looking up the
  background key or any of the \<open>N\<close> keys again returns the id it already has and leaves
  the context as it is, so nothing new is allocated.
\<close>

theorem seg_ids_first_seen:
  assumes "distinct ks" and "background_key \<notin> set ks"
    and "seg_keys_to_idxcs ks (init_ctx opts) = (ids, c')"
  shows "ids = [1..<Suc (length ks)] \<and>
         seg_key_to_idxc background_key (init_ctx opts) = (0, init_ctx opts) \<and>
         seg_key_to_idxc background_key c' = (0, c') \<and>
         (\<forall>i<length ks. seg_key_to_idxc (ks ! i) c' = (Suc i, c'))"
proof -
  let ?c = "init_ctx opts"
  have dj: "set ks \<inter> fst ` set (seg_key_map ?c) = {}" using assms(2) by (simp add: init_ctx_def)
  have m0: "seg_key_map ?c = [(background_key, 0)]" by (simp add: init_ctx_def)
  have len0: "length (seg_key_map ?c) = Suc 0" by (simp add: m0)
  from seg_run_fresh[OF init_inv assms(1) dj assms(3)]
  have a0: "ids = [Suc 0..<Suc 0 + length ks]" and b0: "seg_key_map c' = seg_key_map ?c @ zip ks ids" and c: "seg_inv c'"
    unfolding len0 by blast+
  have a: "ids = [1..<Suc (length ks)]" using a0 by simp
  have b: "seg_key_map c' = (background_key, 0) # zip ks ids" using b0 by (simp add: m0)
  have bg0: "seg_key_to_idxc background_key ?c = (0, ?c)"
    by (rule seg_existing[OF init_inv]) (simp add: m0)
  have bg1: "seg_key_to_idxc background_key c' = (0, c')"
    by (rule seg_existing[OF c]) (simp add: b)
  have "seg_key_to_idxc (ks ! i) c' = (Suc i, c')" if "i < length ks" for i
  proof (rule seg_existing[OF c])
    have l: "length ids = length ks" unfolding a0 by (simp del: upt_Suc)
    have "map_of (zip ks ids) (ks ! i) = Some (ids ! i)"
      using that assms(1) l by (simp add: map_of_zip_nth)
    moreover have "ids ! i = Suc i" unfolding a0 using that by (simp del: upt_Suc)
    moreover have "ks ! i \<noteq> background_key" using assms(2) that by (metis nth_mem)
    ultimately show "map_of (seg_key_map c') (ks ! i) = Some (Suc i)" by (simp add: b)
  qed
  then show ?thesis using a bg0 bg1 by blast
qed

theorem seg_ids_first_seen_witness:
  "distinct [KeyEntity 0, KeyLink 1 2, KeyEntity 5] \<and>
   background_key \<notin> set [KeyEntity 0, KeyLink 1 2, KeyEntity 5] \<and>
   fst (seg_keys_to_idxcs [KeyEntity 0, KeyLink 1 2, KeyEntity 5] (init_ctx example_options))
     = [1, 2, 3] \<and>
   fst (seg_key_to_idxc (KeyLink 1 2)
          (snd (seg_keys_to_idxcs [KeyEntity 0, KeyLink 1 2, KeyEntity 5]
                  (init_ctx example_options)))) = 2"
proof -
  define ks where "ks = [KeyEntity 0, KeyLink 1 2, KeyEntity 5]"
  define r where "r = seg_keys_to_idxcs ks (init_ctx example_options)"
  have d: "distinct ks" by (simp add: ks_def)
  have b: "background_key \<notin> set ks" by (simp add: ks_def background_key_def)
  have e: "seg_keys_to_idxcs ks (init_ctx example_options) = (fst r, snd r)"
    by (simp add: r_def)
  from seg_ids_first_seen[OF d b e]
  have ids: "fst r = [1..<Suc (length ks)]"
    and again: "\<forall>i<length ks. seg_key_to_idxc (ks ! i) (snd r) = (Suc i, snd r)"
    by blast+
  have "fst r = [1, 2, 3]"
    unfolding ids by (simp add: ks_def upt_rec)
  moreover have "(1::nat) < length ks" by (simp add: ks_def)
  with again have "seg_key_to_idxc (ks ! 1) (snd r) = (Suc 1, snd r)" by blast
  then have "fst (seg_key_to_idxc (KeyLink 1 2) (snd r)) = 2" by (simp add: ks_def)
  ultimately show ?thesis using d b unfolding r_def ks_def by blast
qed

section \<open>Properties of the external node registry\<close>

text \<open>
  C9. \<^verbatim>\<open>add_external_node\<close> with a name that is already registered fails with the
  duplicate-name error; with a missing, \<^verbatim>\<open>None\<close> or empty name it fails with the
  invalid-name error, a \<open>ConfigError\<close>; after a successful add, a second add under
  the same name fails. \<^verbatim>\<open>clear_external_node\<close> with a name that is not registered
  returns the context unchanged, and a second removal after a first one changes nothing.
\<close>

theorem external_node_registry:
  "(truthy_name (obj_name obj) \<and> obj_name obj = PyStr nm \<and> map_of (external_nodes c) nm \<noteq> None \<longrightarrow>
      add_external_node obj c = Inl NodeNameExists \<and> kind_of NodeNameExists = DuplicateNameError) \<and>
   (\<not> truthy_name (obj_name obj) \<longrightarrow>
      add_external_node obj c = Inl NodeNameInvalid \<and> kind_of NodeNameInvalid = ConfigError) \<and>
   (add_external_node obj c = Inr c1 \<and> obj_name obj2 = obj_name obj \<longrightarrow>
      add_external_node obj2 c1 = Inl NodeNameExists) \<and>
   (obj_name obj = PyStr nm \<and> map_of (external_nodes c) nm = None \<longrightarrow>
      clear_external_node obj c = Inr c) \<and>
   (clear_external_node obj c = Inr c2 \<longrightarrow> clear_external_node obj c2 = Inr c2)"
proof (intro conjI impI)
  assume "truthy_name (obj_name obj) \<and> obj_name obj = PyStr nm \<and> map_of (external_nodes c) nm \<noteq> None"
  then show "add_external_node obj c = Inl NodeNameExists"
    by (auto simp: add_external_node_def)
next
  assume "\<not> truthy_name (obj_name obj)"
  then show "add_external_node obj c = Inl NodeNameInvalid"
    by (simp add: add_external_node_def)
next
  assume a: "add_external_node obj c = Inr c1 \<and> obj_name obj2 = obj_name obj"
  then obtain nm' where n: "obj_name obj = PyStr nm'" "nm' \<noteq> []"
    by (cases "obj_name obj") (auto simp: add_external_node_def split: if_splits)
  from a n have "map_of (external_nodes c1) nm' \<noteq> None"
    by (auto simp: add_external_node_def add_node_def update_Some_unfold split: if_splits)
  then show "add_external_node obj2 c1 = Inl NodeNameExists"
    using a n by (auto simp: add_external_node_def)
next
  assume "obj_name obj = PyStr nm \<and> map_of (external_nodes c) nm = None"
  then show "clear_external_node obj c = Inr c"
    by (simp add: clear_external_node_def)
next
  assume a: "clear_external_node obj c = Inr c2"
  show "clear_external_node obj c2 = Inr c2"
  proof (cases "obj_name obj")
    case NoAttr
    then show ?thesis using a by (simp add: clear_external_node_def)
  next
    case PyNone
    then show ?thesis using a by (simp add: clear_external_node_def)
  next
    case (PyStr s)
    have "map_of (external_nodes c2) s = None"
      using a PyStr
      by (auto simp: clear_external_node_def remove_node_def delete_conv split: option.splits)
    then show ?thesis using PyStr by (simp add: clear_external_node_def)
  qed
qed simp_all

theorem external_node_registry_witness:
  "add_external_node \<lparr>obj_name = PyStr ''a'', obj_data = 0\<rparr> (init_ctx example_options)
     = Inr ((init_ctx example_options)
              \<lparr>external_nodes := [(''a'', 0)],
                scene_nodes := [(0, \<lparr>obj_name = PyStr ''a'', obj_data = 0\<rparr>)],
                next_node := 1\<rparr>) \<and>
   add_external_node \<lparr>obj_name = PyStr ''a'', obj_data = 7\<rparr>
     ((init_ctx example_options)
        \<lparr>external_nodes := [(''a'', 0)],
          scene_nodes := [(0, \<lparr>obj_name = PyStr ''a'', obj_data = 0\<rparr>)],
          next_node := 1\<rparr>) = Inl NodeNameExists \<and>
   add_external_node \<lparr>obj_name = PyStr [], obj_data = 0\<rparr> (init_ctx example_options)
     = Inl NodeNameInvalid \<and>
   clear_external_node \<lparr>obj_name = PyStr ''b'', obj_data = 0\<rparr> (init_ctx example_options)
     = Inr (init_ctx example_options)"
proof -
  let ?c = "init_ctx example_options"
  let ?o = "\<lparr>obj_name = PyStr ''a'', obj_data = 0\<rparr>"
  let ?c1 = "?c\<lparr>external_nodes := [(''a'', 0)], scene_nodes := [(0, ?o)], next_node := 1\<rparr>"
  have a: "add_external_node ?o ?c = Inr ?c1"
    by (simp add: add_external_node_def add_node_def init_ctx_def)
  have n: "obj_name \<lparr>obj_name = PyStr ''a'', obj_data = 7\<rparr> = obj_name ?o" by simp
  have e: "\<not> truthy_name (obj_name \<lparr>obj_name = PyStr [], obj_data = 0\<rparr>)" by simp
  have m: "obj_name \<lparr>obj_name = PyStr ''b'', obj_data = 0\<rparr> = PyStr ''b'' \<and>
           map_of (external_nodes ?c) ''b'' = None" by (simp add: init_ctx_def)
  have t1: "add_external_node \<lparr>obj_name = PyStr ''a'', obj_data = 7\<rparr> ?c1 = Inl NodeNameExists"
    using external_node_registry[of ?o "''a''" ?c ?c1 "\<lparr>obj_name = PyStr ''a'', obj_data = 7\<rparr>" ?c]
      a n by (elim conjE) simp
  have t2: "add_external_node \<lparr>obj_name = PyStr [], obj_data = 0\<rparr> ?c = Inl NodeNameInvalid"
    using external_node_registry[of "\<lparr>obj_name = PyStr [], obj_data = 0\<rparr>" "''a''" ?c ?c1 ?o ?c]
      e by (elim conjE) simp
  have t3: "clear_external_node \<lparr>obj_name = PyStr ''b'', obj_data = 0\<rparr> ?c = Inr ?c"
    using external_node_registry[of "\<lparr>obj_name = PyStr ''b'', obj_data = 0\<rparr>" "''b''" ?c ?c1 ?o ?c]
      m by (elim conjE) simp
  show ?thesis
    by (intro conjI) (rule a, rule t1, rule t2, rule t3)
qed

section \<open>Properties of the resync pass\<close>

lemma bindE_Inr: "bindE r f = Inr y \<longleftrightarrow> (\<exists>x. r = Inr x \<and> f x = Inr y)"
  by (cases r) (simp_all add: bindE_def)

lemma lookupE_Inr: "lookupE d k = Inr v \<longleftrightarrow> map_of d k = Some v"
  by (simp add: lookupE_def split: option.splits)

lemma create_node_seg_stable: "stable_of (create_node_seg k n c) = stable_of c"
  by (simp add: create_node_seg_def seg_key_to_idxc_def setdefault_def stable_of_def
      split: option.splits prod.splits)

lemma apply_effect_stable: "stable_of (apply_effect e c) = stable_of c"
proof (cases e)
  case (Spawn r obj)
  then show ?thesis
    by (cases r) (simp_all add: create_node_seg_stable Let_def, simp_all add: stable_of_def)
qed (simp_all add: stable_of_def)

lemma fold_effects_stable: "stable_of (fold apply_effect es c) = stable_of c"
  by (induction es arbitrary: c) (simp_all add: apply_effect_stable)

lemma forE_effects:
  assumes step: "\<And>x s s'. f x s = Inr s' \<Longrightarrow> s' = fold apply_effect (eff (stable_of s) x) s"
  shows "forE f xs s = Inr s' \<Longrightarrow>
         s' = fold apply_effect (concat (map (eff (stable_of s)) xs)) s"
proof (induction xs arbitrary: s)
  case Nil
  then show ?case by simp
next
  case (Cons x xs)
  then obtain s1 where a: "f x s = Inr s1" and b: "forE f xs s1 = Inr s'"
    by (auto simp: bindE_Inr)
  have s1: "s1 = fold apply_effect (eff (stable_of s) x) s" by (rule step[OF a])
  have k: "stable_of s1 = stable_of s" unfolding s1 by (rule fold_effects_stable)
  have "s' = fold apply_effect (concat (map (eff (stable_of s1)) xs)) s1"
    by (rule Cons.IH[OF b])
  then show ?case unfolding k by (simp add: s1)
qed

lemma at_node_Some: "map_of reg u = Some n \<Longrightarrow> at_node reg u f = f n"
  by (simp add: at_node_def)

lemma update_link_frame_effects:
  assumes "update_link_frame w c = Inr c'"
  shows "c' = fold apply_effect (link_frame_effects w (stable_of c)) c"
proof (cases "link_frame_shown c \<and> rigid_active w")
  case True
  have step: "s' = fold apply_effect
      (at_node (st_link_frame_nodes (stable_of s)) (link_uid l)
         (\<lambda>n. [Write (n, Model) (LinkFrameT (link_idx l))])) s"
    if "bindE (lookupE (link_frame_nodes s) (link_uid l))
          (\<lambda>n. Inr (set_buffer (get_buffer_id n Model) (LinkFrameT (link_idx l)) s)) = Inr s'"
    for l s s'
    using that
    by (auto simp: bindE_Inr lookupE_Inr at_node_Some stable_of_def set_buffer_def
        get_buffer_id_def)
  from True assms have "forE (\<lambda>link c1.
                  bindE (lookupE (link_frame_nodes c1) (link_uid link))
                    (\<lambda>n. Inr (set_buffer (get_buffer_id n Model) (LinkFrameT (link_idx link)) c1)))
               (rigid_links w) c = Inr c'"
    by (simp add: update_link_frame_def)
  from forE_effects[where eff = "\<lambda>k l. at_node (st_link_frame_nodes k) (link_uid l)
         (\<lambda>n. [Write (n, Model) (LinkFrameT (link_idx l))])", OF step this]
  show ?thesis using True by (simp add: link_frame_effects_def stable_of_def)
next
  case False
  then show ?thesis using assms
    by (auto simp: update_link_frame_def link_frame_effects_def stable_of_def split: if_splits)
qed

lemma update_tool_effects:
  assumes "update_tool w c = Inr c'"
  shows "c' = fold apply_effect (tool_effects w (stable_of c)) c"
proof (cases "tool_active w")
  case True
  have step: "s' = fold apply_effect
      (at_node (st_static_nodes (stable_of s)) (ent_uid e) (\<lambda>n. [Pose n (ToolT (ent_uid e))])) s"
    if "bindE (lookupE (static_nodes s) (ent_uid e))
          (\<lambda>n. Inr (set_node_pose n (ToolT (ent_uid e)) s)) = Inr s'"
    for e s s'
    using that
    by (auto simp: bindE_Inr lookupE_Inr at_node_Some stable_of_def set_node_pose_def)
  from True assms have "forE (\<lambda>tool_entity c1.
                bindE (lookupE (static_nodes c1) (ent_uid tool_entity))
                  (\<lambda>n. Inr (set_node_pose n (ToolT (ent_uid tool_entity)) c1)))
             (tool_entities w) c = Inr c'"
    by (simp add: update_tool_def)
  from forE_effects[where eff = "\<lambda>k e. at_node (st_static_nodes k) (ent_uid e)
         (\<lambda>n. [Pose n (ToolT (ent_uid e))])", OF step this]
  show ?thesis using True by (simp add: tool_effects_def)
next
  case False
  then show ?thesis using assms by (simp add: update_tool_def tool_effects_def)
qed

lemma update_rigid_geom_effects:
  assumes "update_rigid_geom e g s = Inr s'"
  shows "s' = fold apply_effect
      (at_node (st_rigid_nodes (stable_of s)) (geom_uid g)
         (\<lambda>n. [MeshPose n (render_T (stable_of s) e g), Write (n, Model) (render_T (stable_of s) e g)] @
              (if re_is_plane e then [Reflect (render_T (stable_of s) e g)] else []))) s"
  using assms
  by (auto simp: update_rigid_geom_def bindE_Inr lookupE_Inr at_node_Some stable_of_def
      set_buffer_def get_buffer_id_def set_reflection_mat_def render_T_def Let_def)

lemma update_rigid_effects:
  assumes "update_rigid w c = Inr c'"
  shows "c' = fold apply_effect (rigid_effects w (stable_of c)) c"
proof (cases "rigid_active w")
  case True
  let ?g = "\<lambda>k e g. at_node (st_rigid_nodes k) (geom_uid g)
         (\<lambda>n. [MeshPose n (render_T k e g), Write (n, Model) (render_T k e g)] @
              (if re_is_plane e then [Reflect (render_T k e g)] else []))"
  have step: "s' = fold apply_effect (concat (map (?g (stable_of s) e) (shown_geoms e))) s"
    if "forE (update_rigid_geom e)
          (if re_vis_mode e = ''visual'' then re_vgeoms e else re_geoms e) s = Inr s'"
    for e s s'
  proof -
    from that have "forE (update_rigid_geom e) (shown_geoms e) s = Inr s'"
      by (simp add: shown_geoms_def)
    from forE_effects[where eff = "\<lambda>k. ?g k e" and f = "update_rigid_geom e",
        OF update_rigid_geom_effects this]
    show ?thesis .
  qed
  from True assms have "forE (\<lambda>rigid_entity.
                forE (update_rigid_geom rigid_entity)
                  (if re_vis_mode rigid_entity = ''visual'' then re_vgeoms rigid_entity
                   else re_geoms rigid_entity))
             (rigid_entities w) c = Inr c'"
    by (simp add: update_rigid_def)
  from forE_effects[where eff = "\<lambda>k e. concat (map (?g k e) (shown_geoms e))", OF step this]
  show ?thesis using True by (simp add: rigid_effects_def)
next
  case False
  then show ?thesis using assms by (simp add: update_rigid_def rigid_effects_def)
qed

lemma add_dynamic_node_spawn:
  "add_dynamic_node e (Some obj) c = apply_effect (Spawn e obj) c"
  by (cases e) (simp_all add: add_dynamic_node_def add_node_def Let_def)

lemma draw_transient_arrow_effects:
  "draw_transient_arrow b c = fold apply_effect (if b then [Spawn None arrow] else []) c"
  by (simp add: draw_transient_arrow_def add_dynamic_node_spawn arrow_def del: apply_effect.simps)

lemma update_contact_link_effects:
  assumes "update_contact_link w ct i s = Inr s'"
  shows "s' = fold apply_effect (link_arrows w ct i) s"
proof -
  have i: "i < length (rigid_links w)"
    using assms by (auto simp: update_contact_link_def split: if_splits)
  show ?thesis
  proof (cases "visualize_contact (rigid_links w ! i)")
    case True
    then have "s' = draw_transient_arrow (normal_nonzero ct)
                      (draw_transient_arrow (force_nonzero ct) s)"
      using assms i by (simp add: update_contact_link_def)
    then show ?thesis
      using True i unfolding draw_transient_arrow_effects link_arrows_def by simp
  next
    case False
    then show ?thesis using assms i by (simp add: update_contact_link_def link_arrows_def)
  qed
qed

lemma update_contact_effects:
  assumes "update_contact w c = Inr c'"
  shows "c' = fold apply_effect (contact_effects w) c"
proof (cases "rigid_active w \<and> list_ex visualize_contact (rigid_links w)")
  case True
  have step: "s' = fold apply_effect (link_arrows w ct (link_a ct) @ link_arrows w ct (link_b ct)) s"
    if "bindE (update_contact_link w ct (link_a ct) s) (update_contact_link w ct (link_b ct)) = Inr s'"
    for ct s s'
  proof -
    from that obtain s1 where a: "update_contact_link w ct (link_a ct) s = Inr s1"
      and b: "update_contact_link w ct (link_b ct) s1 = Inr s'" by (auto simp: bindE_Inr)
    show ?thesis
      using update_contact_link_effects[OF a] update_contact_link_effects[OF b] by simp
  qed
  from True assms have "forE (\<lambda>ct c1. bindE (update_contact_link w ct (link_a ct) c1)
                         (update_contact_link w ct (link_b ct))) (rigid_contacts w) c = Inr c'"
    by (simp add: update_contact_def)
  from forE_effects[where eff = "\<lambda>k ct. link_arrows w ct (link_a ct) @ link_arrows w ct (link_b ct)",
      OF step this]
  show ?thesis using True by (simp add: contact_effects_def list_ex_iff)
next
  case False
  then show ?thesis using assms
    by (auto simp: update_contact_def contact_effects_def list_ex_iff)
qed

lemma update_avatar_geom_effects:
  assumes "update_avatar_geom w e g s = Inr s'"
  shows "s' = fold apply_effect
      (at_node (st_rigid_nodes (stable_of s)) (geom_uid g)
         (\<lambda>n. [Write (n, Model) (render_T (stable_of s) e g)])) s"
  using assms
  by (auto simp: update_avatar_geom_def bindE_Inr lookupE_Inr at_node_Some stable_of_def
      set_buffer_def get_buffer_id_def render_T_def Let_def split: if_splits)

lemma update_avatar_effects:
  assumes "update_avatar w c = Inr c'"
  shows "c' = fold apply_effect (avatar_effects w (stable_of c)) c"
proof (cases "avatar_active w")
  case True
  let ?g = "\<lambda>k e g. at_node (st_rigid_nodes k) (geom_uid g)
         (\<lambda>n. [Write (n, Model) (render_T k e g)])"
  have step: "s' = fold apply_effect (concat (map (?g (stable_of s) e) (shown_geoms e))) s"
    if "forE (update_avatar_geom w e)
          (if re_vis_mode e = ''visual'' then re_vgeoms e else re_geoms e) s = Inr s'"
    for e s s'
  proof -
    from that have "forE (update_avatar_geom w e) (shown_geoms e) s = Inr s'"
      by (simp add: shown_geoms_def)
    from forE_effects[where eff = "\<lambda>k. ?g k e" and f = "update_avatar_geom w e",
        OF update_avatar_geom_effects this]
    show ?thesis .
  qed
  from True assms have "forE (\<lambda>avatar_entity.
                forE (update_avatar_geom w avatar_entity)
                  (if re_vis_mode avatar_entity = ''visual'' then re_vgeoms avatar_entity
                   else re_geoms avatar_entity))
             (avatar_entities w) c = Inr c'"
    by (simp add: update_avatar_def)
  from forE_effects[where eff = "\<lambda>k e. concat (map (?g k e) (shown_geoms e))", OF step this]
  show ?thesis using True by (simp add: avatar_effects_def)
next
  case False
  then show ?thesis using assms by (simp add: update_avatar_def avatar_effects_def)
qed

lemma update_particles_effects:
  assumes "update_particles e s = Inr s'"
  shows "s' = fold apply_effect (particle_entry (stable_of s) e) s"
  using assms
  by (auto simp: update_particles_def bindE_Inr lookupE_Inr at_node_Some stable_of_def
      set_buffer_def get_buffer_id_def particle_entry_def)

lemma update_verts_effects:
  assumes "update_verts e s = Inr s'"
  shows "s' = fold apply_effect (verts_entries (stable_of s) e) s"
  using assms
  by (auto simp: update_verts_def bindE_Inr lookupE_Inr at_node_Some stable_of_def
      set_buffer_def get_buffer_id_def verts_entries_def Let_def)

lemma entity_mesh_spawn:
  "add_dynamic_node (Some (se_ref e)) (Some (entity_mesh e)) s = fold apply_effect (recon_mesh e) s"
  by (simp add: add_dynamic_node_spawn recon_mesh_def entity_mesh_def del: apply_effect.simps)

lemma update_mpm_entity_effects:
  assumes "update_mpm_entity e s = Inr s'"
  shows "s' = fold apply_effect
      (if se_vis_mode e = ''recon'' \<or> se_vis_mode e = ''visual'' then recon_mesh e
       else if se_vis_mode e = ''particle'' then particle_entry (stable_of s) e else []) s"
  using assms update_particles_effects[of e s s']
  by (auto simp: update_mpm_entity_def entity_mesh_spawn split: if_splits)

lemma update_sph_entity_effects:
  assumes "update_sph_entity e s = Inr s'"
  shows "s' = fold apply_effect
      (if se_vis_mode e = ''recon'' then recon_mesh e
       else if se_vis_mode e = ''particle'' then particle_entry (stable_of s) e else []) s"
  using assms update_particles_effects[of e s s']
  by (auto simp: update_sph_entity_def entity_mesh_spawn split: if_splits)

lemma update_pbd_entity_effects:
  assumes "update_pbd_entity e s = Inr s'"
  shows "s' = fold apply_effect
      (if se_vis_mode e = ''recon'' then recon_mesh e
       else if se_vis_mode e = ''particle''
       then (if st_render_particle_as (stable_of s) = ''sphere'' then particle_entry (stable_of s) e
             else if st_render_particle_as (stable_of s) = ''tet'' then verts_entries (stable_of s) e
             else [])
       else if se_vis_mode e = ''visual'' then verts_entries (stable_of s) e
       else []) s"
proof -
  have r: "st_render_particle_as (stable_of s) = render_particle_as s" by (simp add: stable_of_def)
  show ?thesis
    unfolding r
    using assms update_particles_effects[of e s s'] update_verts_effects[of e s s']
    by (auto simp: update_pbd_entity_def entity_mesh_spawn split: if_splits)
qed

lemma update_fem_entity_effects:
  assumes "update_fem_entity e s = Inr s'"
  shows "s' = fold apply_effect
      (if se_vis_mode e = ''visual''
       then at_node (st_static_nodes (stable_of s)) (ent_uid (se_ref e))
              (\<lambda>n. [Write (n, Pos) (StateVerts (ent_uid (se_ref e)))])
       else []) s"
  using assms
  by (auto simp: update_fem_entity_def bindE_Inr lookupE_Inr at_node_Some stable_of_def
      set_buffer_def get_buffer_id_def split: if_splits)

lemma update_mpm_effects:
  assumes "update_mpm w c = Inr c'"
  shows "c' = fold apply_effect (mpm_effects w (stable_of c)) c"
proof (cases "mpm_active w")
  case True
  with assms have "forE update_mpm_entity (mpm_entities w) c = Inr c'"
    by (auto simp: update_mpm_def bindE_Inr)
  from forE_effects[where f = update_mpm_entity and eff = "\<lambda>k e.
       if se_vis_mode e = ''recon'' \<or> se_vis_mode e = ''visual'' then recon_mesh e
       else if se_vis_mode e = ''particle'' then particle_entry k e else []",
      OF update_mpm_entity_effects this]
  show ?thesis using True by (simp add: mpm_effects_def)
next
  case False
  then show ?thesis using assms by (simp add: update_mpm_def mpm_effects_def)
qed

lemma update_sph_effects:
  assumes "update_sph w c = Inr c'"
  shows "c' = fold apply_effect (sph_effects w (stable_of c)) c"
proof (cases "sph_active w")
  case True
  with assms have "forE update_sph_entity (sph_entities w) c = Inr c'"
    by (auto simp: update_sph_def bindE_Inr)
  from forE_effects[where f = update_sph_entity and eff = "\<lambda>k e.
       if se_vis_mode e = ''recon'' then recon_mesh e
       else if se_vis_mode e = ''particle'' then particle_entry k e else []",
      OF update_sph_entity_effects this]
  show ?thesis using True by (simp add: sph_effects_def)
next
  case False
  then show ?thesis using assms by (simp add: update_sph_def sph_effects_def)
qed

lemma update_pbd_effects:
  assumes "update_pbd w c = Inr c'"
  shows "c' = fold apply_effect (pbd_effects w (stable_of c)) c"
proof (cases "pbd_active w")
  case True
  with assms have "forE update_pbd_entity (pbd_entities w) c = Inr c'"
    by (auto simp: update_pbd_def bindE_Inr)
  from forE_effects[where f = update_pbd_entity and eff = "\<lambda>k e.
       if se_vis_mode e = ''recon'' then recon_mesh e
       else if se_vis_mode e = ''particle''
       then (if st_render_particle_as k = ''sphere'' then particle_entry k e
             else if st_render_particle_as k = ''tet'' then verts_entries k e
             else [])
       else if se_vis_mode e = ''visual'' then verts_entries k e
       else []",
      OF update_pbd_entity_effects this]
  show ?thesis using True by (simp add: pbd_effects_def)
next
  case False
  then show ?thesis using assms by (simp add: update_pbd_def pbd_effects_def)
qed

lemma update_fem_effects:
  assumes "update_fem w c = Inr c'"
  shows "c' = fold apply_effect (fem_effects w (stable_of c)) c"
proof (cases "fem_active w")
  case True
  with assms have "forE update_fem_entity (fem_entities w) c = Inr c'"
    by (auto simp: update_fem_def bindE_Inr)
  from forE_effects[where f = update_fem_entity and eff = "\<lambda>k e.
       if se_vis_mode e = ''visual''
       then at_node (st_static_nodes k) (ent_uid (se_ref e))
              (\<lambda>n. [Write (n, Pos) (StateVerts (ent_uid (se_ref e)))])
       else []",
      OF update_fem_entity_effects this]
  show ?thesis using True by (simp add: fem_effects_def)
next
  case False
  then show ?thesis using assms by (simp add: update_fem_def fem_effects_def)
qed

lemma foldl_delete_filter:
  "foldl (\<lambda>m n. AList.delete n m) m ns = filter (\<lambda>(k, v). k \<notin> set ns) m"
proof (induction ns arbitrary: m)
  case Nil
  show ?case by simp
next
  case (Cons n ns)
  have "filter (\<lambda>(k, v). k \<notin> set ns) (AList.delete n m) = filter (\<lambda>(k, v). k \<notin> set (n # ns)) m"
    by (induction m) auto
  then show ?case by (simp add: Cons.IH)
qed

lemma clear_loop_eq:
  "clear_dynamic_nodes_loop ns c =
     c\<lparr>seg_node_map := foldl (\<lambda>m n. AList.delete n m) (seg_node_map c) ns,
       scene_nodes := foldl (\<lambda>m n. AList.delete n m) (scene_nodes c) ns\<rparr>"
  by (induction ns arbitrary: c) (simp_all add: remove_node_def remove_node_seg_def)

lemma resync_start:
  "((update_visual_states (clear_dynamic_nodes (c\<lparr>ctx_t := Some t\<rparr>)))\<lparr>scene_bounds := None\<rparr>)
     \<lparr>buffer := []\<rparr> = pass_start t c"
  by (cases c)
     (simp add: update_visual_states_def clear_dynamic_nodes_def clear_loop_eq
       foldl_delete_filter pass_start_def)

lemma resync_effects:
  assumes "resync w (c\<lparr>ctx_t := Some t\<rparr>) = Inr c'"
  shows "c' = pass_result w t c"
proof -
  let ?c4 = "pass_start t c"
  let ?k = "stable_of ?c4"
  from assms obtain c5 c6 c7 c8 c9 c10 c11 c12 where
    s: "update_link_frame w ?c4 = Inr c5"
       "update_tool w c5 = Inr c6"
       "update_rigid w c6 = Inr c7"
       "update_contact w c7 = Inr c8"
       "update_avatar w c8 = Inr c9"
       "update_mpm w c9 = Inr c10"
       "update_sph w c10 = Inr c11"
       "update_pbd w c11 = Inr c12"
       "update_fem w c12 = Inr c'"
    unfolding resync_def Let_def resync_start bindE_Inr by blast
  note e1 = update_link_frame_effects[OF s(1)]
  have k5: "stable_of c5 = ?k" unfolding e1 by (rule fold_effects_stable)
  note e2 = update_tool_effects[OF s(2), unfolded k5]
  have k6: "stable_of c6 = ?k" unfolding e2 by (simp only: fold_effects_stable k5)
  note e3 = update_rigid_effects[OF s(3), unfolded k6]
  have k7: "stable_of c7 = ?k" unfolding e3 by (simp only: fold_effects_stable k6)
  note e4 = update_contact_effects[OF s(4)]
  have k8: "stable_of c8 = ?k" unfolding e4 by (simp only: fold_effects_stable k7)
  note e5 = update_avatar_effects[OF s(5), unfolded k8]
  have k9: "stable_of c9 = ?k" unfolding e5 by (simp only: fold_effects_stable k8)
  note e6 = update_mpm_effects[OF s(6), unfolded k9]
  have k10: "stable_of c10 = ?k" unfolding e6 by (simp only: fold_effects_stable k9)
  note e7 = update_sph_effects[OF s(7), unfolded k10]
  have k11: "stable_of c11 = ?k" unfolding e7 by (simp only: fold_effects_stable k10)
  note e8 = update_pbd_effects[OF s(8), unfolded k11]
  have k12: "stable_of c12 = ?k" unfolding e8 by (simp only: fold_effects_stable k11)
  note e9 = update_fem_effects[OF s(9), unfolded k12]
  show ?thesis
    unfolding pass_result_def pass_effects_def fold_append comp_def
    by (simp only: e9 e8 e7 e6 e5 e4 e3 e2 e1)
qed

lemma create_node_seg_fields:
  "next_node (create_node_seg k n c) = next_node c"
  "ctx_t (create_node_seg k n c) = ctx_t c"
  "dynamic_nodes (create_node_seg k n c) = dynamic_nodes c"
  "scene_nodes (create_node_seg k n c) = scene_nodes c"
  "buffer (create_node_seg k n c) = buffer c"
  "node_poses (create_node_seg k n c) = node_poses c"
  "scene_bounds (create_node_seg k n c) = scene_bounds c"
  "visual_states_t (create_node_seg k n c) = visual_states_t c"
  by (simp_all add: create_node_seg_def seg_key_to_idxc_def setdefault_def
      split: option.splits prod.splits)

lemma apply_effect_frame:
  "ctx_t (apply_effect e c) = ctx_t c"
  "scene_bounds (apply_effect e c) = scene_bounds c"
  "visual_states_t (apply_effect e c) = visual_states_t c"
  by (cases e; simp add: Let_def create_node_seg_fields split: option.splits)+

lemma fold_effects_frame:
  "ctx_t (fold apply_effect es c) = ctx_t c"
  "scene_bounds (fold apply_effect es c) = scene_bounds c"
  "visual_states_t (fold apply_effect es c) = visual_states_t c"
  by (induction es arbitrary: c) (simp_all add: apply_effect_frame)

lemma fold_effects_buffer:
  "buffer (fold apply_effect es c) = dict_update (buffer c) (writes_of es)"
proof (induction es arbitrary: c)
  case Nil
  show ?case by (simp add: dict_update_def)
next
  case (Cons e es)
  show ?case
    by (cases e)
       (simp_all add: Cons.IH dict_update_def Let_def create_node_seg_fields split: option.splits)
qed

lemma fold_effects_poses:
  "node_poses (fold apply_effect es c) = dict_update (node_poses c) (poses_of es)"
proof (induction es arbitrary: c)
  case Nil
  show ?case by (simp add: dict_update_def)
next
  case (Cons e es)
  show ?case
    by (cases e)
       (simp_all add: Cons.IH dict_update_def Let_def create_node_seg_fields split: option.splits)
qed

lemma fold_effects_nodes:
  "next_node (fold apply_effect es c) = next_node c + length (spawns_of es) \<and>
   dynamic_nodes (fold apply_effect es c) =
     dynamic_nodes c @ [next_node c..<next_node c + length (spawns_of es)] \<and>
   scene_nodes (fold apply_effect es c) =
     scene_nodes c @ zip [next_node c..<next_node c + length (spawns_of es)] (spawns_of es)"
proof (induction es arbitrary: c)
  case Nil
  show ?case by simp
next
  case (Cons e es)
  show ?case
  proof (cases e)
    case (Spawn r obj)
    define c1 where "c1 = apply_effect e c"
    have f: "next_node c1 = Suc (next_node c)"
      "dynamic_nodes c1 = dynamic_nodes c @ [next_node c]"
      "scene_nodes c1 = scene_nodes c @ [(next_node c, obj)]"
      unfolding c1_def Spawn
      by (simp_all add: Let_def create_node_seg_fields split: option.splits)
    have u: "[next_node c..<Suc (next_node c + length (spawns_of es))] =
             next_node c # [Suc (next_node c)..<Suc (next_node c + length (spawns_of es))]"
      by (rule upt_conv_Cons) simp
    have "fold apply_effect (e # es) c = fold apply_effect es c1" by (simp add: c1_def)
    then show ?thesis
      using Cons.IH[of c1] by (simp add: f Spawn u del: upt_Suc)
  qed (use Cons.IH in simp_all)
qed

lemmas example_defs =
  example_ctx_def example_world_def example_options_def example_geom_def example_recon_def
  example_particle_def init_ctx_def ctx_reset_def add_dynamic_node_def add_static_node_def
  add_rigid_node_def add_node_def create_node_seg_def seg_key_to_idxc_def setdefault_def
  seg_idxc_to_idxc_rgb_def entity_mesh_def background_key_def

lemma example_ctx_value:
  "example_ctx =
    \<lparr>segmentation_level = ''entity'', render_particle_as = ''sphere'',
     rendered_envs_idx = Some [0], link_frame_shown = False,
     ctx_t = Some (- 1), buffer = [], link_frame_nodes = [],
     rigid_nodes = [(20, 0)], static_nodes = [(31, 1)], dynamic_nodes = [2],
     external_nodes = [],
     seg_node_map = [(0, 0, 0, 1), (1, 0, 0, 2), (2, 0, 0, 3)],
     seg_idxc_map =
       [(0, KeyEntity (- 1)), (1, KeyEntity 0), (2, KeyEntity 2), (3, KeyEntity 1)],
     seg_key_map =
       [(KeyEntity (- 1), 0), (KeyEntity 0, 1), (KeyEntity 2, 2), (KeyEntity 1, 3)],
     scene_nodes =
       [(0, \<lparr>obj_name = PyNone, obj_data = 20\<rparr>),
        (1, \<lparr>obj_name = PyNone, obj_data = 31\<rparr>),
        (2, \<lparr>obj_name = PyNone, obj_data = 30\<rparr>)],
     next_node = 3, scene_bounds = None, node_poses = [], mesh_poses = [],
     reflection = None, visual_states_t = None\<rparr>"
  by (simp add: example_defs)

lemmas update_defs =
  update_def resync_def update_visual_states_def clear_dynamic_nodes_def remove_node_def
  remove_node_seg_def
  update_link_frame_def update_tool_def update_rigid_def update_rigid_geom_def
  update_contact_def update_contact_link_def draw_transient_arrow_def update_avatar_def
  update_mpm_def update_mpm_entity_def update_particles_def update_sph_def update_pbd_def
  update_fem_def first_rendered_env_def bindE_def lookupE_def set_buffer_def
  get_buffer_id_def set_reflection_mat_def Let_def

lemma example_update_value:
  "update example_world 1 example_ctx =
   Inr \<lparr>segmentation_level = ''entity'', render_particle_as = ''sphere'',
        rendered_envs_idx = Some [0], link_frame_shown = False,
        ctx_t = Some 1,
        buffer = [((0, Model), GeomT True 0 (Some 1)), ((1, Model), ParticleT 31 (Some 1))],
        link_frame_nodes = [], rigid_nodes = [(20, 0)],
        static_nodes = [(31, 1)], dynamic_nodes = [3, 4, 5],
        external_nodes = [],
        seg_node_map = [(0, 0, 0, 1), (1, 0, 0, 2), (5, 0, 0, 3)],
        seg_idxc_map =
          [(0, KeyEntity (- 1)), (1, KeyEntity 0), (2, KeyEntity 2), (3, KeyEntity 1)],
        seg_key_map =
          [(KeyEntity (- 1), 0), (KeyEntity 0, 1), (KeyEntity 2, 2), (KeyEntity 1, 3)],
        scene_nodes =
          [(0, \<lparr>obj_name = PyNone, obj_data = 20\<rparr>),
           (1, \<lparr>obj_name = PyNone, obj_data = 31\<rparr>),
           (3, \<lparr>obj_name = PyStr ''debug_arrow'', obj_data = 0\<rparr>),
           (4, \<lparr>obj_name = PyStr ''debug_arrow'', obj_data = 0\<rparr>),
           (5, \<lparr>obj_name = PyNone, obj_data = 30\<rparr>)],
        next_node = 6, scene_bounds = None, node_poses = [],
        mesh_poses = [(0, GeomT True 0 (Some 1))], reflection = None,
        visual_states_t = Some 1\<rparr>"
  unfolding example_ctx_value
  by (simp add: update_defs example_world_def example_geom_def example_recon_def
      example_particle_def add_dynamic_node_def add_node_def create_node_seg_def
      seg_key_to_idxc_def setdefault_def seg_idxc_to_idxc_rgb_def entity_mesh_def)

lemma example_stable:
  "stable_of (pass_start 1 example_ctx) =
     \<lparr>st_link_frame_shown = False, st_link_frame_nodes = [], st_rigid_nodes = [(20, 0)],
      st_static_nodes = [(31, 1)], st_render_particle_as = ''sphere'',
      st_visual_states_t = Some 1\<rparr>"
  by (simp add: example_ctx_value stable_of_def pass_start_def)

lemma example_effects:
  "pass_effects example_world (stable_of (pass_start 1 example_ctx)) =
     [MeshPose 0 (GeomT True 0 (Some 1)), Write (0, Model) (GeomT True 0 (Some 1)),
      Spawn None arrow, Spawn None arrow,
      Spawn (Some \<lparr>ent_uid = 30, ent_idx = 1\<rparr>) \<lparr>obj_name = PyNone, obj_data = 30\<rparr>,
      Write (1, Model) (ParticleT 31 (Some 1))]"
  unfolding example_stable
  by (simp add: pass_effects_def link_frame_effects_def tool_effects_def rigid_effects_def
      contact_effects_def avatar_effects_def mpm_effects_def sph_effects_def pbd_effects_def
      fem_effects_def example_world_def example_geom_def example_recon_def example_particle_def
      at_node_def shown_geoms_def render_T_def link_arrows_def recon_mesh_def
      particle_entry_def)

lemma pass_start_fields:
  "next_node (pass_start t c) = next_node c"
  "dynamic_nodes (pass_start t c) = []"
  "scene_nodes (pass_start t c) = filter (\<lambda>(n, obj). n \<notin> set (dynamic_nodes c)) (scene_nodes c)"
  "buffer (pass_start t c) = []"
  "node_poses (pass_start t c) = node_poses c"
  "scene_bounds (pass_start t c) = None"
  "visual_states_t (pass_start t c) = Some t"
  "ctx_t (pass_start t c) = Some t"
  by (simp_all add: pass_start_def)




lemma pass_result_fields:
  "ctx_t (pass_result w t c) = Some t"
  "scene_bounds (pass_result w t c) = None"
  "visual_states_t (pass_result w t c) = Some t"
  "buffer (pass_result w t c) =
     dict_update [] (writes_of (pass_effects w (stable_of (pass_start t c))))"
  "node_poses (pass_result w t c) =
     dict_update (node_poses c) (poses_of (pass_effects w (stable_of (pass_start t c))))"
  "next_node (pass_result w t c) =
     next_node c + length (spawns_of (pass_effects w (stable_of (pass_start t c))))"
  "dynamic_nodes (pass_result w t c) =
     [next_node c..<next_node c + length (spawns_of (pass_effects w (stable_of (pass_start t c))))]"
  "scene_nodes (pass_result w t c) =
     filter (\<lambda>(n, obj). n \<notin> set (dynamic_nodes c)) (scene_nodes c) @
     zip [next_node c..<next_node c + length (spawns_of (pass_effects w (stable_of (pass_start t c))))]
       (spawns_of (pass_effects w (stable_of (pass_start t c))))"
  unfolding pass_result_def
  using fold_effects_nodes[of "pass_effects w (stable_of (pass_start t c))" "pass_start t c"]
  by (simp_all add: fold_effects_frame fold_effects_buffer fold_effects_poses pass_start_fields)


text \<open>
  C2. When the stored time index is at least the time index of the scene, \<^verbatim>\<open>update\<close>
  returns the context as it is: no buffer entry is written and no registry changes.
  Otherwise it stores the time index of the scene and runs the resync pass; when the pass
  succeeds, the stored index is that of the scene and the context is the one the pass of
  the specification gives: the dynamic nodes of the frame before are gone, the derived
  visual state and the buffer-update map are those of this time index, and the families
  have made their entries and their new dynamic nodes. A second \<^verbatim>\<open>update\<close> at the same
  time index (whatever the solvers hold by then) returns that context unchanged, so the
  pass ran once.
\<close>

theorem update_staleness:
  assumes "ctx_t c = Some last_t"
  shows "(scene_t \<le> last_t \<longrightarrow> update w scene_t c = Inr c) \<and>
         (last_t < scene_t \<longrightarrow> update w scene_t c = resync w (c\<lparr>ctx_t := Some scene_t\<rparr>)) \<and>
         (last_t < scene_t \<and> update w scene_t c = Inr c' \<longrightarrow>
            ctx_t c' = Some scene_t \<and>
            c' = pass_result w scene_t c \<and>
            buffer c' =
              dict_update [] (writes_of (pass_effects w (stable_of (pass_start scene_t c)))) \<and>
            update w' scene_t c' = Inr c')"
proof (intro conjI impI)
  assume "scene_t \<le> last_t"
  then show "update w scene_t c = Inr c" using assms by (simp add: update_def)
next
  assume "last_t < scene_t"
  then show "update w scene_t c = resync w (c\<lparr>ctx_t := Some scene_t\<rparr>)"
    using assms by (simp add: update_def)
next
  assume a: "last_t < scene_t \<and> update w scene_t c = Inr c'"
  then have r: "resync w (c\<lparr>ctx_t := Some scene_t\<rparr>) = Inr c'"
    using assms by (auto simp: update_def)
  show e: "c' = pass_result w scene_t c" by (rule resync_effects[OF r])
  show t: "ctx_t c' = Some scene_t" unfolding e by (rule pass_result_fields)
  show "buffer c' =
          dict_update [] (writes_of (pass_effects w (stable_of (pass_start scene_t c))))"
    unfolding e by (rule pass_result_fields)
  show "update w' scene_t c' = Inr c'" using t by (simp add: update_def)
qed


lemma spawns_append: "spawns_of (xs @ ys) = spawns_of xs @ spawns_of ys"
  by (induction xs rule: spawns_of.induct) simp_all

theorem update_staleness_witness:
  "ctx_t example_ctx = Some (- 1) \<and>
   update example_world (- 1) example_ctx = Inr example_ctx \<and>
   (\<exists>c'. update example_world 1 example_ctx = Inr c' \<and>
         ctx_t c' = Some 1 \<and>
         c' = pass_result example_world 1 example_ctx \<and>
         buffer c' = [((0, Model), GeomT True 0 (Some 1)), ((1, Model), ParticleT 31 (Some 1))] \<and>
         dynamic_nodes c' = [3, 4, 5] \<and>
         update example_world 1 c' = Inr c' \<and>
         resync example_world c' \<noteq> Inr c')"
proof -
  have t: "ctx_t example_ctx = Some (- 1)" by (simp add: example_ctx_value)
  obtain c' where u: "update example_world 1 example_ctx = Inr c'"
    using example_update_value by blast
  have v: "dynamic_nodes c' = [3, 4, 5]" "next_node c' = 6"
    using u unfolding example_update_value by auto
  have a: "update example_world (- 1) example_ctx = Inr example_ctx"
    using update_staleness[OF t, of "- 1" example_world c' example_world] by simp
  note s = update_staleness[OF t, of 1 example_world c' example_world]
  have f: "ctx_t c' = Some 1 \<and> c' = pass_result example_world 1 example_ctx \<and>
        buffer c' = dict_update []
          (writes_of (pass_effects example_world (stable_of (pass_start 1 example_ctx)))) \<and>
        update example_world 1 c' = Inr c'"
    by (rule mp[OF s[THEN conjunct2, THEN conjunct2]]) (simp add: u)
  have b: "buffer c' =
      [((0, Model), GeomT True 0 (Some 1)), ((1, Model), ParticleT 31 (Some 1))]"
    using f[THEN conjunct2, THEN conjunct2, THEN conjunct1]
    by (simp add: example_effects dict_update_def arrow_def)
  have n: "resync example_world c' \<noteq> Inr c'"
  proof
    assume r: "resync example_world c' = Inr c'"
    have "c'\<lparr>ctx_t := Some 1\<rparr> = c'" using f[THEN conjunct1] by simp
    then have "resync example_world (c'\<lparr>ctx_t := Some 1\<rparr>) = Inr c'" using r by simp
    then have "c' = pass_result example_world 1 c'" by (rule resync_effects)
    then have "next_node c' = next_node (pass_result example_world 1 c')" by simp
    then have z: "length (spawns_of (pass_effects example_world (stable_of (pass_start 1 c')))) = 0"
      by (simp add: pass_result_fields)
    have "spawns_of (mpm_effects example_world k) \<noteq> []" for k
      by (simp add: mpm_effects_def example_world_def example_recon_def recon_mesh_def
          spawns_append)
    then have "spawns_of (pass_effects example_world k) \<noteq> []" for k
      by (simp add: pass_effects_def spawns_append)
    then show False using z by simp
  qed
  show ?thesis using t a u f b v(1) n by blast
qed




section \<open>Properties of the batching layout\<close>

lemma ceil_sqrt_from_ge: "r \<le> ceil_sqrt_from r n"
proof (induction r n rule: ceil_sqrt_from.induct)
  case (1 r n)
  show ?case
  proof (cases "n \<le> r * r")
    case True
    then show ?thesis by (subst ceil_sqrt_from.simps) simp
  next
    case False
    then have "Suc r \<le> ceil_sqrt_from (Suc r) n" using "1" by simp
    then show ?thesis using False by (subst ceil_sqrt_from.simps) simp
  qed
qed

lemma ceil_sqrt_pos: "0 < n \<Longrightarrow> 0 < ceil_sqrt n"
proof -
  assume "0 < n"
  then have "ceil_sqrt_from 0 n = ceil_sqrt_from (Suc 0) n"
    by (subst ceil_sqrt_from.simps) simp
  then show ?thesis using ceil_sqrt_from_ge[of "Suc 0" n] by (simp add: ceil_sqrt_def)
qed

lemma col_max_Max: "xs \<noteq> [] \<Longrightarrow> col_max xs = Max (set xs)"
  by (cases xs) (simp_all add: col_max_def Max.set_eq_fold del: set_simps)

lemma col_min_Min: "xs \<noteq> [] \<Longrightarrow> col_min xs = Min (set xs)"
  by (cases xs) (simp_all add: col_min_def Min.set_eq_fold del: set_simps)

lemma coord_simps:
  "coord 0 p = fst p" "coord 1 p = fst (snd p)" "coord (Suc 0) p = fst (snd p)"
  "coord 2 p = snd (snd p)"
  by (simp_all add: coord_def)

lemma below_three: "k < 3 \<Longrightarrow> k = 0 \<or> k = 1 \<or> k = (2::nat)"
  by arith

lemma grid_offsets_eq:
  "0 < per_row \<Longrightarrow> grid_offsets fl B per_row sp = map (grid_point fl per_row sp) [0..<B]"
  by (simp add: grid_offsets_def grid_point_def np_floordiv_def np_mod_def)

lemma grid_column_set:
  "coord k ` set (map (grid_point fl per_row sp) [0..<B]) = grid_column fl per_row sp B k"
  by (simp add: grid_column_def image_image atLeast0LessThan)

lemma center_of_coord:
  assumes "offs \<noteq> []" "k < 3"
  shows "coord k (center_of fl offs) = midpoint fl (coord k ` set offs)"
proof -
  have n: "map fst offs \<noteq> []" "map (fst \<circ> snd) offs \<noteq> []" "map (snd \<circ> snd) offs \<noteq> []"
    using assms(1) by simp_all
  have s: "set (map fst offs) = coord 0 ` set offs"
    "set (map (fst \<circ> snd) offs) = coord 1 ` set offs"
    "set (map (snd \<circ> snd) offs) = coord 2 ` set offs"
    by (auto simp: coord_def)
  have c: "center_of fl offs =
      (midpoint fl (coord 0 ` set offs), midpoint fl (coord 1 ` set offs),
       midpoint fl (coord 2 ` set offs))"
    unfolding center_of_def midpoint_def col_max_Max[OF n(1)]
         col_min_Min[OF n(1)] col_max_Max[OF n(2)] col_min_Min[OF n(2)] col_max_Max[OF n(3)]
         col_min_Min[OF n(3)] s ..
  from below_three[OF assms(2)] show ?thesis
    unfolding c by (elim disjE) (simp_all only: coord_simps fst_conv snd_conv)
qed

lemma shift_by_coord:
  "k < 3 \<Longrightarrow> coord k (shift_by fl c p) = to_np_float fl (coord k p - coord k c)"
  by (drule below_three) (auto simp: shift_by_def coord_simps)

lemma centred_extremes:
  fixes X :: "real set"
  assumes f: "finite X" and ne: "X \<noteq> {}" and m: "mono (to_np_float fl)" and e: "exact_at fl X"
  shows "Max ((\<lambda>x. to_np_float fl (x - midpoint fl X)) ` X) +
         Min ((\<lambda>x. to_np_float fl (x - midpoint fl X)) ` X) = 0"
proof -
  define h where "h = (Max X + Min X) / 2"
  have c: "midpoint fl X = h" using e by (simp add: exact_at_def midpoint_def h_def)
  have g: "mono (\<lambda>x. to_np_float fl (x - h))"
    using m by (auto simp: mono_def)
  have a: "Max ((\<lambda>x. to_np_float fl (x - h)) ` X) = to_np_float fl (Max X - h)"
    using mono_Max_commute[OF g f ne] by simp
  have b: "Min ((\<lambda>x. to_np_float fl (x - h)) ` X) = to_np_float fl (Min X - h)"
    using mono_Min_commute[OF g f ne] by simp
  have a': "to_np_float fl (Max X - h) = Max X - h" using e by (simp add: exact_at_def h_def)
  have b': "to_np_float fl (Min X - h) = Min X - h" using e by (simp add: exact_at_def h_def)
  show ?thesis unfolding c a b a' b' by (simp add: h_def field_simps)
qed

text \<open>
  C6. The layout is a function of its arguments alone. When \<^verbatim>\<open>env_spacing\<close> is not a
  list or tuple of length 2, \<^verbatim>\<open>_parallelize\<close> fails with the spacing error, a
  \<open>ConfigError\<close>, and so does \<^verbatim>\<open>build\<close> on an unbuilt scene. Otherwise, with a row
  length that is positive or left to the default, there are \<open>B = max(1, n_envs)\<close>
  offsets. Without centring, environment \<open>i\<close> gets
  \<open>((i div n_envs_per_row) * spacing_x, (i mod n_envs_per_row) * spacing_y, 0)\<close>, the
  products rounded as the arrays round them. With centring, every coordinate of every
  offset is that value less the midpoint of the largest and the smallest value of the
  coordinate over all environments, again in the arithmetic of the array; where the
  rounding is monotone and exact at the values of a coordinate, the largest and the
  smallest centred value of that coordinate are opposite numbers, so the extremes are
  centred at the origin. The offsets depend on \<^verbatim>\<open>n_envs\<close> only through \<open>B\<close> and not on
  the backend.
\<close>

theorem parallelize_layout:
  "(spacing_pair sp = None \<and> \<not> sc_is_built s \<longrightarrow>
      build fl ops n sp r ce compile_kernels s = Inl EnvSpacingInvalid) \<and>
   (spacing_pair sp = None \<longrightarrow>
      parallelize fl cpu n sp r ce = Inl EnvSpacingInvalid \<and>
      kind_of EnvSpacingInvalid = ConfigError) \<and>
   (spacing_pair sp = Some (sx, sy) \<and> (\<forall>pr. r = Some pr \<longrightarrow> 0 < pr) \<longrightarrow>
      (\<exists>b. parallelize fl cpu n sp r ce = Inr b \<and>
           batch_B b = nat (max 1 n) \<and>
           n_envs_per_row b = (case r of None \<Rightarrow> int (ceil_sqrt (nat (max 1 n))) | Some pr \<Rightarrow> pr) \<and>
           0 < n_envs_per_row b \<and>
           length (envs_offset b) = batch_B b \<and>
           (\<not> ce \<longrightarrow>
              (\<forall>i < batch_B b.
                 envs_offset b ! i = grid_point fl (n_envs_per_row b) (sx, sy) i)) \<and>
           (ce \<longrightarrow>
              (\<forall>i < batch_B b. \<forall>k < 3.
                 coord k (envs_offset b ! i) =
                   to_np_float fl
                     (coord k (grid_point fl (n_envs_per_row b) (sx, sy) i) -
                      midpoint fl (grid_column fl (n_envs_per_row b) (sx, sy) (batch_B b) k)))) \<and>
           (ce \<longrightarrow>
              (\<forall>k < 3.
                 mono (to_np_float fl) \<and>
                 exact_at fl (grid_column fl (n_envs_per_row b) (sx, sy) (batch_B b) k) \<longrightarrow>
                 Max (coord k ` set (envs_offset b)) + Min (coord k ` set (envs_offset b)) = 0)) \<and>
           (\<forall>cpu' n'. nat (max 1 n') = nat (max 1 n) \<longrightarrow>
              map_sum id envs_offset (parallelize fl cpu' n' sp r ce) = Inr (envs_offset b))))"
proof (intro conjI impI)
  assume "spacing_pair sp = None \<and> \<not> sc_is_built s"
  then show "build fl ops n sp r ce compile_kernels s = Inl EnvSpacingInvalid"
    by (simp add: build_def assert_unbuilt_def bindE_def parallelize_def Let_def)
next
  assume "spacing_pair sp = None"
  then show "parallelize fl cpu n sp r ce = Inl EnvSpacingInvalid"
    by (simp add: parallelize_def Let_def)
next
  show "kind_of EnvSpacingInvalid = ConfigError" by simp
next
  assume a: "spacing_pair sp = Some (sx, sy) \<and> (\<forall>pr. r = Some pr \<longrightarrow> 0 < pr)"
  define B where "B = nat (max 1 n)"
  define per_row where
    "per_row = (case r of None \<Rightarrow> int (ceil_sqrt (nat (max 1 n))) | Some pr \<Rightarrow> pr)"
  define P where "P = grid_point fl per_row (sx, sy)"
  define offs where "offs = grid_offsets fl B per_row (sx, sy)"
  define offs' where "offs' = (if ce then map (shift_by fl (center_of fl offs)) offs else offs)"
  define b where "b = \<lparr> n_envs = n, env_spacing = sp, n_envs_per_row = per_row, batch_B = B,
      batch_envs_idx = map int [0..<B], envs_offset = offs',
      para_level = (if cpu then PARA_NEVER else if n = 0 then PARA_PARTIAL else PARA_ALL) \<rparr>"
  have Bpos: "0 < B" by (simp add: B_def)
  have ppos: "0 < per_row"
    using a ceil_sqrt_pos[OF Bpos] by (cases r) (simp_all add: per_row_def B_def)
  have p: "parallelize fl cpu n sp r ce = Inr b"
    using a by (simp add: parallelize_def Let_def b_def offs'_def offs_def per_row_def B_def)
  have o: "offs = map P [0..<B]"
    unfolding offs_def P_def by (rule grid_offsets_eq[OF ppos])
  have len: "length offs = B" by (simp add: o)
  have ne: "offs \<noteq> []" using len Bpos by auto
  have col: "coord k ` set offs = grid_column fl per_row (sx, sy) B k" for k
    unfolding o P_def by (rule grid_column_set)
  have fin: "finite (grid_column fl per_row (sx, sy) B k)" for k
    by (simp add: grid_column_def)
  have nem: "grid_column fl per_row (sx, sy) B k \<noteq> {}" for k
    using Bpos by (auto simp: grid_column_def)
  have plain: "offs' ! i = P i" if "\<not> ce" "i < B" for i
    using that by (simp add: offs'_def o)
  have cen: "coord k (offs' ! i) =
      to_np_float fl (coord k (P i) - midpoint fl (grid_column fl per_row (sx, sy) B k))"
    if ce "i < B" "k < 3" for i k
  proof -
    have "offs' ! i = shift_by fl (center_of fl offs) (P i)"
      using that(1,2) len by (simp add: offs'_def o)
    then show ?thesis
      by (simp only: shift_by_coord[OF that(3)] center_of_coord[OF ne that(3)] col)
  qed
  have ext: "Max (coord k ` set offs') + Min (coord k ` set offs') = 0"
    if ce "k < 3" "mono (to_np_float fl)" "exact_at fl (grid_column fl per_row (sx, sy) B k)" for k
  proof -
    let ?X = "grid_column fl per_row (sx, sy) B k"
    have "coord k ` set offs' = (\<lambda>p. coord k (shift_by fl (center_of fl offs) p)) ` set offs"
      using that(1) by (simp add: offs'_def image_image)
    also have "\<dots> = (\<lambda>p. to_np_float fl (coord k p - midpoint fl ?X)) ` set offs"
      by (simp only: shift_by_coord[OF that(2)] center_of_coord[OF ne that(2)] col)
    also have "\<dots> = (\<lambda>x. to_np_float fl (x - midpoint fl ?X)) ` (coord k ` set offs)"
      by (simp add: image_image)
    finally have e: "coord k ` set offs' = (\<lambda>x. to_np_float fl (x - midpoint fl ?X)) ` ?X"
      by (simp only: col)
    show ?thesis unfolding e by (rule centred_extremes[OF fin nem that(3,4)])
  qed
  have det: "map_sum id envs_offset (parallelize fl cpu' n' sp r ce) = Inr offs'"
    if "nat (max 1 n') = nat (max 1 n)" for cpu' n'
    using a that by (simp add: parallelize_def Let_def offs'_def offs_def per_row_def B_def)
  show "\<exists>b. parallelize fl cpu n sp r ce = Inr b \<and>
           batch_B b = nat (max 1 n) \<and>
           n_envs_per_row b = (case r of None \<Rightarrow> int (ceil_sqrt (nat (max 1 n))) | Some pr \<Rightarrow> pr) \<and>
           0 < n_envs_per_row b \<and>
           length (envs_offset b) = batch_B b \<and>
           (\<not> ce \<longrightarrow>
              (\<forall>i < batch_B b.
                 envs_offset b ! i = grid_point fl (n_envs_per_row b) (sx, sy) i)) \<and>
           (ce \<longrightarrow>
              (\<forall>i < batch_B b. \<forall>k < 3.
                 coord k (envs_offset b ! i) =
                   to_np_float fl
                     (coord k (grid_point fl (n_envs_per_row b) (sx, sy) i) -
                      midpoint fl (grid_column fl (n_envs_per_row b) (sx, sy) (batch_B b) k)))) \<and>
           (ce \<longrightarrow>
              (\<forall>k < 3.
                 mono (to_np_float fl) \<and>
                 exact_at fl (grid_column fl (n_envs_per_row b) (sx, sy) (batch_B b) k) \<longrightarrow>
                 Max (coord k ` set (envs_offset b)) + Min (coord k ` set (envs_offset b)) = 0)) \<and>
           (\<forall>cpu' n'. nat (max 1 n') = nat (max 1 n) \<longrightarrow>
              map_sum id envs_offset (parallelize fl cpu' n' sp r ce) = Inr (envs_offset b))"
  proof (intro exI[of _ b] conjI allI impI)
    show "parallelize fl cpu n sp r ce = Inr b" by (rule p)
    show "batch_B b = nat (max 1 n)" by (simp add: b_def B_def)
    show "n_envs_per_row b = (case r of None \<Rightarrow> int (ceil_sqrt (nat (max 1 n))) | Some pr \<Rightarrow> pr)"
      by (simp add: b_def per_row_def B_def)
    show "0 < n_envs_per_row b" using ppos by (simp add: b_def)
    show "length (envs_offset b) = batch_B b" using len by (simp add: b_def offs'_def)
    show "envs_offset b ! i = grid_point fl (n_envs_per_row b) (sx, sy) i"
      if "\<not> ce" "i < batch_B b" for i
      using plain[of i] that by (simp add: b_def P_def)
    show "coord k (envs_offset b ! i) =
                   to_np_float fl
                     (coord k (grid_point fl (n_envs_per_row b) (sx, sy) i) -
                      midpoint fl (grid_column fl (n_envs_per_row b) (sx, sy) (batch_B b) k))"
      if ce "i < batch_B b" "k < 3" for i k
      using cen[of i k] that by (simp add: b_def P_def)
    show "Max (coord k ` set (envs_offset b)) + Min (coord k ` set (envs_offset b)) = 0"
      if ce "k < 3" "mono (to_np_float fl) \<and>
                 exact_at fl (grid_column fl (n_envs_per_row b) (sx, sy) (batch_B b) k)" for k
      using ext[of k] that by (simp add: b_def)
    show "map_sum id envs_offset (parallelize fl cpu' n' sp r ce) = Inr (envs_offset b)"
      if "nat (max 1 n') = nat (max 1 n)" for cpu' n'
      using det[OF that] by (simp add: b_def)
  qed
qed

lemma mono_round_eighth: "mono round_eighth"
  unfolding round_eighth_def
  by (intro monoI divide_right_mono of_int_le_iff[THEN iffD2] floor_mono) simp_all

lemma round_eighth_values:
  "round_eighth 0 = 0" "round_eighth 1 = 1" "round_eighth 2 = 2" "round_eighth 3 = 3"
  "round_eighth (- 1) = - 1" "round_eighth (3 / 2) = 3 / 2" "round_eighth (- (3 / 2)) = - (3 / 2)"
  "round_eighth (3 / 10) = 1 / 4"
  by (simp_all add: round_eighth_def)

lemma example_floats_simps:
  "to_f64 example_floats x = x" "to_np_float example_floats = round_eighth"
  by (simp_all add: example_floats_def)

lemma below_four: "{..<4::nat} = {0, 1, 2, 3}"
  by auto

lemma example_columns:
  "grid_column example_floats 2 (2, 3) 4 0 = {0, 2}"
  "grid_column example_floats 2 (2, 3) 4 1 = {0, 3}"
  "grid_column example_floats 2 (2, 3) 4 (Suc 0) = {0, 3}"
  "grid_column example_floats 2 (2, 3) 4 2 = {0}"
  by (auto simp: grid_column_def grid_point_def coord_def below_four example_floats_simps
      round_eighth_values)

lemma example_exact:
  "exact_at example_floats {0, 2}" "exact_at example_floats {0, 3}" "exact_at example_floats {0}"
  by (simp_all add: exact_at_def example_floats_simps round_eighth_values)

lemma example_midpoints:
  "midpoint example_floats {0, 2} = 1" "midpoint example_floats {0, 3} = 3 / 2"
  "midpoint example_floats {0} = 0"
  by (simp_all add: midpoint_def example_floats_simps round_eighth_values)

lemma point_coords: "p = (coord 0 p, coord 1 p, coord 2 p)"
  by (simp add: coord_def)

theorem parallelize_layout_witness:
  "spacing_pair (SpacingTuple [2, 3]) = Some (2, 3) \<and>
   mono (to_np_float example_floats) \<and>
   (\<exists>b. parallelize example_floats False 4 (SpacingTuple [2, 3]) (Some 2) True = Inr b \<and>
        batch_B b = 4 \<and>
        envs_offset b ! 3 = (1, 3 / 2, 0) \<and>
        Max (coord 0 ` set (envs_offset b)) + Min (coord 0 ` set (envs_offset b)) = 0 \<and>
        Max (coord 1 ` set (envs_offset b)) + Min (coord 1 ` set (envs_offset b)) = 0) \<and>
   (\<exists>b. parallelize example_floats False 3 (SpacingTuple [3 / 10, 1]) (Some 2) False = Inr b \<and>
        envs_offset b ! 2 = (1 / 4, 0, 0)) \<and>
   build example_floats (example_ops False) 4 SpacingOther (Some 2) True True example_unbuilt =
     Inl EnvSpacingInvalid"
proof -
  have sp: "spacing_pair (SpacingTuple [2, 3]) = Some (2, 3)" by simp
  have m: "mono (to_np_float example_floats)"
    by (simp add: example_floats_simps mono_round_eighth)
  have h: "spacing_pair (SpacingTuple [2, 3]) = Some (2, 3) \<and>
           (\<forall>pr. Some (2::int) = Some pr \<longrightarrow> 0 < pr)" by simp
  have h': "spacing_pair (SpacingTuple [3 / 10, 1]) = Some (3 / 10, 1) \<and>
           (\<forall>pr. Some (2::int) = Some pr \<longrightarrow> 0 < pr)" by simp
  have u: "spacing_pair SpacingOther = None \<and> \<not> sc_is_built example_unbuilt"
    by (simp add: example_unbuilt_def scene_init_def)
  note t = parallelize_layout[where sp = "SpacingTuple [2, 3]" and s = example_unbuilt
      and fl = example_floats and ops = "example_ops False" and n = 4 and r = "Some 2"
      and ce = True and compile_kernels = True and cpu = False and sx = 2 and sy = 3]
  from t h obtain b where
    b: "parallelize example_floats False 4 (SpacingTuple [2, 3]) (Some 2) True = Inr b"
       "batch_B b = nat (max 1 4)"
       "n_envs_per_row b = (case Some 2 of None \<Rightarrow> int (ceil_sqrt (nat (max 1 4))) | Some pr \<Rightarrow> pr)"
       "True \<longrightarrow> (\<forall>i < batch_B b. \<forall>k < 3.
                 coord k (envs_offset b ! i) =
                   to_np_float example_floats
                     (coord k (grid_point example_floats (n_envs_per_row b) (2, 3) i) -
                      midpoint example_floats
                        (grid_column example_floats (n_envs_per_row b) (2, 3) (batch_B b) k)))"
       "True \<longrightarrow> (\<forall>k < 3.
                 mono (to_np_float example_floats) \<and>
                 exact_at example_floats
                   (grid_column example_floats (n_envs_per_row b) (2, 3) (batch_B b) k) \<longrightarrow>
                 Max (coord k ` set (envs_offset b)) + Min (coord k ` set (envs_offset b)) = 0)"
    by blast
  have B: "batch_B b = 4" using b(2) by simp
  have R: "n_envs_per_row b = 2" using b(3) by simp
  have c: "coord k (envs_offset b ! 3) =
             round_eighth (coord k (grid_point example_floats 2 (2, 3) 3) -
               midpoint example_floats (grid_column example_floats 2 (2, 3) 4 k))"
    if "k < 3" for k
    using b(4) that by (simp add: B R example_floats_simps)
  have c0: "coord 0 (envs_offset b ! 3) = 1"
    using c[of 0]
    by (simp add: example_columns example_midpoints grid_point_def coord_def
        example_floats_simps round_eighth_values)
  have c1: "coord 1 (envs_offset b ! 3) = 3 / 2"
    using c[of 1]
    by (simp add: example_columns example_midpoints grid_point_def coord_def
        example_floats_simps round_eighth_values)
  have c2: "coord 2 (envs_offset b ! 3) = 0"
    using c[of 2]
    by (simp add: example_columns example_midpoints grid_point_def coord_def
        example_floats_simps round_eighth_values)
  have o: "envs_offset b ! 3 = (1, 3 / 2, 0)"
    using point_coords[of "envs_offset b ! 3"] by (simp only: c0 c1 c2)
  have e0: "Max (coord 0 ` set (envs_offset b)) + Min (coord 0 ` set (envs_offset b)) = 0"
    using b(5)[rule_format, of 0] m by (simp add: B R example_columns example_exact)
  have e1: "Max (coord 1 ` set (envs_offset b)) + Min (coord 1 ` set (envs_offset b)) = 0"
    using b(5)[rule_format, of 1] m by (simp add: B R example_columns example_exact)
  note t' = parallelize_layout[where sp = "SpacingTuple [3 / 10, 1]" and s = example_unbuilt
      and fl = example_floats and ops = "example_ops False" and n = 3 and r = "Some 2"
      and ce = False and compile_kernels = True and cpu = False and sx = "3 / 10" and sy = 1]
  from t' h' obtain b' where
    b': "parallelize example_floats False 3 (SpacingTuple [3 / 10, 1]) (Some 2) False = Inr b'"
       "batch_B b' = nat (max 1 3)"
       "n_envs_per_row b' = (case Some 2 of None \<Rightarrow> int (ceil_sqrt (nat (max 1 3))) | Some pr \<Rightarrow> pr)"
       "\<not> False \<longrightarrow> (\<forall>i < batch_B b'.
                 envs_offset b' ! i = grid_point example_floats (n_envs_per_row b') (3 / 10, 1) i)"
    by blast
  have o': "envs_offset b' ! 2 = (1 / 4, 0, 0)"
    using b'(2,3,4)
    by (simp add: grid_point_def example_floats_simps round_eighth_values)
  have f: "build example_floats (example_ops False) 4 SpacingOther (Some 2) True True
             example_unbuilt = Inl EnvSpacingInvalid"
    using parallelize_layout[where sp = SpacingOther and s = example_unbuilt
        and fl = example_floats and ops = "example_ops False" and n = 4 and r = "Some 2"
        and ce = True and compile_kernels = True] u by blast
  show ?thesis using sp m b(1) B o e0 e1 b'(1) o' f by blast
qed

section \<open>Properties of the scene state machine\<close>

lemma backward_loop_funpow:
  "0 \<le> sc_t s \<Longrightarrow>
   backward_loop ops s = s\<lparr>sc_sim := (g ^^ nat (sc_t s)) (sc_sim s), sc_t := 0\<rparr>"
  if g: "\<And>x. g x = op_step_grad ops (op_collect_output_grads ops x)"
proof (induction "nat (sc_t s)" arbitrary: s)
  case 0
  then have z: "sc_t s = 0" by simp
  have "backward_loop ops s = s" using z by (subst backward_loop.simps) simp
  then show ?case using z by simp
next
  case (Suc k)
  then have pos: "sc_t s > 0" by linarith
  have t1: "sc_t (step_grad ops s) = sc_t s - 1" by (simp add: step_grad_def)
  have k: "k = nat (sc_t (step_grad ops s))" using Suc.hyps(2) t1 by simp
  have p: "0 \<le> sc_t (step_grad ops s)" using pos t1 by simp
  have sg: "step_grad ops s = s\<lparr>sc_sim := g (sc_sim s), sc_t := sc_t s - 1\<rparr>"
    by (simp add: step_grad_def g)
  have "backward_loop ops s = backward_loop ops (step_grad ops s)"
    using pos by (subst backward_loop.simps) simp
  also have "\<dots> = (step_grad ops s)
      \<lparr>sc_sim := (g ^^ nat (sc_t (step_grad ops s))) (sc_sim (step_grad ops s)), sc_t := 0\<rparr>"
    by (rule Suc.hyps(1)[OF k p])
  also have "\<dots> = s\<lparr>sc_sim := (g ^^ k) (g (sc_sim s)), sc_t := 0\<rparr>"
    unfolding k[symmetric] by (simp add: sg)
  also have "(g ^^ k) (g (sc_sim s)) = (g ^^ nat (sc_t s)) (sc_sim s)"
    unfolding Suc.hyps(2)[symmetric] by (simp add: funpow_swap1)
  finally show ?case .
qed

lemma backward_loop_result:
  "0 \<le> sc_t s \<Longrightarrow>
   backward_loop ops s =
     s\<lparr>sc_sim := ((\<lambda>x. op_step_grad ops (op_collect_output_grads ops x)) ^^ nat (sc_t s)) (sc_sim s),
       sc_t := 0\<rparr>"
  by (rule backward_loop_funpow) simp_all

lemma reset_impl_flags:
  assumes "reset_impl ops state envs_idx s = Inr s'"
  shows "sc_forward_ready s' \<and> sc_backward_ready s' \<and> sc_t s' = 0 \<and>
         ctx_t (sc_visualizer s') = Some (- 1) \<and> list_all (\<lambda>e. next_particle e = 0) (sc_emitters s')"
proof -
  from assms obtain s2 where
    "s' = (reset_grad (s2\<lparr>sc_t := 0, sc_forward_ready := True\<rparr>))
            \<lparr>sc_visualizer := ctx_reset (sc_visualizer s2),
              sc_emitters := map emitter_reset (sc_emitters s2)\<rparr>"
    unfolding reset_impl_def bindE_Inr by auto
  then show ?thesis
    by (simp add: reset_grad_def ctx_reset_def emitter_reset_def list_all_iff)
qed

lemma example_scene_fields:
  "sc_backward_ready example_scene" "sc_forward_ready example_scene" "sc_t example_scene = 2"
  "sc_sim example_scene = 2" "sc_is_built example_scene" "sc_init_state example_scene = Some 0"
  "sc_visualizer example_scene = example_ctx"
  "sc_emitters example_scene =
     [\<lparr>max_particles = 10, emitter_entity = Some 0, next_particle = 4\<rparr>]"
  by (simp_all add: example_scene_def)

text \<open>
  C1. \<^verbatim>\<open>_backward\<close> fails with the multiple-backward error, an
  \<open>InvalidStateError\<close>, when \<^verbatim>\<open>_backward_ready\<close> is false. When it is true (and the
  time index is not negative) the call succeeds: \<^verbatim>\<open>_step_grad\<close> has run once per
  step taken, the time index is 0, and both readiness flags are false; so a second
  \<^verbatim>\<open>_backward\<close> fails, and in a built scene \<^verbatim>\<open>step\<close> fails with the
  forward-after-backward error, an \<open>InvalidStateError\<close>, until a \<^verbatim>\<open>reset\<close> has set
  the flags again.
\<close>

theorem backward_at_most_once:
  "(\<not> sc_backward_ready s \<longrightarrow>
      backward ops s = Inl MultipleBackward \<and> kind_of MultipleBackward = InvalidStateError) \<and>
   (sc_backward_ready s \<and> 0 \<le> sc_t s \<longrightarrow>
      (\<exists>s'. backward ops s = Inr s' \<and>
            sc_t s' = 0 \<and>
            sc_sim s' =
              ((\<lambda>x. op_step_grad ops (op_collect_output_grads ops x)) ^^ nat (sc_t s)) (sc_sim s) \<and>
            \<not> sc_forward_ready s' \<and> \<not> sc_backward_ready s' \<and>
            sc_is_built s' = sc_is_built s \<and>
            backward ops s' = Inl MultipleBackward \<and>
            (sc_is_built s \<longrightarrow>
               step ops update_visualizer refresh_visualizer s' = Inl ForwardAfterBackward \<and>
               kind_of ForwardAfterBackward = InvalidStateError) \<and>
            (\<forall>state envs_idx s''. reset ops state envs_idx s' = Inr s'' \<longrightarrow>
               sc_forward_ready s'' \<and> sc_backward_ready s'' \<and> sc_t s'' = 0)))"
proof (intro conjI impI)
  assume "\<not> sc_backward_ready s"
  then show "backward ops s = Inl MultipleBackward" by (simp add: backward_def)
next
  show "kind_of MultipleBackward = InvalidStateError" by simp
next
  assume a: "sc_backward_ready s \<and> 0 \<le> sc_t s"
  let ?g = "\<lambda>x. op_step_grad ops (op_collect_output_grads ops x)"
  let ?s' = "s\<lparr>sc_sim := (?g ^^ nat (sc_t s)) (sc_sim s), sc_t := 0,
               sc_backward_ready := False, sc_forward_ready := False\<rparr>"
  have bl: "backward_loop ops s = s\<lparr>sc_sim := (?g ^^ nat (sc_t s)) (sc_sim s), sc_t := 0\<rparr>"
    using a by (intro backward_loop_result) simp
  have b: "backward ops s = Inr ?s'"
    unfolding backward_def bl using a by simp
  have r: "sc_forward_ready s'' \<and> sc_backward_ready s'' \<and> sc_t s'' = 0"
    if "reset ops state envs_idx ?s' = Inr s''" for state envs_idx s''
  proof -
    from that have "reset_impl ops state envs_idx ?s' = Inr s''"
      by (auto simp: reset_def bindE_Inr)
    from reset_impl_flags[OF this] show ?thesis by simp
  qed
  show "\<exists>s'. backward ops s = Inr s' \<and>
            sc_t s' = 0 \<and>
            sc_sim s' = (?g ^^ nat (sc_t s)) (sc_sim s) \<and>
            \<not> sc_forward_ready s' \<and> \<not> sc_backward_ready s' \<and>
            sc_is_built s' = sc_is_built s \<and>
            backward ops s' = Inl MultipleBackward \<and>
            (sc_is_built s \<longrightarrow>
               step ops update_visualizer refresh_visualizer s' = Inl ForwardAfterBackward \<and>
               kind_of ForwardAfterBackward = InvalidStateError) \<and>
            (\<forall>state envs_idx s''. reset ops state envs_idx s' = Inr s'' \<longrightarrow>
               sc_forward_ready s'' \<and> sc_backward_ready s'' \<and> sc_t s'' = 0)"
  proof (intro exI[of _ ?s'] conjI allI impI)
    show "backward ops s = Inr ?s'" by (rule b)
    show "backward ops ?s' = Inl MultipleBackward" by (simp add: backward_def)
    show "step ops update_visualizer refresh_visualizer ?s' = Inl ForwardAfterBackward"
      if "sc_is_built s" using that by (simp add: step_def assert_built_def bindE_def)
    show "sc_forward_ready s''" "sc_backward_ready s''" "sc_t s'' = 0"
      if "reset ops state envs_idx ?s' = Inr s''" for state envs_idx s''
      using r[OF that] by simp_all
  qed simp_all
qed

theorem backward_at_most_once_witness:
  "sc_backward_ready example_scene \<and> 0 \<le> sc_t example_scene \<and> sc_is_built example_scene \<and>
   (\<exists>s'. backward (example_ops True) example_scene = Inr s' \<and>
         sc_t s' = 0 \<and> sc_sim s' = 0 \<and>
         backward (example_ops True) s' = Inl MultipleBackward \<and>
         step (example_ops True) True True s' = Inl ForwardAfterBackward)"
proof -
  have h: "sc_backward_ready example_scene \<and> 0 \<le> sc_t example_scene"
    by (simp add: example_scene_fields)
  have g: "((\<lambda>x. op_step_grad (example_ops True) (op_collect_output_grads (example_ops True) x))
             ^^ nat (sc_t example_scene)) (sc_sim example_scene) = 0"
    by (simp add: example_scene_fields example_ops_def eval_nat_numeral)
  from backward_at_most_once[of example_scene "example_ops True" True True] h
  obtain s' where
    "backward (example_ops True) example_scene = Inr s'" "sc_t s' = 0"
    "sc_sim s' = ((\<lambda>x. op_step_grad (example_ops True) (op_collect_output_grads (example_ops True) x))
             ^^ nat (sc_t example_scene)) (sc_sim example_scene)"
    "backward (example_ops True) s' = Inl MultipleBackward"
    "sc_is_built example_scene \<longrightarrow> step (example_ops True) True True s' = Inl ForwardAfterBackward"
    by blast
  then show ?thesis using h g example_scene_fields(5) by auto
qed

text \<open>
  C3. In a built scene, \<^verbatim>\<open>reset(state, envs_idx)\<close> takes the given state, or the
  initial state when none is given, hands it with the selector as it is (\<^verbatim>\<open>None\<close>
  when omitted) to the reset of the simulator, and when that succeeds the scene has the
  state as its initial state, the simulator as reset, time index 0, both readiness
  flags true, the render context with its time index at \<open>-1\<close> and every emitter with
  its cursor at 0. When the simulator refuses, so does \<^verbatim>\<open>reset\<close>.
\<close>

theorem reset_restores:
  assumes "sc_is_built s"
    and "state = Some st \<or> state = None \<and> sc_init_state s = Some st"
  shows "(\<forall>sim'. op_reset ops st envs_idx (sc_sim s) = Inr sim' \<longrightarrow>
            reset ops state envs_idx s =
              Inr (s\<lparr>sc_sim := sim', sc_init_state := Some st, sc_t := 0,
                     sc_forward_ready := True, sc_backward_ready := True,
                     sc_visualizer := ctx_reset (sc_visualizer s),
                     sc_emitters := map emitter_reset (sc_emitters s)\<rparr>)) \<and>
         (\<forall>e. op_reset ops st envs_idx (sc_sim s) = Inl e \<longrightarrow>
            reset ops state envs_idx s = Inl e) \<and>
         ctx_t (ctx_reset (sc_visualizer s)) = Some (- 1) \<and>
         list_all (\<lambda>e. next_particle e = 0) (map emitter_reset (sc_emitters s))"
proof (intro conjI allI impI)
  fix sim' assume r: "op_reset ops st envs_idx (sc_sim s) = Inr sim'"
  show "reset ops state envs_idx s =
              Inr (s\<lparr>sc_sim := sim', sc_init_state := Some st, sc_t := 0,
                     sc_forward_ready := True, sc_backward_ready := True,
                     sc_visualizer := ctx_reset (sc_visualizer s),
                     sc_emitters := map emitter_reset (sc_emitters s)\<rparr>)"
    using assms(2)
  proof
    assume "state = Some st"
    then show ?thesis using assms(1) r
      by (simp add: reset_def reset_impl_def assert_built_def bindE_def reset_grad_def)
  next
    assume "state = None \<and> sc_init_state s = Some st"
    then show ?thesis using assms(1) r
      by (simp add: reset_def reset_impl_def assert_built_def bindE_def reset_grad_def)
  qed
next
  fix e assume r: "op_reset ops st envs_idx (sc_sim s) = Inl e"
  show "reset ops state envs_idx s = Inl e"
    using assms(2)
  proof
    assume "state = Some st"
    then show ?thesis using assms(1) r
      by (simp add: reset_def reset_impl_def assert_built_def bindE_def)
  next
    assume "state = None \<and> sc_init_state s = Some st"
    then show ?thesis using assms(1) r
      by (simp add: reset_def reset_impl_def assert_built_def bindE_def)
  qed
next
  show "ctx_t (ctx_reset (sc_visualizer s)) = Some (- 1)" by (simp add: ctx_reset_def)
  show "list_all (\<lambda>e. next_particle e = 0) (map emitter_reset (sc_emitters s))"
    by (simp add: list_all_iff emitter_reset_def)
qed

theorem reset_restores_witness:
  "sc_is_built example_scene \<and>
   reset (example_ops False) (Some 5) SelNone example_scene =
     Inr (example_scene\<lparr>sc_sim := 5, sc_init_state := Some 5, sc_t := 0,
            sc_forward_ready := True, sc_backward_ready := True,
            sc_visualizer := ctx_reset (sc_visualizer example_scene),
            sc_emitters := map emitter_reset (sc_emitters example_scene)\<rparr>) \<and>
   reset (example_ops False) None (SelInt 0) example_scene =
     Inr (example_scene\<lparr>sc_sim := 0, sc_init_state := Some 0, sc_t := 0,
            sc_forward_ready := True, sc_backward_ready := True,
            sc_visualizer := ctx_reset (sc_visualizer example_scene),
            sc_emitters := map emitter_reset (sc_emitters example_scene)\<rparr>) \<and>
   ctx_t (ctx_reset (sc_visualizer example_scene)) = Some (- 1) \<and>
   map next_particle (map emitter_reset (sc_emitters example_scene)) = [0]"
proof -
  have b: "sc_is_built example_scene" by (rule example_scene_fields)
  have s1: "Some (5::nat) = Some 5 \<or> Some (5::nat) = None \<and> sc_init_state example_scene = Some 5"
    by simp
  have s2: "(None :: nat option) = Some 0 \<or> (None :: nat option) = None \<and> sc_init_state example_scene = Some 0"
    by (simp add: example_scene_fields)
  have r1: "op_reset (example_ops False) 5 SelNone (sc_sim example_scene) = Inr 5"
    by (simp add: example_ops_def)
  have r2: "op_reset (example_ops False) 0 (SelInt 0) (sc_sim example_scene) = Inr 0"
    by (simp add: example_ops_def)
  note t1 = reset_restores[OF b s1, of "example_ops False" SelNone]
  note t2 = reset_restores[OF b s2, of "example_ops False" "SelInt 0"]
  have a1: "reset (example_ops False) (Some 5) SelNone example_scene =
     Inr (example_scene\<lparr>sc_sim := 5, sc_init_state := Some 5, sc_t := 0,
            sc_forward_ready := True, sc_backward_ready := True,
            sc_visualizer := ctx_reset (sc_visualizer example_scene),
            sc_emitters := map emitter_reset (sc_emitters example_scene)\<rparr>)"
    using t1 r1 by blast
  have a2: "reset (example_ops False) None (SelInt 0) example_scene =
     Inr (example_scene\<lparr>sc_sim := 0, sc_init_state := Some 0, sc_t := 0,
            sc_forward_ready := True, sc_backward_ready := True,
            sc_visualizer := ctx_reset (sc_visualizer example_scene),
            sc_emitters := map emitter_reset (sc_emitters example_scene)\<rparr>)"
    using t2 r2 by blast
  have a3: "ctx_t (ctx_reset (sc_visualizer example_scene)) = Some (- 1)"
    using t1 by blast
  have a4: "map next_particle (map emitter_reset (sc_emitters example_scene)) = [0]"
    by (simp add: example_scene_fields emitter_reset_def)
  show ?thesis by (intro conjI) (rule b, rule a1, rule a2, rule a3, rule a4)
qed

text \<open>
  C10. When the simulator requires gradients, \<^verbatim>\<open>add_emitter\<close> raises: the
  differentiable-mode error in an unbuilt scene, the already-built error otherwise; it
  raises before anything is added, so no emitter and no entity come into being. An
  emitter is only ever returned for a scene that does not require gradients.
\<close>

theorem add_emitter_differentiable:
  "(op_requires_grad ops (sc_sim s) \<longrightarrow>
      add_emitter ops ma max_p su s =
        Inl (if sc_is_built s then SceneAlreadyBuilt else EmitterDifferentiable)) \<and>
   (\<forall>em s'. add_emitter ops ma max_p su s = Inr (em, s') \<longrightarrow>
      \<not> op_requires_grad ops (sc_sim s) \<and> \<not> sc_is_built s)"
proof (intro conjI allI impI)
  assume "op_requires_grad ops (sc_sim s)"
  then show "add_emitter ops ma max_p su s =
        Inl (if sc_is_built s then SceneAlreadyBuilt else EmitterDifferentiable)"
    by (simp add: add_emitter_def assert_unbuilt_def bindE_def)
next
  fix em s' assume a: "add_emitter ops ma max_p su s = Inr (em, s')"
  show "\<not> op_requires_grad ops (sc_sim s)"
  proof
    assume "op_requires_grad ops (sc_sim s)"
    then have "add_emitter ops ma max_p su s =
        Inl (if sc_is_built s then SceneAlreadyBuilt else EmitterDifferentiable)"
      by (simp add: add_emitter_def assert_unbuilt_def bindE_def)
    then show False using a by simp
  qed
  show "\<not> sc_is_built s"
  proof
    assume "sc_is_built s"
    then have "add_emitter ops ma max_p su s = Inl SceneAlreadyBuilt"
      by (simp add: add_emitter_def assert_unbuilt_def bindE_def)
    then show False using a by simp
  qed
qed

theorem add_emitter_differentiable_witness:
  "op_requires_grad (example_ops True) (sc_sim example_unbuilt) \<and>
   add_emitter (example_ops True) MPM_Liquid 100 None example_unbuilt = Inl EmitterDifferentiable \<and>
   (\<exists>em s'. add_emitter (example_ops False) MPM_Liquid 100 None example_unbuilt = Inr (em, s') \<and>
            \<not> op_requires_grad (example_ops False) (sc_sim example_unbuilt) \<and>
            sc_emitters s' = [em])"
proof -
  have g: "op_requires_grad (example_ops True) (sc_sim example_unbuilt)"
    by (simp add: example_ops_def)
  have u: "\<not> sc_is_built example_unbuilt" by (simp add: example_unbuilt_def scene_init_def)
  have a: "add_emitter (example_ops True) MPM_Liquid 100 None example_unbuilt =
             Inl EmitterDifferentiable"
    using add_emitter_differentiable[of "example_ops True" example_unbuilt MPM_Liquid 100 None]
      g u by simp
  obtain em s' where
    e: "add_emitter (example_ops False) MPM_Liquid 100 None example_unbuilt = Inr (em, s')"
       "sc_emitters s' = [em]"
    by (simp add: add_emitter_def add_entity_def assert_unbuilt_def bindE_def example_ops_def
        example_unbuilt_def scene_init_def is_MPM_Base_def vis_mode_rule_def default_surface_def
        Let_def)
  have "\<not> op_requires_grad (example_ops False) (sc_sim example_unbuilt)"
    using add_emitter_differentiable[of "example_ops False" example_unbuilt MPM_Liquid 100 None]
      e(1) by blast
  then show ?thesis using g a e by blast
qed

section \<open>Environment selectors\<close>

lemma parallelize_attrs:
  assumes "parallelize fl cpu n sp r ce = Inr b"
  shows "n_envs b = n" and "batch_B b = nat (max 1 n)"
    and "batch_envs_idx b = map int [0..<nat (max 1 n)]"
  using assms
  by (auto simp: parallelize_def Let_def split: option.splits)

lemma py_slice_single:
  assumes "0 \<le> i" "i < n"
  shows "py_slice (map int [0..<nat n]) (Some i) (Some (i + 1)) = [i]"
proof -
  have lt: "nat i < nat n" using assms by simp
  have d: "drop (nat i) (map int [0..<nat n]) = map int [nat i..<nat n]"
    by (simp add: drop_map)
  have u: "[nat i..<nat n] = nat i # [Suc (nat i)..<nat n]"
    using lt by (simp add: upt_conv_Cons)
  show ?thesis
    using assms
    by (simp add: py_slice_def clip_bound_def Let_def d u)
qed

lemma to_tc_int_fits: "fits_tc_int i \<Longrightarrow> to_tc_int i = i"
  by (simp add: fits_tc_int_def to_tc_int_def)

lemma as_tensor_fits: "\<forall>j \<in> set (t_data x). fits_tc_int j \<Longrightarrow> as_tensor x = x"
  by (simp add: as_tensor_def to_tc_int_fits map_idI)

lemma ndim_as_tensor: "ndim (atleast_1d (as_tensor x)) = ndim (atleast_1d x)"
  by (simp add: as_tensor_def atleast_1d_def ndim_def)

text \<open>
  C4. On the layout that \<^verbatim>\<open>_parallelize\<close> leaves behind for \<^verbatim>\<open>n_envs = n\<close>,
  \<^verbatim>\<open>_sanitize_envs_idx\<close> answers as follows. \<^verbatim>\<open>None\<close> selects all \<open>B\<close> environments.
  Any other selector is rejected with the configuration error when \<open>n = 0\<close>. When
  \<open>n \<noteq> 0\<close>: a slice is accepted and selects that slice of \<open>0, \<dots>, B - 1\<close>; an integer
  \<open>i\<close> with \<open>0 \<le> i < n\<close> is accepted as the selection \<open>[i]\<close>; an explicit array checked
  with \<^verbatim>\<open>unsafe=False\<close> is promoted to at least one dimension and then fails with a
  range error if it is not 1-dimensional, or if its entries fit 32 bits and one of them
  lies outside \<open>[0, n)\<close>, and is returned when all its entries lie in \<open>[0, n)\<close> and fit
  32 bits; with \<^verbatim>\<open>unsafe=True\<close> the array is returned unchecked.
\<close>

theorem envs_idx_selector:
  assumes "parallelize fl cpu n sp r ce = Inr b"
  shows
  "sanitize_envs_idx b SelNone unsafe = Inr (tensor1 (map int [0..<batch_B b])) \<and>
   (n = 0 \<and> sel \<noteq> SelNone \<longrightarrow>
      sanitize_envs_idx b sel unsafe = Inl EnvsIdxNonParallel \<and>
      kind_of EnvsIdxNonParallel = ConfigError) \<and>
   (n \<noteq> 0 \<longrightarrow>
      sanitize_envs_idx b (SelSlice start stop) unsafe =
        Inr (tensor1 (py_slice (map int [0..<batch_B b]) start stop))) \<and>
   (0 \<le> i \<and> i < n \<longrightarrow> sanitize_envs_idx b (SelInt i) unsafe = Inr (tensor1 [i])) \<and>
   (n \<noteq> 0 \<and> ndim (atleast_1d x) \<noteq> 1 \<longrightarrow>
      sanitize_envs_idx b (SelArray x) False = Inl EnvsIdxNot1D \<and>
      kind_of EnvsIdxNot1D = RangeError) \<and>
   (n \<noteq> 0 \<and> ndim (atleast_1d x) = 1 \<and> (\<forall>j \<in> set (t_data x). fits_tc_int j) \<and>
    (\<exists>j \<in> set (t_data x). j < 0 \<or> n \<le> j) \<longrightarrow>
      sanitize_envs_idx b (SelArray x) False = Inl EnvsIdxOutOfRange \<and>
      kind_of EnvsIdxOutOfRange = RangeError) \<and>
   (n \<noteq> 0 \<and> ndim (atleast_1d x) = 1 \<and> (\<forall>j \<in> set (t_data x). fits_tc_int j) \<and>
    (\<forall>j \<in> set (t_data x). 0 \<le> j \<and> j < n) \<longrightarrow>
      sanitize_envs_idx b (SelArray x) False = Inr (atleast_1d x)) \<and>
   (n \<noteq> 0 \<longrightarrow> sanitize_envs_idx b (SelArray x) True = Inr x)"
proof -
  note a = parallelize_attrs[OF assms]
  have d: "t_data (atleast_1d x) = t_data x" by (simp add: atleast_1d_def)
  have c1: "sanitize_envs_idx b SelNone unsafe = Inr (tensor1 (map int [0..<batch_B b]))"
    by (simp add: sanitize_envs_idx_def a)
  have c2: "n = 0 \<and> sel \<noteq> SelNone \<longrightarrow>
      sanitize_envs_idx b sel unsafe = Inl EnvsIdxNonParallel \<and>
      kind_of EnvsIdxNonParallel = ConfigError"
    by (cases sel) (simp_all add: sanitize_envs_idx_def a)
  have c3: "n \<noteq> 0 \<longrightarrow>
      sanitize_envs_idx b (SelSlice start stop) unsafe =
        Inr (tensor1 (py_slice (map int [0..<batch_B b]) start stop))"
    by (simp add: sanitize_envs_idx_def a)
  have c4: "0 \<le> i \<and> i < n \<longrightarrow> sanitize_envs_idx b (SelInt i) unsafe = Inr (tensor1 [i])"
  proof
    assume h: "0 \<le> i \<and> i < n"
    then have "n \<noteq> 0" by auto
    then show "sanitize_envs_idx b (SelInt i) unsafe = Inr (tensor1 [i])"
      using h by (simp add: sanitize_envs_idx_def a(1,3) py_slice_single)
  qed
  have c5: "n \<noteq> 0 \<and> ndim (atleast_1d x) \<noteq> 1 \<longrightarrow>
      sanitize_envs_idx b (SelArray x) False = Inl EnvsIdxNot1D \<and>
      kind_of EnvsIdxNot1D = RangeError"
    by (simp add: sanitize_envs_idx_def a Let_def ndim_as_tensor)
  have c6: "n \<noteq> 0 \<and> ndim (atleast_1d x) = 1 \<and> (\<forall>j \<in> set (t_data x). fits_tc_int j) \<and>
    (\<exists>j \<in> set (t_data x). j < 0 \<or> n \<le> j) \<longrightarrow>
      sanitize_envs_idx b (SelArray x) False = Inl EnvsIdxOutOfRange \<and>
      kind_of EnvsIdxOutOfRange = RangeError"
  proof
    assume h: "n \<noteq> 0 \<and> ndim (atleast_1d x) = 1 \<and> (\<forall>j \<in> set (t_data x). fits_tc_int j) \<and>
      (\<exists>j \<in> set (t_data x). j < 0 \<or> n \<le> j)"
    then have f: "as_tensor x = x" by (simp add: as_tensor_fits)
    from h have "list_ex (\<lambda>j. j < 0) (t_data x) \<or> list_ex (\<lambda>j. n \<le> j) (t_data x)"
      by (auto simp: list_ex_iff)
    then show "sanitize_envs_idx b (SelArray x) False = Inl EnvsIdxOutOfRange \<and>
      kind_of EnvsIdxOutOfRange = RangeError"
      using h by (simp add: sanitize_envs_idx_def a Let_def d f)
  qed
  have c7: "n \<noteq> 0 \<and> ndim (atleast_1d x) = 1 \<and> (\<forall>j \<in> set (t_data x). fits_tc_int j) \<and>
    (\<forall>j \<in> set (t_data x). 0 \<le> j \<and> j < n) \<longrightarrow>
      sanitize_envs_idx b (SelArray x) False = Inr (atleast_1d x)"
  proof
    assume h: "n \<noteq> 0 \<and> ndim (atleast_1d x) = 1 \<and> (\<forall>j \<in> set (t_data x). fits_tc_int j) \<and>
      (\<forall>j \<in> set (t_data x). 0 \<le> j \<and> j < n)"
    then have f: "as_tensor x = x" by (simp add: as_tensor_fits)
    from h have "\<not> list_ex (\<lambda>j. j < 0) (t_data x)" "\<not> list_ex (\<lambda>j. n \<le> j) (t_data x)"
      by (fastforce simp: list_ex_iff)+
    then show "sanitize_envs_idx b (SelArray x) False = Inr (atleast_1d x)"
      using h by (simp add: sanitize_envs_idx_def a Let_def d f)
  qed
  have c8: "n \<noteq> 0 \<longrightarrow> sanitize_envs_idx b (SelArray x) True = Inr x"
    by (simp add: sanitize_envs_idx_def a)
  show ?thesis using c1 c2 c3 c4 c5 c6 c7 c8 by (intro conjI)
qed

theorem envs_idx_selector_witness:
  "(\<exists>b. parallelize example_floats False 3 (SpacingTuple [1, 1]) (Some 2) True = Inr b \<and>
        sanitize_envs_idx b SelNone False = Inr (tensor1 [0, 1, 2]) \<and>
        sanitize_envs_idx b (SelSlice (Some 1) None) False = Inr (tensor1 [1, 2]) \<and>
        sanitize_envs_idx b (SelInt 1) False = Inr (tensor1 [1]) \<and>
        sanitize_envs_idx b (SelArray \<lparr>t_shape = [2, 1], t_data = [0, 1]\<rparr>) False =
          Inl EnvsIdxNot1D \<and>
        sanitize_envs_idx b (SelArray (tensor1 [0, 3])) False = Inl EnvsIdxOutOfRange \<and>
        sanitize_envs_idx b (SelArray (tensor1 [2, 0])) False = Inr (tensor1 [2, 0]) \<and>
        sanitize_envs_idx b (SelArray \<lparr>t_shape = [], t_data = [1]\<rparr>) False = Inr (tensor1 [1]) \<and>
        sanitize_envs_idx b (SelArray (tensor1 [0, 3])) True = Inr (tensor1 [0, 3])) \<and>
   (\<exists>b. parallelize example_floats False 0 (SpacingTuple [1, 1]) None True = Inr b \<and>
        sanitize_envs_idx b SelNone False = Inr (tensor1 [0]) \<and>
        sanitize_envs_idx b (SelInt 0) False = Inl EnvsIdxNonParallel \<and>
        sanitize_envs_idx b (SelArray (tensor1 [0])) False = Inl EnvsIdxNonParallel)"
proof (intro conjI)
  obtain b where p: "parallelize example_floats False 3 (SpacingTuple [1, 1]) (Some 2) True = Inr b"
    by (simp add: parallelize_def Let_def)
  have B: "batch_B b = 3" using p by (auto simp: parallelize_def Let_def)
  have u: "[0..<3] = [0, 1, 2]" by (simp add: upt_conv_Cons)
  have s: "py_slice [0, 1, 2::int] (Some 1) None = [1, 2]"
    by (simp add: py_slice_def clip_bound_def Let_def)
  have n1: "sanitize_envs_idx b SelNone False = Inr (tensor1 [0, 1, 2])"
    using envs_idx_selector[OF p, of False] by (simp add: B u)
  have n2: "sanitize_envs_idx b (SelSlice (Some 1) None) False = Inr (tensor1 [1, 2])"
    using envs_idx_selector[OF p, of False _ "Some 1" None] by (simp add: B u s)
  have n3: "sanitize_envs_idx b (SelInt 1) False = Inr (tensor1 [1])"
    using envs_idx_selector[OF p, of False _ _ _ 1] by simp
  have n4: "sanitize_envs_idx b (SelArray \<lparr>t_shape = [2, 1], t_data = [0, 1]\<rparr>) False =
          Inl EnvsIdxNot1D"
    using envs_idx_selector[OF p, of False _ _ _ _ "\<lparr>t_shape = [2, 1], t_data = [0, 1]\<rparr>"]
    by (simp add: atleast_1d_def ndim_def)
  have n5: "sanitize_envs_idx b (SelArray (tensor1 [0, 3])) False = Inl EnvsIdxOutOfRange"
    using envs_idx_selector[OF p, of False _ _ _ _ "tensor1 [0, 3]"]
    by (simp add: atleast_1d_def ndim_def tensor1_def fits_tc_int_def)
  have n6: "sanitize_envs_idx b (SelArray (tensor1 [2, 0])) False = Inr (tensor1 [2, 0])"
    using envs_idx_selector[OF p, of False _ _ _ _ "tensor1 [2, 0]"]
    by (simp add: atleast_1d_def ndim_def tensor1_def fits_tc_int_def)
  have n7: "sanitize_envs_idx b (SelArray \<lparr>t_shape = [], t_data = [1]\<rparr>) False = Inr (tensor1 [1])"
    using envs_idx_selector[OF p, of False _ _ _ _ "\<lparr>t_shape = [], t_data = [1]\<rparr>"]
    by (simp add: atleast_1d_def ndim_def tensor1_def fits_tc_int_def)
  have n8: "sanitize_envs_idx b (SelArray (tensor1 [0, 3])) True = Inr (tensor1 [0, 3])"
    using envs_idx_selector[OF p, of False _ _ _ _ "tensor1 [0, 3]"] by simp
  show "\<exists>b. parallelize example_floats False 3 (SpacingTuple [1, 1]) (Some 2) True = Inr b \<and>
        sanitize_envs_idx b SelNone False = Inr (tensor1 [0, 1, 2]) \<and>
        sanitize_envs_idx b (SelSlice (Some 1) None) False = Inr (tensor1 [1, 2]) \<and>
        sanitize_envs_idx b (SelInt 1) False = Inr (tensor1 [1]) \<and>
        sanitize_envs_idx b (SelArray \<lparr>t_shape = [2, 1], t_data = [0, 1]\<rparr>) False =
          Inl EnvsIdxNot1D \<and>
        sanitize_envs_idx b (SelArray (tensor1 [0, 3])) False = Inl EnvsIdxOutOfRange \<and>
        sanitize_envs_idx b (SelArray (tensor1 [2, 0])) False = Inr (tensor1 [2, 0]) \<and>
        sanitize_envs_idx b (SelArray \<lparr>t_shape = [], t_data = [1]\<rparr>) False = Inr (tensor1 [1]) \<and>
        sanitize_envs_idx b (SelArray (tensor1 [0, 3])) True = Inr (tensor1 [0, 3])"
    using p n1 n2 n3 n4 n5 n6 n7 n8 by (intro exI[of _ b] conjI)
next
  obtain b where p: "parallelize example_floats False 0 (SpacingTuple [1, 1]) None True = Inr b"
    by (simp add: parallelize_def Let_def)
  have B: "batch_B b = 1" using p by (auto simp: parallelize_def Let_def)
  have m1: "sanitize_envs_idx b SelNone False = Inr (tensor1 [0])"
    using envs_idx_selector[OF p, of False] by (simp add: B)
  have m2: "sanitize_envs_idx b (SelInt 0) False = Inl EnvsIdxNonParallel"
    using envs_idx_selector[OF p, of False "SelInt 0"] by simp
  have m3: "sanitize_envs_idx b (SelArray (tensor1 [0])) False = Inl EnvsIdxNonParallel"
    using envs_idx_selector[OF p, of False "SelArray (tensor1 [0])"] by simp
  show "\<exists>b. parallelize example_floats False 0 (SpacingTuple [1, 1]) None True = Inr b \<and>
        sanitize_envs_idx b SelNone False = Inr (tensor1 [0]) \<and>
        sanitize_envs_idx b (SelInt 0) False = Inl EnvsIdxNonParallel \<and>
        sanitize_envs_idx b (SelArray (tensor1 [0])) False = Inl EnvsIdxNonParallel"
    using p m1 m2 m3 by (intro exI[of _ b] conjI)
qed

text \<open>
  A scene built with \<^verbatim>\<open>n_envs=1\<close> has \<open>B = 1\<close> and accepts the selectors \<open>[0]\<close> and
  \<open>0\<close>. In a scene of two environments, \<^verbatim>\<open>unsafe=True\<close> returns an index out of range
  and a 2-dimensional array as they came, a 0-dimensional array is accepted as a
  selection of length one, and the index \<open>2 ^ 32\<close> of a wider tensor is accepted as
  environment 0.
\<close>

theorem envs_idx_single_env_accepted:
  "parallelize example_floats False 1 (SpacingTuple [1, 1]) (Some 1) False = Inr example_one_env \<and>
   batch_B example_one_env = 1 \<and>
   sanitize_envs_idx example_one_env (SelArray (tensor1 [0])) False = Inr (tensor1 [0]) \<and>
   sanitize_envs_idx example_one_env (SelInt 0) False = Inr (tensor1 [0]) \<and>
   parallelize example_floats False 2 (SpacingTuple [1, 1]) (Some 2) False = Inr example_two_envs \<and>
   batch_B example_two_envs = 2 \<and>
   sanitize_envs_idx example_two_envs (SelArray (tensor1 [5])) True = Inr (tensor1 [5]) \<and>
   sanitize_envs_idx example_two_envs (SelArray \<lparr>t_shape = [2, 1], t_data = [0, 1]\<rparr>) True =
     Inr \<lparr>t_shape = [2, 1], t_data = [0, 1]\<rparr> \<and>
   sanitize_envs_idx example_two_envs (SelArray \<lparr>t_shape = [], t_data = [1]\<rparr>) False =
     Inr (tensor1 [1]) \<and>
   sanitize_envs_idx example_two_envs (SelArray (tensor1 [4294967296])) False =
     Inr (tensor1 [0])"
proof -
  have u: "[0..<2] = [0, 1]" by (simp add: upt_conv_Cons)
  have p1: "parallelize example_floats False 1 (SpacingTuple [1, 1]) (Some 1) False = Inr example_one_env"
    by (simp add: parallelize_def Let_def example_one_env_def grid_offsets_def
        np_floordiv_def np_mod_def example_floats_simps round_eighth_values)
  have p2: "parallelize example_floats False 2 (SpacingTuple [1, 1]) (Some 2) False = Inr example_two_envs"
    by (simp add: parallelize_def Let_def example_two_envs_def grid_offsets_def
        np_floordiv_def np_mod_def u example_floats_simps round_eighth_values)
  have s: "sanitize_envs_idx example_one_env (SelArray (tensor1 [0])) False = Inr (tensor1 [0])"
    "sanitize_envs_idx example_one_env (SelInt 0) False = Inr (tensor1 [0])"
    "sanitize_envs_idx example_two_envs (SelArray (tensor1 [5])) True = Inr (tensor1 [5])"
    "sanitize_envs_idx example_two_envs (SelArray \<lparr>t_shape = [2, 1], t_data = [0, 1]\<rparr>) True =
       Inr \<lparr>t_shape = [2, 1], t_data = [0, 1]\<rparr>"
    "sanitize_envs_idx example_two_envs (SelArray \<lparr>t_shape = [], t_data = [1]\<rparr>) False =
       Inr (tensor1 [1])"
    "sanitize_envs_idx example_two_envs (SelArray (tensor1 [4294967296])) False =
       Inr (tensor1 [0])"
    by (simp_all add: sanitize_envs_idx_def example_one_env_def example_two_envs_def
        atleast_1d_def ndim_def tensor1_def py_slice_def clip_bound_def Let_def as_tensor_def
        to_tc_int_def)
  have b: "batch_B example_one_env = 1" "batch_B example_two_envs = 2"
    by (simp_all add: example_one_env_def example_two_envs_def)
  show ?thesis using p1 p2 s b by (intro conjI)
qed

section \<open>Checkpoints\<close>

lemma map_of_dict_update:
  "map_of (dict_update d other) = map_of d ++ map_of (rev other)"
  unfolding dict_update_def
proof (induction other arbitrary: d)
  case Nil
  show ?case by simp
next
  case (Cons p other)
  obtain k v where p: "p = (k, v)" by (cases p)
  show ?case
    by (auto simp: Cons.IH p update_conv' fun_eq_iff map_add_def split: option.splits)
qed

lemma map_of_fold_dumps:
  "map_of (fold (\<lambda>sv arrs. dict_update arrs (g sv)) svs d) =
     map_of d ++ map_of (rev (concat (map g svs)))"
proof (induction svs arbitrary: d)
  case Nil
  show ?case by simp
next
  case (Cons sv svs)
  show ?case by (simp add: Cons.IH map_of_dict_update)
qed

lemma map_of_rev_distinct:
  assumes "distinct (map fst xs)"
  shows "map_of (rev xs) = map_of xs"
  using assms
proof (induction xs)
  case Nil
  show ?case by simp
next
  case (Cons p xs)
  obtain k v where p: "p = (k, v)" by (cases p)
  have k: "k \<notin> fst ` set xs" using Cons.prems p by simp
  then have n: "map_of xs k = None" by (simp add: map_of_eq_None_iff)
  have ih: "map_of (rev xs) = map_of xs" using Cons by simp
  show ?case
    using n by (auto simp: p ih fun_eq_iff map_add_def split: option.splits)
qed

lemma ckpt_keys_scene:
  assumes "(name, v) \<in> set (sc_fields s)"
  shows "ckpt_key ''Scene'' name \<in> set (ckpt_keys s)"
  using assms by (force simp: ckpt_keys_def)

lemma ckpt_keys_solver:
  assumes "sv \<in> set (sc_active_solvers s)" "(name, v) \<in> set (solver_fields sv)"
  shows "ckpt_key (solver_class sv) name \<in> set (ckpt_keys s)"
  using assms by (force simp: ckpt_keys_def solver_dump_ckpt_def)

lemma ckpt_keys_pairs: "map fst (ckpt_pairs s) = ckpt_keys s"
proof -
  have a: "map fst (map (\<lambda>(name, field). (ckpt_key ''Scene'' name, field)) (sc_fields s)) =
           map (\<lambda>(name, field). ckpt_key ''Scene'' name) (sc_fields s)"
    by (simp add: case_prod_beta)
  show ?thesis
    unfolding ckpt_pairs_def ckpt_keys_def map_append a
    by (simp add: map_concat comp_def)
qed

lemma dump_map_of: "map_of (dump_ckpt_to_numpy s) = map_of (rev (ckpt_pairs s))"
  unfolding dump_ckpt_to_numpy_def ckpt_pairs_def map_of_fold_dumps map_of_dict_update
  by simp

lemma dump_keys: "fst ` set (dump_ckpt_to_numpy s) = set (ckpt_keys s)"
proof -
  have "fst ` set (dump_ckpt_to_numpy s) = dom (map_of (dump_ckpt_to_numpy s))"
    by (simp add: dom_map_of_conv_image_fst)
  also have "\<dots> = fst ` set (rev (ckpt_pairs s))"
    unfolding dump_map_of by (simp only: dom_map_of_conv_image_fst)
  also have "\<dots> = set (map fst (ckpt_pairs s))" by simp
  finally show ?thesis unfolding ckpt_keys_pairs .
qed

lemma dump_lookup:
  assumes "distinct (ckpt_keys s)" "(k, v) \<in> set (ckpt_pairs s)"
  shows "map_of (dump_ckpt_to_numpy s) k = Some v"
proof -
  have d: "distinct (map fst (ckpt_pairs s))" using assms(1) by (simp only: ckpt_keys_pairs)
  show ?thesis
    unfolding dump_map_of map_of_rev_distinct[OF d]
    using d assms(2) by (rule map_of_is_SomeI)
qed

lemma load_fields_names: "map fst (load_fields cls arrs flds) = map fst flds"
  by (simp add: load_fields_def case_prod_beta comp_def)

lemma load_fields_absent:
  assumes "(name, v) \<in> set flds" "map_of arrs (ckpt_key cls name) = None"
  shows "(name, v) \<in> set (load_fields cls arrs flds)"
  using assms by (force simp: load_fields_def)

lemma load_fields_cong:
  assumes "\<And>name v. (name, v) \<in> set flds \<Longrightarrow>
             map_of arrs (ckpt_key cls name) = map_of arrs' (ckpt_key cls name)"
  shows "load_fields cls arrs flds = load_fields cls arrs' flds"
  unfolding load_fields_def
  by (rule map_cong[OF refl]) (auto simp: assms)

lemma load_fields_restore:
  assumes "map fst flds' = map fst flds"
    and "\<And>name v. (name, v) \<in> set flds \<Longrightarrow> map_of arrs (ckpt_key cls name) = Some v"
  shows "load_fields cls arrs flds' = flds"
  using assms
proof (induction flds' arbitrary: flds)
  case Nil
  then show ?case by (simp add: load_fields_def)
next
  case (Cons p ps)
  obtain q qs where f: "flds = q # qs" using Cons.prems(1) by (cases flds) auto
  obtain name v' where p: "p = (name, v')" by (cases p)
  obtain name2 v where q: "q = (name2, v)" by (cases q)
  have n: "name2 = name" using Cons.prems(1) f p q by simp
  have t: "map fst ps = map fst qs" using Cons.prems(1) f by simp
  have ih: "load_fields cls arrs ps = qs"
    by (rule Cons.IH[OF t]) (simp add: Cons.prems(2) f)
  have h: "map_of arrs (ckpt_key cls name) = Some v"
    using Cons.prems(2)[of name v] f q n by simp
  have "load_fields cls arrs (p # ps) = (name, v) # load_fields cls arrs ps"
    by (simp add: load_fields_def p h)
  then show ?case by (simp add: ih f q n)
qed

lemma solvers_restore:
  assumes "map solver_class svs' = map solver_class svs"
    and "map (\<lambda>sv. map fst (solver_fields sv)) svs' = map (\<lambda>sv. map fst (solver_fields sv)) svs"
    and "\<And>sv name v. sv \<in> set svs \<Longrightarrow> (name, v) \<in> set (solver_fields sv) \<Longrightarrow>
           map_of arrs (ckpt_key (solver_class sv) name) = Some v"
  shows "map (solver_load_ckpt arrs) svs' = svs"
  using assms
proof (induction svs' arbitrary: svs)
  case Nil
  then show ?case by simp
next
  case (Cons p ps)
  obtain q qs where f: "svs = q # qs" using Cons.prems(1) by (cases svs) auto
  have c: "solver_class p = solver_class q" using Cons.prems(1) f by simp
  have n: "map fst (solver_fields p) = map fst (solver_fields q)" using Cons.prems(2) f by simp
  have ih: "map (solver_load_ckpt arrs) ps = qs"
  proof (rule Cons.IH)
    show "map solver_class ps = map solver_class qs" using Cons.prems(1) f by simp
    show "map (\<lambda>sv. map fst (solver_fields sv)) ps = map (\<lambda>sv. map fst (solver_fields sv)) qs"
      using Cons.prems(2) f by simp
    show "\<And>sv name v. sv \<in> set qs \<Longrightarrow> (name, v) \<in> set (solver_fields sv) \<Longrightarrow>
           map_of arrs (ckpt_key (solver_class sv) name) = Some v"
      using Cons.prems(3) f by simp
  qed
  have l: "load_fields (solver_class q) arrs (solver_fields p) = solver_fields q"
    by (rule load_fields_restore[OF n]) (simp add: Cons.prems(3) f)
  have "solver_load_ckpt arrs p = q"
    by (simp add: solver_load_ckpt_def c l)
  then show ?case by (simp add: ih f)
qed

lemma solvers_cong:
  assumes "\<And>sv name v. sv \<in> set svs \<Longrightarrow> (name, v) \<in> set (solver_fields sv) \<Longrightarrow>
           map_of arrs (ckpt_key (solver_class sv) name) =
           map_of arrs' (ckpt_key (solver_class sv) name)"
  shows "map (solver_load_ckpt arrs) svs = map (solver_load_ckpt arrs') svs"
proof (rule map_cong[OF refl])
  fix sv assume m: "sv \<in> set svs"
  have "load_fields (solver_class sv) arrs (solver_fields sv) =
        load_fields (solver_class sv) arrs' (solver_fields sv)"
    by (rule load_fields_cong) (rule assms[OF m])
  then show "solver_load_ckpt arrs sv = solver_load_ckpt arrs' sv"
    by (simp add: solver_load_ckpt_def)
qed

text \<open>
  C5. \<^verbatim>\<open>save_checkpoint\<close> writes one record at the path, unless the file cannot be
  opened: the time stamp, the step index \<open>t\<close> and the flat map of arrays, whose keys are
  exactly the keys of the fields of the scene and of its active solvers; when these keys
  are distinct, every field is in the map under its key. \<^verbatim>\<open>load_checkpoint\<close> of a record
  keeps the names of the buffers, leaves a buffer whose key is absent as it is, and sets
  \<open>t\<close> to the stored step index (to the old \<open>t\<close> when the record has none); keys that no
  buffer of the scene has are ignored, as two records that agree on the keys of the scene
  load to the same result. Saving a scene with distinct keys and loading the file into a
  scene of the same configuration gives that scene with the fields, the solver buffers
  and \<open>t\<close> of the saved one.
\<close>

theorem checkpoint_round_trip:
  "(fs path \<noteq> Unopenable \<longrightarrow>
      save_checkpoint now path s fs =
        Inr (fs(path := Pickle \<lparr>timestamp = now, step_index = Some (sc_t s),
                                  arrays = dump_ckpt_to_numpy s\<rparr>)) \<and>
      fst ` set (dump_ckpt_to_numpy s) = set (ckpt_keys s)) \<and>
   (distinct (ckpt_keys s) \<and> (k, v) \<in> set (ckpt_pairs s) \<longrightarrow>
      map_of (dump_ckpt_to_numpy s) k = Some v) \<and>
   (fsa path = Pickle st \<longrightarrow>
      (\<exists>s2. load_checkpoint path fsa s' = Inr s2 \<and>
            map fst (sc_fields s2) = map fst (sc_fields s') \<and>
            (\<forall>name w. (name, w) \<in> set (sc_fields s') \<and>
                      map_of (arrays st) (ckpt_key ''Scene'' name) = None \<longrightarrow>
                      (name, w) \<in> set (sc_fields s2)) \<and>
            sc_t s2 = (case step_index st of None \<Rightarrow> sc_t s' | Some i \<Rightarrow> i))) \<and>
   (fsb path = Pickle stb \<and> fsc path = Pickle stc \<and> step_index stb = step_index stc \<and>
    (\<forall>key \<in> set (ckpt_keys s'). map_of (arrays stb) key = map_of (arrays stc) key) \<longrightarrow>
      load_checkpoint path fsb s' = load_checkpoint path fsc s') \<and>
   (distinct (ckpt_keys s) \<and> same_config s s' \<and> save_checkpoint now path s fs = Inr fs' \<longrightarrow>
      load_checkpoint path fs' s' =
        Inr (s'\<lparr>sc_fields := sc_fields s, sc_active_solvers := sc_active_solvers s,
                  sc_t := sc_t s\<rparr>))"
proof -
  have c1: "fs path \<noteq> Unopenable \<longrightarrow>
      save_checkpoint now path s fs =
        Inr (fs(path := Pickle \<lparr>timestamp = now, step_index = Some (sc_t s),
                                  arrays = dump_ckpt_to_numpy s\<rparr>)) \<and>
      fst ` set (dump_ckpt_to_numpy s) = set (ckpt_keys s)"
    by (simp add: save_checkpoint_def Let_def dump_keys)
  have c2: "distinct (ckpt_keys s) \<and> (k, v) \<in> set (ckpt_pairs s) \<longrightarrow>
      map_of (dump_ckpt_to_numpy s) k = Some v"
    by (intro impI, elim conjE) (rule dump_lookup)
  have c3: "fsa path = Pickle st \<longrightarrow>
      (\<exists>s2. load_checkpoint path fsa s' = Inr s2 \<and>
            map fst (sc_fields s2) = map fst (sc_fields s') \<and>
            (\<forall>name w. (name, w) \<in> set (sc_fields s') \<and>
                      map_of (arrays st) (ckpt_key ''Scene'' name) = None \<longrightarrow>
                      (name, w) \<in> set (sc_fields s2)) \<and>
            sc_t s2 = (case step_index st of None \<Rightarrow> sc_t s' | Some i \<Rightarrow> i))"
    by (simp add: load_checkpoint_def load_fields_names load_fields_absent)
  have c4: "fsb path = Pickle stb \<and> fsc path = Pickle stc \<and> step_index stb = step_index stc \<and>
    (\<forall>key \<in> set (ckpt_keys s'). map_of (arrays stb) key = map_of (arrays stc) key) \<longrightarrow>
      load_checkpoint path fsb s' = load_checkpoint path fsc s'"
  proof
    assume h: "fsb path = Pickle stb \<and> fsc path = Pickle stc \<and> step_index stb = step_index stc \<and>
      (\<forall>key \<in> set (ckpt_keys s'). map_of (arrays stb) key = map_of (arrays stc) key)"
    then have a: "\<forall>key \<in> set (ckpt_keys s'). map_of (arrays stb) key = map_of (arrays stc) key"
      by (elim conjE)
    have f: "load_fields ''Scene'' (arrays stb) (sc_fields s') =
             load_fields ''Scene'' (arrays stc) (sc_fields s')"
    proof (rule load_fields_cong)
      fix name w assume "(name, w) \<in> set (sc_fields s')"
      then have "ckpt_key ''Scene'' name \<in> set (ckpt_keys s')" by (rule ckpt_keys_scene)
      then show "map_of (arrays stb) (ckpt_key ''Scene'' name) =
                 map_of (arrays stc) (ckpt_key ''Scene'' name)"
        using a by (rule bspec[rotated])
    qed
    have g: "map (solver_load_ckpt (arrays stb)) (sc_active_solvers s') =
             map (solver_load_ckpt (arrays stc)) (sc_active_solvers s')"
    proof (rule solvers_cong)
      fix sv name w
      assume "sv \<in> set (sc_active_solvers s')" "(name, w) \<in> set (solver_fields sv)"
      then have "ckpt_key (solver_class sv) name \<in> set (ckpt_keys s')"
        by (rule ckpt_keys_solver)
      then show "map_of (arrays stb) (ckpt_key (solver_class sv) name) =
                 map_of (arrays stc) (ckpt_key (solver_class sv) name)"
        using a by (rule bspec[rotated])
    qed
    show "load_checkpoint path fsb s' = load_checkpoint path fsc s'"
      using h by (simp add: load_checkpoint_def f g)
  qed
  have c5: "distinct (ckpt_keys s) \<and> same_config s s' \<and> save_checkpoint now path s fs = Inr fs' \<longrightarrow>
      load_checkpoint path fs' s' =
        Inr (s'\<lparr>sc_fields := sc_fields s, sc_active_solvers := sc_active_solvers s,
                  sc_t := sc_t s\<rparr>)"
  proof
    assume h: "distinct (ckpt_keys s) \<and> same_config s s' \<and> save_checkpoint now path s fs = Inr fs'"
    then have d: "distinct (ckpt_keys s)" and sc: "same_config s s'"
      and sv: "save_checkpoint now path s fs = Inr fs'" by simp_all
    define arrs where "arrs = dump_ckpt_to_numpy s"
    have p: "fs' path = Pickle \<lparr>timestamp = now, step_index = Some (sc_t s), arrays = arrs\<rparr>"
      using sv by (auto simp: save_checkpoint_def Let_def arrs_def split: if_splits)
    have f: "load_fields ''Scene'' arrs (sc_fields s') = sc_fields s"
    proof (rule load_fields_restore)
      show "map fst (sc_fields s') = map fst (sc_fields s)"
        using sc by (simp add: same_config_def)
      fix name w assume m: "(name, w) \<in> set (sc_fields s)"
      have "(ckpt_key ''Scene'' name, w) \<in> set (ckpt_pairs s)"
        using m by (force simp: ckpt_pairs_def)
      then show "map_of arrs (ckpt_key ''Scene'' name) = Some w"
        unfolding arrs_def by (rule dump_lookup[OF d])
    qed
    have g: "map (solver_load_ckpt arrs) (sc_active_solvers s') = sc_active_solvers s"
    proof (rule solvers_restore)
      show "map solver_class (sc_active_solvers s') = map solver_class (sc_active_solvers s)"
        using sc by (simp add: same_config_def)
      show "map (\<lambda>sv. map fst (solver_fields sv)) (sc_active_solvers s') =
            map (\<lambda>sv. map fst (solver_fields sv)) (sc_active_solvers s)"
        using sc by (simp add: same_config_def)
      fix sv name w
      assume m: "sv \<in> set (sc_active_solvers s)" "(name, w) \<in> set (solver_fields sv)"
      have "(ckpt_key (solver_class sv) name, w) \<in> set (ckpt_pairs s)"
        using m by (force simp: ckpt_pairs_def solver_dump_ckpt_def)
      then show "map_of arrs (ckpt_key (solver_class sv) name) = Some w"
        unfolding arrs_def by (rule dump_lookup[OF d])
    qed
    show "load_checkpoint path fs' s' =
        Inr (s'\<lparr>sc_fields := sc_fields s, sc_active_solvers := sc_active_solvers s,
                  sc_t := sc_t s\<rparr>)"
      by (simp add: load_checkpoint_def p f g)
  qed
  show ?thesis using c1 c2 c3 c4 c5 by (intro conjI)
qed

lemma example_scene_ckpt:
  "sc_fields example_scene = [(''marker'', 7)]"
  "sc_active_solvers example_scene =
     [\<lparr>solver_class = ''RigidSolver'', solver_fields = [(''pos'', 1), (''vel'', 2)]\<rparr>,
      \<lparr>solver_class = ''MPMSolver'', solver_fields = [(''pos'', 3)]\<rparr>]"
  "sc_t example_scene = 2"
  by (simp_all add: example_scene_def example_unbuilt_def scene_init_def)

lemma example_fresh_ckpt:
  "sc_fields example_fresh = [(''marker'', 0)]"
  "sc_active_solvers example_fresh =
     [\<lparr>solver_class = ''RigidSolver'', solver_fields = [(''pos'', 0), (''vel'', 0)]\<rparr>,
      \<lparr>solver_class = ''MPMSolver'', solver_fields = [(''pos'', 0)]\<rparr>]"
  "sc_t example_fresh = 0"
  by (simp_all add: example_fresh_def scene_init_def)

lemma example_pairs:
  "ckpt_pairs example_scene =
     [(''Scene.marker'', 7), (''RigidSolver.pos'', 1), (''RigidSolver.vel'', 2),
      (''MPMSolver.pos'', 3)]"
  by (simp add: ckpt_pairs_def example_scene_ckpt solver_dump_ckpt_def ckpt_key_def)

lemma example_keys:
  "ckpt_keys example_scene =
     [''Scene.marker'', ''RigidSolver.pos'', ''RigidSolver.vel'', ''MPMSolver.pos'']"
  "ckpt_keys example_fresh =
     [''Scene.marker'', ''RigidSolver.pos'', ''RigidSolver.vel'', ''MPMSolver.pos'']"
  by (simp_all add: ckpt_keys_def example_scene_ckpt example_fresh_ckpt solver_dump_ckpt_def
      ckpt_key_def)

lemma example_dump:
  "dump_ckpt_to_numpy example_scene =
     [(''Scene.marker'', 7), (''RigidSolver.pos'', 1), (''RigidSolver.vel'', 2),
      (''MPMSolver.pos'', 3)]"
  by (simp add: dump_ckpt_to_numpy_def dict_update_def example_scene_ckpt solver_dump_ckpt_def
      ckpt_key_def)

theorem checkpoint_round_trip_witness:
  "save_checkpoint 5 ''ckpt'' example_scene example_fs =
     Inr (example_fs(''ckpt'' := Pickle \<lparr>timestamp = 5, step_index = Some 2,
            arrays = [(''Scene.marker'', 7), (''RigidSolver.pos'', 1), (''RigidSolver.vel'', 2),
                      (''MPMSolver.pos'', 3)]\<rparr>)) \<and>
   map_of (dump_ckpt_to_numpy example_scene) ''RigidSolver.vel'' = Some 2 \<and>
   load_checkpoint ''ckpt''
       (example_fs(''ckpt'' := Pickle \<lparr>timestamp = 5, step_index = Some 2,
            arrays = [(''Scene.marker'', 7), (''RigidSolver.pos'', 1), (''RigidSolver.vel'', 2),
                      (''MPMSolver.pos'', 3)]\<rparr>))
       example_fresh =
     Inr (example_fresh\<lparr>sc_fields := [(''marker'', 7)],
            sc_active_solvers :=
              [\<lparr>solver_class = ''RigidSolver'', solver_fields = [(''pos'', 1), (''vel'', 2)]\<rparr>,
               \<lparr>solver_class = ''MPMSolver'', solver_fields = [(''pos'', 3)]\<rparr>],
            sc_t := 2\<rparr>) \<and>
   (\<exists>s2. load_checkpoint ''ckpt'' (example_fs(''ckpt'' := Pickle example_record_other))
            example_fresh = Inr s2 \<and>
         (''marker'', 0) \<in> set (sc_fields s2) \<and> sc_t s2 = 0) \<and>
   load_checkpoint ''ckpt'' (example_fs(''ckpt'' := Pickle example_record)) example_fresh =
   load_checkpoint ''ckpt''
     (example_fs(''ckpt'' :=
        Pickle (example_record\<lparr>arrays := (''Other.x'', 1) # arrays example_record\<rparr>)))
     example_fresh"
proof -
  define fs' where "fs' = example_fs(''ckpt'' := Pickle \<lparr>timestamp = 5, step_index = Some 2,
            arrays = [(''Scene.marker'', 7), (''RigidSolver.pos'', 1), (''RigidSolver.vel'', 2),
                      (''MPMSolver.pos'', 3::nat)]\<rparr>)"
  define fsa where "fsa = example_fs(''ckpt'' := Pickle example_record_other)"
  define fsb where "fsb = example_fs(''ckpt'' := Pickle example_record)"
  define stc where "stc = example_record\<lparr>arrays := (''Other.x'', 1) # arrays example_record\<rparr>"
  define fsc where "fsc = example_fs(''ckpt'' := Pickle stc)"
  note t = checkpoint_round_trip[where fs = example_fs and path = "''ckpt''" and now = 5
      and s = example_scene and k = "''RigidSolver.vel''" and v = 2 and fsa = fsa
      and st = example_record_other and s' = example_fresh and fsb = fsb
      and stb = example_record and fsc = fsc and stc = stc and fs' = fs']
  have h1: "example_fs ''ckpt'' \<noteq> Unopenable" by (simp add: example_fs_def)
  have h2: "distinct (ckpt_keys example_scene)" by (simp add: example_keys)
  have h3: "(''RigidSolver.vel'', 2) \<in> set (ckpt_pairs example_scene)"
    by (simp add: example_pairs)
  have h4: "fsa ''ckpt'' = Pickle example_record_other" by (simp add: fsa_def)
  have h5: "fsb ''ckpt'' = Pickle example_record" "fsc ''ckpt'' = Pickle stc"
    "step_index example_record = step_index stc"
    by (simp_all add: fsb_def fsc_def stc_def)
  have h6: "\<forall>key \<in> set (ckpt_keys example_fresh).
              map_of (arrays example_record) key = map_of (arrays stc) key"
    by (simp add: example_keys stc_def example_record_def)
  have h7: "same_config example_scene example_fresh"
    by (simp add: same_config_def example_scene_ckpt example_fresh_ckpt)
  have w1: "save_checkpoint 5 ''ckpt'' example_scene example_fs = Inr fs'"
    using t h1 by (simp add: example_dump example_scene_ckpt fs'_def)
  have w2: "map_of (dump_ckpt_to_numpy example_scene) ''RigidSolver.vel'' = Some 2"
    using t h2 h3 by (elim conjE) simp
  have w3: "load_checkpoint ''ckpt'' fs' example_fresh =
     Inr (example_fresh\<lparr>sc_fields := [(''marker'', 7)],
            sc_active_solvers :=
              [\<lparr>solver_class = ''RigidSolver'', solver_fields = [(''pos'', 1), (''vel'', 2)]\<rparr>,
               \<lparr>solver_class = ''MPMSolver'', solver_fields = [(''pos'', 3)]\<rparr>],
            sc_t := 2\<rparr>)"
    using t h2 h7 w1 by (elim conjE) (simp add: example_scene_ckpt)
  have w4: "\<exists>s2. load_checkpoint ''ckpt'' fsa example_fresh = Inr s2 \<and>
         (''marker'', 0) \<in> set (sc_fields s2) \<and> sc_t s2 = 0"
  proof -
    obtain s2 where l: "load_checkpoint ''ckpt'' fsa example_fresh = Inr s2"
      and a: "\<forall>name w. (name, w) \<in> set (sc_fields example_fresh) \<and>
                      map_of (arrays example_record_other) (ckpt_key ''Scene'' name) = None \<longrightarrow>
                      (name, w) \<in> set (sc_fields s2)"
      and b: "sc_t s2 = (case step_index example_record_other of None \<Rightarrow> sc_t example_fresh
                         | Some i \<Rightarrow> i)"
      using t h4 by (elim conjE) blast
    have "(''marker'', 0) \<in> set (sc_fields s2)"
      using a[rule_format, of "''marker''" 0]
      by (simp add: example_fresh_ckpt example_record_other_def ckpt_key_def)
    moreover have "sc_t s2 = 0"
      using b by (simp add: example_record_other_def example_fresh_ckpt)
    ultimately show ?thesis using l by blast
  qed
  have w5: "load_checkpoint ''ckpt'' fsb example_fresh = load_checkpoint ''ckpt'' fsc example_fresh"
    using t h5 h6 by (elim conjE) simp
  show ?thesis
    using w1 w2 w3 w4 w5 unfolding fs'_def fsa_def fsb_def fsc_def stc_def
    by (intro conjI)
qed

end
